theory Spec2Isabelle
  imports Main "HOL-Library.Word" "HOL-Library.Monad_Syntax"
begin

section \<open>The Ledger contract\<close>

type_synonym uint256 = "256 word"
type_synonym address = "160 word"
type_synonym u32 = "32 word"

subsection \<open>Encrypted values\<close>

text \<open>
  Modelled from the spec: the FHE library (\<^verbatim>\<open>@fhevm/solidity/lib/FHE.sol\<close>) is a
  dependency of the contract and not part of the repository. The spec says that balances
  and amounts are stored encrypted; beyond that the model follows the behaviour of the
  library, its executor and its access-control list (ACL) as far as the contract uses
  them. Gas and the executor's limit on the work of one transaction are left out.

  An \<^verbatim>\<open>euint32\<close> or \<^verbatim>\<open>ebool\<close> is a \<^verbatim>\<open>bytes32\<close> handle. The ciphertext behind a handle
  lives off chain: the contract sees and stores handles only. The executor derives the
  handle of a result by hashing the operator and the operand handles, and the handle of a
  trivial encryption by hashing the plaintext; the model takes the hash to be injective
  and writes a handle as the term it was derived from. \<open>ZeroHandle\<close> is \<^verbatim>\<open>bytes32(0)\<close>, the
  content of a storage slot never written. \<open>InputHandle i\<close> is the handle of the
  ciphertext number \<open>i\<close> that a user produced off chain.
\<close>

datatype operator = fheAdd | fheSub | fheMul | fheGt

datatype handle =
  ZeroHandle
| TrivialEncrypt u32
| InputHandle nat
| Computed operator handle handle

type_synonym euint32 = handle
type_synonym ebool = handle

text \<open>
  The clear value behind a handle, given the clear values \<open>\<rho>\<close> that the users put into
  their input ciphertexts. It is what decryption returns; no function of the contract
  takes \<open>\<rho>\<close>. \<^verbatim>\<open>euint32\<close> arithmetic wraps modulo \<open>2 ^ 32\<close>; a comparison yields 1 or 0; the
  zero handle reads as 0 and as \<^verbatim>\<open>false\<close>.
\<close>

fun clear32 :: "(nat \<Rightarrow> u32) \<Rightarrow> handle \<Rightarrow> u32" where
  "clear32 \<rho> ZeroHandle = 0"
| "clear32 \<rho> (TrivialEncrypt v) = v"
| "clear32 \<rho> (InputHandle i) = \<rho> i"
| "clear32 \<rho> (Computed op a b) =
     (case op of
        fheAdd \<Rightarrow> clear32 \<rho> a + clear32 \<rho> b
      | fheSub \<Rightarrow> clear32 \<rho> a - clear32 \<rho> b
      | fheMul \<Rightarrow> clear32 \<rho> a * clear32 \<rho> b
      | fheGt \<Rightarrow> (if clear32 \<rho> b < clear32 \<rho> a then 1 else 0))"

definition clearBool :: "(nat \<Rightarrow> u32) \<Rightarrow> handle \<Rightarrow> bool" where
  "clearBool \<rho> h = (clear32 \<rho> h \<noteq> 0)"

text \<open>
  An \<^verbatim>\<open>externalEuint32\<close> together with its input proof: the number of the ciphertext, and
  whether the proof verifies for the caller and the contract.
\<close>

record externalInput =
  ext_id :: nat
  ext_proof_ok :: bool

subsection \<open>Storage\<close>

record UserAccount =
  balance :: euint32
  monthlyExpense :: euint32
  monthlyBudget :: euint32
  isOverBudget :: ebool
  isBudgetWarning :: ebool
  lastUpdateMonth :: uint256

record Transaction =
  amount :: euint32
  timestamp :: uint256
  category :: uint256
  isIncome :: bool
  month :: uint256

datatype event =
  TransactionAdded address uint256
| BudgetUpdated address
| BalanceUpdated address

text \<open>
  The ACL allows an account on a handle. The accounts that matter here are the contract
  itself (\<^verbatim>\<open>address(this)\<close>) and the users.
\<close>

datatype party = This | User address

text \<open>
  The chain state a call works on: the three mappings of the contract, the events
  emitted so far, and the ACL. \<open>persistedAllowed\<close> are the allowances the ACL keeps in
  storage; \<open>transientAllowed\<close> are the handles the contract is allowed on for the
  current transaction only: the ACL keeps them in transient storage, which is empty when
  a transaction starts.
\<close>

record Ledger =
  accounts :: "address \<Rightarrow> UserAccount"
  transactions :: "address \<Rightarrow> Transaction list"
  categoryTotals :: "address \<Rightarrow> uint256 \<Rightarrow> euint32"
  events :: "event list"
  persistedAllowed :: "(handle \<times> party) set"
  transientAllowed :: "handle set"

definition emptyAccount :: UserAccount where
  "emptyAccount = \<lparr>balance = ZeroHandle, monthlyExpense = ZeroHandle, monthlyBudget = ZeroHandle,
     isOverBudget = ZeroHandle, isBudgetWarning = ZeroHandle, lastUpdateMonth = 0\<rparr>"

text \<open>A freshly deployed contract: every slot is zero and the ACL knows no handle.\<close>

definition deployed :: Ledger where
  "deployed = \<lparr>accounts = (\<lambda>_. emptyAccount), transactions = (\<lambda>_. []),
     categoryTotals = (\<lambda>_ _. ZeroHandle), events = [],
     persistedAllowed = {}, transientAllowed = {}\<rparr>"

subsection \<open>The FHE library\<close>

text \<open>
  A library function takes the state and returns its result with the new state, or
  \<open>None\<close> when it reverts. \<^verbatim>\<open>ACL.isAllowed\<close>: an account is allowed on a handle by a
  persisted allowance, and the contract also by a transient one.
\<close>

definition isAllowed :: "Ledger \<Rightarrow> handle \<Rightarrow> party \<Rightarrow> bool" where
  "isAllowed s h p = ((p = This \<and> h \<in> transientAllowed s) \<or> (h, p) \<in> persistedAllowed s)"

definition allowTransient :: "handle \<Rightarrow> Ledger \<Rightarrow> Ledger" where
  "allowTransient h s = s\<lparr>transientAllowed := insert h (transientAllowed s)\<rparr>"

text \<open>
  \<^verbatim>\<open>FHE.asEuint32\<close> (the executor's \<^verbatim>\<open>trivialEncrypt\<close>) and \<^verbatim>\<open>FHE.fromExternal\<close> (the
  executor's \<^verbatim>\<open>verifyCiphertext\<close>) allow the contract on their result for the current
  transaction. \<^verbatim>\<open>FHE.fromExternal\<close> reverts when the input proof does not verify.
\<close>

definition FHE_asEuint32 :: "u32 \<Rightarrow> Ledger \<Rightarrow> euint32 \<times> Ledger" where
  "FHE_asEuint32 v s = (TrivialEncrypt v, allowTransient (TrivialEncrypt v) s)"

definition FHE_fromExternal :: "externalInput \<Rightarrow> Ledger \<Rightarrow> (euint32 \<times> Ledger) option" where
  "FHE_fromExternal inp s =
     (if ext_proof_ok inp
      then Some (InputHandle (ext_id inp), allowTransient (InputHandle (ext_id inp)) s)
      else None)"

text \<open>
  A binary operation of the executor reverts with \<^verbatim>\<open>ACLNotAllowed\<close> unless the calling
  contract is allowed on both operand handles; it allows the contract on the result for
  the current transaction. \<^verbatim>\<open>FHE.add\<close>, \<^verbatim>\<open>FHE.sub\<close>, \<^verbatim>\<open>FHE.mul\<close> and \<^verbatim>\<open>FHE.gt\<close> first
  replace an operand that is not initialized by \<^verbatim>\<open>asEuint32(0)\<close>.
\<close>

definition binaryOp :: "operator \<Rightarrow> handle \<Rightarrow> handle \<Rightarrow> Ledger \<Rightarrow> (handle \<times> Ledger) option" where
  "binaryOp op lhs rhs s =
     (if isAllowed s lhs This \<and> isAllowed s rhs This
      then Some (Computed op lhs rhs, allowTransient (Computed op lhs rhs) s)
      else None)"

definition initialized :: "handle \<Rightarrow> Ledger \<Rightarrow> handle \<times> Ledger" where
  "initialized h s = (if h = ZeroHandle then FHE_asEuint32 0 s else (h, s))"

definition FHE_binary :: "operator \<Rightarrow> handle \<Rightarrow> handle \<Rightarrow> Ledger \<Rightarrow> (handle \<times> Ledger) option" where
  "FHE_binary op a b s =
     (let (a, s) = initialized a s;
          (b, s) = initialized b s
      in binaryOp op a b s)"

definition FHE_add :: "euint32 \<Rightarrow> euint32 \<Rightarrow> Ledger \<Rightarrow> (euint32 \<times> Ledger) option" where
  "FHE_add = FHE_binary fheAdd"

definition FHE_sub :: "euint32 \<Rightarrow> euint32 \<Rightarrow> Ledger \<Rightarrow> (euint32 \<times> Ledger) option" where
  "FHE_sub = FHE_binary fheSub"

definition FHE_mul :: "euint32 \<Rightarrow> euint32 \<Rightarrow> Ledger \<Rightarrow> (euint32 \<times> Ledger) option" where
  "FHE_mul = FHE_binary fheMul"

definition FHE_gt :: "euint32 \<Rightarrow> euint32 \<Rightarrow> Ledger \<Rightarrow> (ebool \<times> Ledger) option" where
  "FHE_gt = FHE_binary fheGt"

text \<open>
  \<^verbatim>\<open>FHE.allow\<close> persists an allowance; the ACL reverts unless the calling contract is
  itself allowed on the handle. \<^verbatim>\<open>FHE.allowThis(h)\<close> is \<^verbatim>\<open>FHE.allow(h, address(this))\<close>.
\<close>

definition FHE_allow :: "handle \<Rightarrow> party \<Rightarrow> Ledger \<Rightarrow> Ledger option" where
  "FHE_allow h p s =
     (if isAllowed s h This
      then Some (s\<lparr>persistedAllowed := insert (h, p) (persistedAllowed s)\<rparr>)
      else None)"

definition FHE_allowThis :: "handle \<Rightarrow> Ledger \<Rightarrow> Ledger option" where
  "FHE_allowThis h = FHE_allow h This"

subsection \<open>Internal functions\<close>

text \<open>\<open>sender\<close> is \<^verbatim>\<open>msg.sender\<close>; \<^verbatim>\<open>accounts[msg.sender]\<close> is updated in place.\<close>

definition isZero :: "handle \<Rightarrow> bool" where
  "isZero v = (v = ZeroHandle)"

definition account_update :: "address \<Rightarrow> (UserAccount \<Rightarrow> UserAccount) \<Rightarrow> Ledger \<Rightarrow> Ledger" where
  "account_update u f s = s\<lparr>accounts := (accounts s)(u := f (accounts s u))\<rparr>"

definition ensureNumericInitialized :: "address \<Rightarrow> Ledger \<Rightarrow> Ledger" where
  "ensureNumericInitialized sender s =
     (let s = (if isZero (balance (accounts s sender))
               then (let (zero, s) = FHE_asEuint32 0 s
                     in account_update sender (\<lambda>a. a\<lparr>balance := zero\<rparr>) s)
               else s);
          s = (if isZero (monthlyExpense (accounts s sender))
               then (let (zero, s) = FHE_asEuint32 0 s
                     in account_update sender (\<lambda>a. a\<lparr>monthlyExpense := zero\<rparr>) s)
               else s);
          s = (if isZero (monthlyBudget (accounts s sender))
               then (let (zero, s) = FHE_asEuint32 0 s
                     in account_update sender (\<lambda>a. a\<lparr>monthlyBudget := zero\<rparr>) s)
               else s)
      in s)"

definition allowIfNotZero :: "handle \<Rightarrow> address \<Rightarrow> Ledger \<Rightarrow> Ledger option" where
  "allowIfNotZero v sender s =
     (if \<not> isZero v
      then do { s \<leftarrow> FHE_allowThis v s; FHE_allow v (User sender) s }
      else Some s)"

definition updateBudgetFlags :: "address \<Rightarrow> Ledger \<Rightarrow> Ledger option" where
  "updateBudgetFlags sender s =
     do {
       let s = ensureNumericInitialized sender s;
       (over, s) \<leftarrow> FHE_gt (monthlyExpense (accounts s sender))
                           (monthlyBudget (accounts s sender)) s;
       let s = account_update sender (\<lambda>a. a\<lparr>isOverBudget := over\<rparr>) s;
       let (ten, s) = FHE_asEuint32 10 s;
       (expenseTimes10, s) \<leftarrow> FHE_mul (monthlyExpense (accounts s sender)) ten s;
       let (eight, s) = FHE_asEuint32 8 s;
       (budgetTimes8, s) \<leftarrow> FHE_mul (monthlyBudget (accounts s sender)) eight s;
       (warning, s) \<leftarrow> FHE_gt expenseTimes10 budgetTimes8 s;
       Some (account_update sender (\<lambda>a. a\<lparr>isBudgetWarning := warning\<rparr>) s)
     }"

subsection \<open>External functions\<close>

text \<open>
  A call is one transaction: it starts with empty transient allowances, and either
  reverts (\<open>None\<close>, the state stays as it was) or returns the new state.
\<close>

definition Ledger_addTransaction ::
  "address \<Rightarrow> externalInput \<Rightarrow> uint256 \<Rightarrow> uint256 \<Rightarrow> bool \<Rightarrow> uint256 \<Rightarrow> uint256
     \<Rightarrow> Ledger \<Rightarrow> Ledger option" where
  "Ledger_addTransaction sender amountInput ts cat income categoryKey mth s0 =
     do {
       let s = s0\<lparr>transientAllowed := {}\<rparr>;
       let s = ensureNumericInitialized sender s;
       (amt, s) \<leftarrow> FHE_fromExternal amountInput s;
       let newTransaction = \<lparr>amount = amt, timestamp = ts, category = cat,
                               isIncome = income, month = mth\<rparr>;
       let s = s\<lparr>transactions := (transactions s)
                     (sender := transactions s sender @ [newTransaction])\<rparr>;
       (bal, s) \<leftarrow> (if income then FHE_add (balance (accounts s sender)) amt s
                     else FHE_sub (balance (accounts s sender)) amt s);
       let s = account_update sender (\<lambda>a. a\<lparr>balance := bal\<rparr>) s;
       s \<leftarrow> FHE_allowThis (balance (accounts s sender)) s;
       s \<leftarrow> FHE_allow (balance (accounts s sender)) (User sender) s;
       s \<leftarrow> (if \<not> income
              then (if mth = lastUpdateMonth (accounts s sender)
                    then do {
                      (expense, s) \<leftarrow> FHE_add (monthlyExpense (accounts s sender)) amt s;
                      Some (account_update sender (\<lambda>a. a\<lparr>monthlyExpense := expense\<rparr>) s)
                    }
                    else Some (account_update sender
                                 (\<lambda>a. a\<lparr>monthlyExpense := amt, lastUpdateMonth := mth\<rparr>) s))
              else Some s);
       let s = (if isZero (categoryTotals s sender categoryKey)
                then (let (zero, s) = FHE_asEuint32 0 s
                      in s\<lparr>categoryTotals := (categoryTotals s)
                             (sender := (categoryTotals s sender)(categoryKey := zero))\<rparr>)
                else s);
       (total, s) \<leftarrow> FHE_add (categoryTotals s sender categoryKey) amt s;
       let s = s\<lparr>categoryTotals := (categoryTotals s)
                     (sender := (categoryTotals s sender)(categoryKey := total))\<rparr>;
       s \<leftarrow> updateBudgetFlags sender s;
       s \<leftarrow> allowIfNotZero (balance (accounts s sender)) sender s;
       s \<leftarrow> allowIfNotZero (monthlyExpense (accounts s sender)) sender s;
       s \<leftarrow> allowIfNotZero (isOverBudget (accounts s sender)) sender s;
       s \<leftarrow> allowIfNotZero (isBudgetWarning (accounts s sender)) sender s;
       Some (s\<lparr>events := events s @
                  [TransactionAdded sender (of_nat (length (transactions s sender) - 1)),
                   BalanceUpdated sender],
                transientAllowed := {}\<rparr>)
     }"

definition Ledger_setMonthlyBudget ::
  "address \<Rightarrow> externalInput \<Rightarrow> Ledger \<Rightarrow> Ledger option" where
  "Ledger_setMonthlyBudget sender budgetInput s0 =
     do {
       let s = s0\<lparr>transientAllowed := {}\<rparr>;
       let s = ensureNumericInitialized sender s;
       (budget, s) \<leftarrow> FHE_fromExternal budgetInput s;
       let s = account_update sender (\<lambda>a. a\<lparr>monthlyBudget := budget\<rparr>) s;
       s \<leftarrow> updateBudgetFlags sender s;
       s \<leftarrow> allowIfNotZero (monthlyBudget (accounts s sender)) sender s;
       s \<leftarrow> allowIfNotZero (isOverBudget (accounts s sender)) sender s;
       s \<leftarrow> allowIfNotZero (isBudgetWarning (accounts s sender)) sender s;
       Some (s\<lparr>events := events s @ [BudgetUpdated sender], transientAllowed := {}\<rparr>)
     }"

text \<open>The states that calls can produce from a fresh deployment.\<close>

inductive reachable :: "Ledger \<Rightarrow> bool" where
  reachable_deployed: "reachable deployed"
| reachable_addTransaction:
    "reachable s \<Longrightarrow>
     Ledger_addTransaction sender inp ts cat income key mth s = Some t \<Longrightarrow> reachable t"
| reachable_setMonthlyBudget:
    "reachable s \<Longrightarrow> Ledger_setMonthlyBudget sender inp s = Some t \<Longrightarrow> reachable t"

subsection \<open>Vocabulary of the properties\<close>

text \<open>
  The handle an FHE operation computes on when it is given \<open>h\<close>, and the handle
  \<^verbatim>\<open>_ensureNumericInitialized\<close> leaves in a field that held \<open>h\<close>: a zero handle becomes the
  trivial encryption of 0, whose clear value is the one the zero handle reads as.
\<close>

definition operand :: "handle \<Rightarrow> handle" where
  "operand h = (if h = ZeroHandle then TrivialEncrypt 0 else h)"

text \<open>An account one of whose three numeric fields was never written.\<close>

definition uninitialized :: "UserAccount \<Rightarrow> bool" where
  "uninitialized a =
     (balance a = ZeroHandle \<or> monthlyExpense a = ZeroHandle \<or> monthlyBudget a = ZeroHandle)"

text \<open>
  The type a handle carries: the executor gives the result of a comparison the type
  \<^verbatim>\<open>ebool\<close>, and an input, a trivial encryption and the result of an arithmetic operation
  the type \<^verbatim>\<open>euint32\<close>. The zero handle carries no type.
\<close>

fun isEuint32 :: "handle \<Rightarrow> bool" where
  "isEuint32 ZeroHandle = False"
| "isEuint32 (TrivialEncrypt v) = True"
| "isEuint32 (InputHandle i) = True"
| "isEuint32 (Computed op a b) = (op \<noteq> fheGt)"

fun isEbool :: "handle \<Rightarrow> bool" where
  "isEbool (Computed op a b) = (op = fheGt)"
| "isEbool h = False"

section \<open>The frontend: contract binding\<close>

text \<open>
  JavaScript numbers are modelled as integers: chain ids, months, timestamps, categories
  and amounts typed into the form. \<^verbatim>\<open>undefined\<close> is \<open>None\<close>.
\<close>

type_synonym number = int

function decimalDigits :: "nat \<Rightarrow> string" where
  "decimalDigits n =
     (if n < 10 then [''0123456789'' ! n]
      else decimalDigits (n div 10) @ [''0123456789'' ! (n mod 10)])"
  by pat_completeness auto
termination
  by (relation "measure id") auto

declare decimalDigits.simps [simp del]

text \<open>\<^verbatim>\<open>Number.prototype.toString()\<close> on an integer.\<close>

definition number_toString :: "number \<Rightarrow> string" where
  "number_toString n =
     (if n < 0 then CHR ''-'' # decimalDigits (nat (- n)) else decimalDigits (nat n))"

text \<open>
  The TypeScript type \<^verbatim>\<open>`0x${string}`\<close>: the string \<^verbatim>\<open>0x\<close> followed by the given one.
  Every value of the type is a non-empty string, so it is truthy.
\<close>

datatype hexString = Hex0x string

definition ZeroAddress :: hexString where
  "ZeroAddress = Hex0x ''0000000000000000000000000000000000000000''"

definition ZeroHash :: string where
  "ZeroHash = ''0x0000000000000000000000000000000000000000000000000000000000000000''"

datatype abi = LedgerABI

text \<open>
  \<^verbatim>\<open>LedgerAddresses\<close> is a generated file (\<^verbatim>\<open>@/abi/LedgerAddresses\<close>) that the repository
  does not hold; the functions below take the table as a parameter: from the decimal
  chain id to the entry deployed there.
\<close>

record LedgerAddressEntry =
  e_address :: hexString
  e_chainId :: "number option"
  e_chainName :: "string option"

type_synonym LedgerAddressTable = "string \<rightharpoonup> LedgerAddressEntry"

record LedgerInfoType =
  abi :: abi
  address :: "hexString option"
  chainId :: "number option"
  chainName :: "string option"

text \<open>\<^verbatim>\<open>!chainId\<close> holds for \<^verbatim>\<open>undefined\<close> and for \<open>0\<close>.\<close>

definition getLedgerByChainId :: "LedgerAddressTable \<Rightarrow> number option \<Rightarrow> LedgerInfoType" where
  "getLedgerByChainId LedgerAddresses cid =
     (case cid of
        None \<Rightarrow> \<lparr>abi = LedgerABI, address = None, chainId = None, chainName = None\<rparr>
      | Some c \<Rightarrow>
          if c = 0
          then \<lparr>abi = LedgerABI, address = None, chainId = None, chainName = None\<rparr>
          else (case LedgerAddresses (number_toString c) of
                  None \<Rightarrow> \<lparr>abi = LedgerABI, address = None, chainId = Some c, chainName = None\<rparr>
                | Some entry \<Rightarrow>
                    if e_address entry = ZeroAddress
                    then \<lparr>abi = LedgerABI, address = None, chainId = Some c, chainName = None\<rparr>
                    else \<lparr>abi = LedgerABI, address = Some (e_address entry),
                          chainId = (case e_chainId entry of None \<Rightarrow> Some c | Some ec \<Rightarrow> Some ec),
                          chainName = e_chainName entry\<rparr>))"

text \<open>
  The \<^verbatim>\<open>isDeployed\<close> memo of the hook. Its argument is the \<^verbatim>\<open>ledger\<close> memo, which is
  always an object; \<open>None\<close> stands for a falsy \<^verbatim>\<open>ledger\<close>, for which the memo returns
  \<^verbatim>\<open>undefined\<close>.
\<close>

definition isDeployed :: "LedgerInfoType option \<Rightarrow> bool option" where
  "isDeployed ledger =
     (case ledger of
        None \<Rightarrow> None
      | Some l \<Rightarrow> Some (address l \<noteq> None \<and> address l \<noteq> Some ZeroAddress))"

definition useLedger_isDeployed :: "LedgerAddressTable \<Rightarrow> number option \<Rightarrow> bool option" where
  "useLedger_isDeployed LedgerAddresses cid = isDeployed (Some (getLedgerByChainId LedgerAddresses cid))"


section \<open>The frontend: the useLedger hook\<close>

subsection \<open>Values\<close>

text \<open>
  A signer and an FHEVM instance are objects compared by identity; the model gives each
  an identifier.
\<close>

type_synonym signer = nat
type_synonym fhevmInstance = nat
type_synonym bytes = "8 word list"

text \<open>\<^verbatim>\<open>string | bigint | boolean\<close>, the clear value of a decrypted handle.\<close>

datatype clearValue = ClearString string | ClearBigint int | ClearBoolean bool

text \<open>String concatenation with a clear value that may be \<^verbatim>\<open>undefined\<close>.\<close>

fun clear_toString :: "clearValue option \<Rightarrow> string" where
  "clear_toString None = ''undefined''"
| "clear_toString (Some (ClearString t)) = t"
| "clear_toString (Some (ClearBigint n)) = number_toString n"
| "clear_toString (Some (ClearBoolean b)) = (if b then ''true'' else ''false'')"

record ClearValueType =
  handle :: string
  clear :: "clearValue option"

record FhevmDecryptionSignature =
  privateKey :: string
  publicKey :: string
  signature :: string
  contractAddresses :: "hexString list"
  userAddress :: hexString
  startTimestamp :: number
  durationDays :: number

text \<open>\<^verbatim>\<open>ethers.hexlify\<close> of a byte array.\<close>

definition hexByte :: "8 word \<Rightarrow> string" where
  "hexByte b = [''0123456789abcdef'' ! (unat b div 16), ''0123456789abcdef'' ! (unat b mod 16)]"

definition hexlify :: "bytes \<Rightarrow> string" where
  "hexlify bs = ''0x'' @ concat (map hexByte bs)"

datatype inputProof = ProofString string | ProofBytes bytes

text \<open>The result of \<^verbatim>\<open>encrypt()\<close> on an encrypted input.\<close>

record EncryptedInput =
  handles :: "bytes list"
  inputProof :: inputProof

text \<open>\<^verbatim>\<open>handles[0]\<close>, which is \<^verbatim>\<open>undefined\<close> on an empty array.\<close>

fun firstHandle :: "bytes list \<Rightarrow> bytes option" where
  "firstHandle [] = None"
| "firstHandle (h # _) = Some h"

record TransactionResponse =
  hash :: string

text \<open>A receipt with its \<^verbatim>\<open>status\<close>, which is a number or \<^verbatim>\<open>null\<close>.\<close>

record TransactionReceipt =
  status :: "number option"

text \<open>\<^verbatim>\<open>${receipt?.status}\<close> for a receipt that may be \<^verbatim>\<open>null\<close>.\<close>

fun status_toString :: "TransactionReceipt option \<Rightarrow> string" where
  "status_toString None = ''undefined''"
| "status_toString (Some r) = (case status r of None \<Rightarrow> ''null'' | Some n \<Rightarrow> number_toString n)"

fun receiptStatus :: "TransactionReceipt option \<Rightarrow> number option" where
  "receiptStatus None = None"
| "receiptStatus (Some r) = status r"

subsection \<open>The world outside a handler\<close>

text \<open>
  An awaited promise resolves with a value or rejects; a rejection carries the string
  that \<^verbatim>\<open>${e}\<close> and \<^verbatim>\<open>String(e)\<close> render.
\<close>

datatype 'a awaited = Resolved 'a | Rejected string

text \<open>
  What the staleness checks read when a handler resumes after an await:
  \<^verbatim>\<open>ledgerRef.current\<close>, written by the \<^verbatim>\<open>ledger\<close> memo whenever the chain id changes, and
  the chain id and signer the wallet hook currently holds.
\<close>

record Ctx =
  ledgerRef :: "LedgerInfoType option"
  currentChainId :: "number option"
  currentSigner :: "signer option"

text \<open>
  Modelled from the spec: \<^verbatim>\<open>sameChain\<close> and \<^verbatim>\<open>sameSigner\<close> are refs handed in by the wallet
  hook \<^verbatim>\<open>useMetaMaskEthersSigner\<close>, which is missing; the spec describes the staleness
  checks as comparing chain id and signer identity with the current ones.
\<close>

definition sameChain :: "Ctx \<Rightarrow> number option \<Rightarrow> bool" where
  "sameChain ctx cid = (cid = currentChainId ctx)"

definition sameSigner :: "Ctx \<Rightarrow> signer option \<Rightarrow> bool" where
  "sameSigner ctx sg = (sg = currentSigner ctx)"

text \<open>\<^verbatim>\<open>ledgerRef.current?.address\<close> and \<^verbatim>\<open>ledgerRef.current?.chainId\<close>.\<close>

definition ledgerRef_address :: "Ctx \<Rightarrow> hexString option" where
  "ledgerRef_address ctx = (case ledgerRef ctx of None \<Rightarrow> None | Some l \<Rightarrow> address l)"

definition ledgerRef_chainId :: "Ctx \<Rightarrow> number option" where
  "ledgerRef_chainId ctx = (case ledgerRef ctx of None \<Rightarrow> None | Some l \<Rightarrow> chainId l)"

text \<open>The \<^verbatim>\<open>isStale\<close> closure that every \<^verbatim>\<open>run\<close> defines.\<close>

definition isStale :: "hexString \<Rightarrow> number option \<Rightarrow> signer \<Rightarrow> Ctx \<Rightarrow> bool" where
  "isStale thisLedgerAddress thisChainId thisEthersSigner ctx =
     (Some thisLedgerAddress \<noteq> ledgerRef_address ctx
      \<or> \<not> sameChain ctx thisChainId
      \<or> \<not> sameSigner ctx (Some thisEthersSigner))"

text \<open>
  The values a callback closes over: the hook's parameters and state as they were in
  the render that created the callback.
\<close>

record Closure =
  cl_chainId :: "number option"
  cl_ledger :: LedgerInfoType
  cl_instance :: "fhevmInstance option"
  cl_ethersSigner :: "signer option"
  cl_balanceHandle :: "string option"
  cl_monthlyExpenseHandle :: "string option"
  cl_monthlyBudgetHandle :: "string option"

text \<open>Truthiness of an optional string: \<^verbatim>\<open>undefined\<close> and the empty string are falsy.\<close>

fun truthy :: "string option \<Rightarrow> bool" where
  "truthy None = False"
| "truthy (Some t) = (t \<noteq> [])"

text \<open>The calls a handler makes on the objects it was given.\<close>

datatype call =
    GetBalance hexString signer
  | GetMonthlyExpense hexString signer
  | GetMonthlyBudget hexString signer
  | GetIsOverBudget hexString signer
  | GetIsBudgetWarning hexString signer
  | LoadOrSign fhevmInstance "hexString list" signer
  | UserDecrypt fhevmInstance "(string \<times> hexString) list" FhevmDecryptionSignature
  | GetAddress signer
  | CreateEncryptedInput fhevmInstance hexString string
  | Add32 number
  | Encrypt
  | ContractAddTransaction hexString signer "bytes option" number number bool number number inputProof
  | ContractSetMonthlyBudget hexString signer "bytes option" inputProof
  | TxWait string

text \<open>The kinds of calls the properties speak about.\<close>

fun isUserDecrypt :: "call \<Rightarrow> bool" where
  "isUserDecrypt (UserDecrypt _ _ _) = True"
| "isUserDecrypt _ = False"

fun isContractWrite :: "call \<Rightarrow> bool" where
  "isContractWrite (ContractAddTransaction _ _ _ _ _ _ _ _ _) = True"
| "isContractWrite (ContractSetMonthlyBudget _ _ _ _) = True"
| "isContractWrite _ = False"

fun isContractRead :: "call \<Rightarrow> bool" where
  "isContractRead (GetBalance _ _) = True"
| "isContractRead (GetMonthlyExpense _ _) = True"
| "isContractRead (GetMonthlyBudget _ _) = True"
| "isContractRead (GetIsOverBudget _ _) = True"
| "isContractRead (GetIsBudgetWarning _ _) = True"
| "isContractRead _ = False"

subsection \<open>The state of the hook\<close>

text \<open>The \<^verbatim>\<open>useState\<close> cells and the \<^verbatim>\<open>useRef\<close> cells that the handlers write.\<close>

record HookState =
  balanceHandle :: "string option"
  clearBalance :: "ClearValueType option"
  monthlyExpenseHandle :: "string option"
  clearMonthlyExpense :: "ClearValueType option"
  monthlyBudgetHandle :: "string option"
  clearMonthlyBudget :: "ClearValueType option"
  isOverBudgetHandle :: "string option"
  isBudgetWarningHandle :: "string option"
  isRefreshing :: bool
  isDecrypting :: bool
  isSubmitting :: bool
  message :: string
  debugEncryptionContractAddress :: "hexString option"
  debugEncryptionUserAddress :: "string option"
  debugEncryptionChainId :: "number option"
  lastAddAmount :: "number option"
  lastAddIsIncome :: "bool option"
  lastAddCategory :: "number option"
  lastAddCategoryKey :: "number option"
  lastAddMonth :: "number option"
  lastAddTimestamp :: "number option"
  lastAddAmountHandle :: "string option"
  lastAddAmountProof :: "string option"
  lastAddTxHash :: "string option"
  lastAddReceiptStatus :: "number option"
  lastAddError :: "string option"
  clearBalanceRef :: "ClearValueType option"
  isRefreshingRef :: bool
  isDecryptingRef :: bool
  isSubmittingRef :: bool


subsection \<open>refreshData\<close>

text \<open>
  A handler runs from its call to its last continuation; what the outside world answers
  at each await is an argument. \<^verbatim>\<open>refreshData\<close> reads five handles in one
  \<^verbatim>\<open>Promise.all\<close>, which resolves with all five or rejects.
\<close>

record RefreshEnv =
  rf_reads :: "(string \<times> string \<times> string \<times> string \<times> string) awaited"
  rf_ctx :: Ctx

text \<open>
  The synchronous part: the guards, the busy flag and the five reads. It returns the
  captured address, chain id and signer when the reads were issued.
\<close>

definition refreshData_start ::
  "Closure \<Rightarrow> Ctx \<Rightarrow> HookState
     \<Rightarrow> HookState \<times> call list \<times> (hexString \<times> number \<times> signer) option" where
  "refreshData_start cl ctx s =
     (if isRefreshingRef s then (s, [], None)
      else
        (case (ledgerRef_chainId ctx, ledgerRef_address ctx, cl_ethersSigner cl) of
           (Some thisChainId, Some thisLedgerAddress, Some thisEthersSigner) \<Rightarrow>
             if thisChainId = 0
             then (s\<lparr>balanceHandle := None, monthlyExpenseHandle := None,
                     monthlyBudgetHandle := None\<rparr>, [], None)
             else (s\<lparr>isRefreshingRef := True, isRefreshing := True\<rparr>,
                   [GetBalance thisLedgerAddress thisEthersSigner,
                    GetMonthlyExpense thisLedgerAddress thisEthersSigner,
                    GetMonthlyBudget thisLedgerAddress thisEthersSigner,
                    GetIsOverBudget thisLedgerAddress thisEthersSigner,
                    GetIsBudgetWarning thisLedgerAddress thisEthersSigner],
                   Some (thisLedgerAddress, thisChainId, thisEthersSigner))
         | _ \<Rightarrow> (s\<lparr>balanceHandle := None, monthlyExpenseHandle := None,
                    monthlyBudgetHandle := None\<rparr>, [], None)))"

text \<open>The \<^verbatim>\<open>then\<close> and \<^verbatim>\<open>catch\<close> continuations of the reads.\<close>

definition refreshData_settle ::
  "(hexString \<times> number \<times> signer) \<Rightarrow> RefreshEnv \<Rightarrow> HookState \<Rightarrow> HookState" where
  "refreshData_settle captured env s =
     (case captured of (thisLedgerAddress, thisChainId, thisEthersSigner) \<Rightarrow>
        (case rf_reads env of
           Resolved (bal, expense, budget, overBudget, warning) \<Rightarrow>
             (let s1 = (if sameChain (rf_ctx env) (Some thisChainId)
                           \<and> Some thisLedgerAddress = ledgerRef_address (rf_ctx env)
                           \<and> sameSigner (rf_ctx env) (Some thisEthersSigner)
                        then s\<lparr>balanceHandle := Some bal,
                               monthlyExpenseHandle := Some expense,
                               monthlyBudgetHandle := Some budget,
                               isOverBudgetHandle := Some overBudget,
                               isBudgetWarningHandle := Some warning\<rparr>
                        else s)
              in s1\<lparr>isRefreshingRef := False, isRefreshing := False\<rparr>)
         | Rejected e \<Rightarrow>
             s\<lparr>message := ''Ledger data fetch failed! error='' @ e,
               isRefreshingRef := False, isRefreshing := False\<rparr>))"

definition refreshData :: "Closure \<Rightarrow> Ctx \<Rightarrow> RefreshEnv \<Rightarrow> HookState \<Rightarrow> HookState \<times> call list" where
  "refreshData cl ctx env s =
     (case refreshData_start cl ctx s of
        (s1, calls, None) \<Rightarrow> (s1, calls)
      | (s1, calls, Some captured) \<Rightarrow> (refreshData_settle captured env s1, calls))"

subsection \<open>decryptBalance\<close>

record DecryptEnv =
  de_sig :: "FhevmDecryptionSignature option awaited"
  de_ctx1 :: Ctx
  de_res :: "(string \<rightharpoonup> clearValue) awaited"
  de_ctx2 :: Ctx

text \<open>
  The body of \<^verbatim>\<open>run\<close> up to its \<^verbatim>\<open>finally\<close>. Nothing catches a rejection here: the
  promise of \<^verbatim>\<open>run\<close> rejects, and only the \<^verbatim>\<open>finally\<close> block still runs.
\<close>

definition decryptBalance_try ::
  "fhevmInstance \<Rightarrow> hexString \<Rightarrow> number option \<Rightarrow> signer \<Rightarrow> string \<Rightarrow> DecryptEnv \<Rightarrow> HookState
     \<Rightarrow> HookState \<times> call list" where
  "decryptBalance_try inst thisLedgerAddress thisChainId thisEthersSigner thisBalanceHandle env s =
     (let c1 = [LoadOrSign inst [thisLedgerAddress] thisEthersSigner] in
      case de_sig env of
        Rejected e \<Rightarrow> (s, c1)
      | Resolved None \<Rightarrow> (s\<lparr>message := ''Unable to build FHEVM decryption signature''\<rparr>, c1)
      | Resolved (Some sig) \<Rightarrow>
          if isStale thisLedgerAddress thisChainId thisEthersSigner (de_ctx1 env)
          then (s\<lparr>message := ''Ignore FHEVM decryption''\<rparr>, c1)
          else
            (let s1 = s\<lparr>message := ''Call FHEVM userDecrypt...''\<rparr>;
                 c2 = c1 @ [UserDecrypt inst [(thisBalanceHandle, thisLedgerAddress)] sig] in
             case de_res env of
               Rejected e \<Rightarrow> (s1, c2)
             | Resolved res \<Rightarrow>
                 (let s2 = s1\<lparr>message := ''FHEVM userDecrypt completed!''\<rparr> in
                  if isStale thisLedgerAddress thisChainId thisEthersSigner (de_ctx2 env)
                  then (s2\<lparr>message := ''Ignore FHEVM decryption''\<rparr>, c2)
                  else
                    (let cv = \<lparr>handle = thisBalanceHandle, clear = res thisBalanceHandle\<rparr> in
                     (s2\<lparr>clearBalance := Some cv, clearBalanceRef := Some cv,
                         message := ''Balance decrypted: '' @ clear_toString (clear cv)\<rparr>, c2)))))"

definition decryptBalance :: "Closure \<Rightarrow> DecryptEnv \<Rightarrow> HookState \<Rightarrow> HookState \<times> call list" where
  "decryptBalance cl env s =
     (if isRefreshingRef s \<or> isDecryptingRef s then (s, [])
      else
        (case (address (cl_ledger cl), cl_instance cl, cl_ethersSigner cl, cl_balanceHandle cl) of
           (Some thisLedgerAddress, Some inst, Some thisEthersSigner, Some thisBalanceHandle) \<Rightarrow>
             if thisBalanceHandle = [] then (s, [])
             else if Some thisBalanceHandle = map_option handle (clearBalanceRef s) then (s, [])
             else if thisBalanceHandle = ZeroHash
             then (s\<lparr>clearBalance := Some \<lparr>handle = thisBalanceHandle, clear = Some (ClearBigint 0)\<rparr>,
                     clearBalanceRef := Some \<lparr>handle = thisBalanceHandle, clear = Some (ClearBigint 0)\<rparr>\<rparr>,
                   [])
             else
               (let s1 = s\<lparr>isDecryptingRef := True, isDecrypting := True,
                            message := ''Start decrypting balance...''\<rparr>;
                    (s2, calls) = decryptBalance_try inst thisLedgerAddress (cl_chainId cl)
                                    thisEthersSigner thisBalanceHandle env s1
                in (s2\<lparr>isDecryptingRef := False, isDecrypting := False\<rparr>, calls))
         | _ \<Rightarrow> (s, [])))"


subsection \<open>decryptStats\<close>

text \<open>
  The items to decrypt: a handle is taken when it is truthy and not the zero hash.
\<close>

definition decryptItem :: "hexString \<Rightarrow> string option \<Rightarrow> (string \<times> hexString) list" where
  "decryptItem thisLedgerAddress h =
     (case h of
        None \<Rightarrow> []
      | Some t \<Rightarrow> if t \<noteq> [] \<and> t \<noteq> ZeroHash then [(t, thisLedgerAddress)] else [])"

text \<open>\<^verbatim>\<open>{ handle, clear: res[handle] ?? BigInt(0) }\<close> for a handle that was taken.\<close>

definition decryptedStat :: "(string \<rightharpoonup> clearValue) \<Rightarrow> string option \<Rightarrow> ClearValueType option" where
  "decryptedStat res h =
     (case h of
        None \<Rightarrow> None
      | Some t \<Rightarrow>
          if t \<noteq> [] \<and> t \<noteq> ZeroHash
          then Some \<lparr>handle = t,
                      clear = (case res t of None \<Rightarrow> Some (ClearBigint 0) | Some v \<Rightarrow> Some v)\<rparr>
          else None)"

definition decryptStats_try ::
  "fhevmInstance \<Rightarrow> hexString \<Rightarrow> number option \<Rightarrow> signer \<Rightarrow> string option \<Rightarrow> string option
     \<Rightarrow> DecryptEnv \<Rightarrow> HookState \<Rightarrow> HookState \<times> call list" where
  "decryptStats_try inst thisLedgerAddress thisChainId thisEthersSigner thisExpenseHandle
       thisBudgetHandle env s =
     (let c1 = [LoadOrSign inst [thisLedgerAddress] thisEthersSigner] in
      case de_sig env of
        Rejected e \<Rightarrow> (s, c1)
      | Resolved None \<Rightarrow> (s\<lparr>message := ''Unable to build FHEVM decryption signature''\<rparr>, c1)
      | Resolved (Some sig) \<Rightarrow>
          if isStale thisLedgerAddress thisChainId thisEthersSigner (de_ctx1 env)
          then (s\<lparr>message := ''Ignore FHEVM decryption''\<rparr>, c1)
          else
            (let s1 = s\<lparr>message := ''Call FHEVM userDecrypt for statistics...''\<rparr>;
                 decryptItems = decryptItem thisLedgerAddress thisExpenseHandle
                                  @ decryptItem thisLedgerAddress thisBudgetHandle in
             if decryptItems = []
             then (s1\<lparr>message := ''No statistics data to decrypt''\<rparr>, c1)
             else
               (let c2 = c1 @ [UserDecrypt inst decryptItems sig] in
                case de_res env of
                  Rejected e \<Rightarrow> (s1, c2)
                | Resolved res \<Rightarrow>
                    (let s2 = s1\<lparr>message := ''FHEVM userDecrypt completed!''\<rparr> in
                     if isStale thisLedgerAddress thisChainId thisEthersSigner (de_ctx2 env)
                     then (s2\<lparr>message := ''Ignore FHEVM decryption''\<rparr>, c2)
                     else
                       (let s3 = (case decryptedStat res thisExpenseHandle of
                                    None \<Rightarrow> s2
                                  | Some cv \<Rightarrow> s2\<lparr>clearMonthlyExpense := Some cv\<rparr>);
                            s4 = (case decryptedStat res thisBudgetHandle of
                                    None \<Rightarrow> s3
                                  | Some cv \<Rightarrow> s3\<lparr>clearMonthlyBudget := Some cv\<rparr>)
                        in (s4\<lparr>message := ''Statistics decrypted successfully''\<rparr>, c2))))))"

definition decryptStats :: "Closure \<Rightarrow> DecryptEnv \<Rightarrow> HookState \<Rightarrow> HookState \<times> call list" where
  "decryptStats cl env s =
     (if isRefreshingRef s \<or> isDecryptingRef s then (s, [])
      else
        (case (address (cl_ledger cl), cl_instance cl, cl_ethersSigner cl) of
           (Some thisLedgerAddress, Some inst, Some thisEthersSigner) \<Rightarrow>
             if \<not> truthy (cl_monthlyExpenseHandle cl) \<and> \<not> truthy (cl_monthlyBudgetHandle cl)
             then (s, [])
             else
               (let s1 = s\<lparr>isDecryptingRef := True, isDecrypting := True,
                            message := ''Start decrypting statistics...''\<rparr>;
                    (s2, calls) = decryptStats_try inst thisLedgerAddress (cl_chainId cl)
                                    thisEthersSigner (cl_monthlyExpenseHandle cl)
                                    (cl_monthlyBudgetHandle cl) env s1
                in (s2\<lparr>isDecryptingRef := False, isDecrypting := False\<rparr>, calls))
         | _ \<Rightarrow> (s, [])))"

subsection \<open>addTransaction and setBudget\<close>

text \<open>
  What the outside world answers while a submission runs: the signer's address, whether
  \<^verbatim>\<open>createEncryptedInput\<close> or \<^verbatim>\<open>add32\<close> throws, the encrypted input, the clock, the
  transaction response and its receipt, the context at the two staleness checks, and the
  answers to the final \<^verbatim>\<open>refreshData\<close>.
\<close>

record SubmitEnv =
  su_userAddr :: "string awaited"
  su_createThrows :: "string option"
  su_add32Throws :: "string option"
  su_encrypted :: "EncryptedInput awaited"
  su_ctx1 :: Ctx
  su_getMonth :: number
  su_now :: number
  su_sent :: "TransactionResponse awaited"
  su_receipt :: "TransactionReceipt option awaited"
  su_ctx2 :: Ctx
  su_refresh :: RefreshEnv

text \<open>
  The outcome of a \<^verbatim>\<open>try\<close> block: it completes, or it throws, or it ends by calling
  \<^verbatim>\<open>refreshData\<close>, whose reads are still pending when the \<^verbatim>\<open>finally\<close> block runs.
\<close>

datatype completion = Done | Threw string | Refreshing "hexString \<times> number \<times> signer"

text \<open>\<^verbatim>\<open>typeof p === 'string' ? p : ethers.hexlify(p)\<close>.\<close>

fun proof_toString :: "inputProof \<Rightarrow> string" where
  "proof_toString (ProofString t) = t"
| "proof_toString (ProofBytes bs) = hexlify bs"


text \<open>
  The \<^verbatim>\<open>try\<close> block of \<^verbatim>\<open>addTransaction\<close>. The \<^verbatim>\<open>setTimeout\<close> await at its start only
  yields. No await separates the second staleness check from \<^verbatim>\<open>refreshData()\<close>, so
  both read the same context.
\<close>

definition addTransaction_try ::
  "fhevmInstance \<Rightarrow> hexString \<Rightarrow> number option \<Rightarrow> signer \<Rightarrow> Closure
     \<Rightarrow> number \<Rightarrow> bool \<Rightarrow> number \<Rightarrow> number \<Rightarrow> SubmitEnv \<Rightarrow> HookState
     \<Rightarrow> HookState \<times> call list \<times> completion" where
  "addTransaction_try inst thisLedgerAddress thisChainId thisEthersSigner cl amt income cat key env s =
     (let c1 = [GetAddress thisEthersSigner] in
      case su_userAddr env of
        Rejected e \<Rightarrow> (s, c1, Threw e)
      | Resolved userAddr \<Rightarrow>
     (let s1 = s\<lparr>debugEncryptionContractAddress := Some thisLedgerAddress,
                  debugEncryptionUserAddress := Some userAddr,
                  debugEncryptionChainId := thisChainId,
                  lastAddAmount := Some amt,
                  lastAddIsIncome := Some income,
                  lastAddCategory := Some cat,
                  lastAddCategoryKey := Some key\<rparr>;
          c2 = c1 @ [CreateEncryptedInput inst thisLedgerAddress userAddr] in
      case su_createThrows env of
        Some e \<Rightarrow> (s1, c2, Threw e)
      | None \<Rightarrow>
     (let c3 = c2 @ [Add32 amt] in
      case su_add32Throws env of
        Some e \<Rightarrow> (s1, c3, Threw e)
      | None \<Rightarrow>
     (let c4 = c3 @ [Encrypt] in
      case su_encrypted env of
        Rejected e \<Rightarrow> (s1, c4, Threw e)
      | Resolved amountEnc \<Rightarrow>
     (let s2 = s1\<lparr>lastAddAmountHandle := map_option hexlify (firstHandle (handles amountEnc)),
                   lastAddAmountProof := Some (proof_toString (inputProof amountEnc))\<rparr> in
      if isStale thisLedgerAddress thisChainId thisEthersSigner (su_ctx1 env)
      then (s2\<lparr>message := ''Ignore transaction submission''\<rparr>, c4, Done)
      else
     (let s3 = s2\<lparr>message := ''Submitting transaction...''\<rparr>;
          mth = su_getMonth env + 1;
          ts = su_now env div 1000;
          s4 = s3\<lparr>lastAddMonth := Some mth, lastAddTimestamp := Some ts\<rparr>;
          c5 = c4 @ [ContractAddTransaction thisLedgerAddress thisEthersSigner
                       (firstHandle (handles amountEnc)) ts cat income key mth
                       (inputProof amountEnc)] in
      case su_sent env of
        Rejected e \<Rightarrow> (s4, c5, Threw e)
      | Resolved tx \<Rightarrow>
     (let s5 = s4\<lparr>message := ''Wait for tx:'' @ hash tx @ ''...'',
                   lastAddTxHash := Some (hash tx)\<rparr>;
          c6 = c5 @ [TxWait (hash tx)] in
      case su_receipt env of
        Rejected e \<Rightarrow> (s5, c6, Threw e)
      | Resolved receipt \<Rightarrow>
     (let s6 = s5\<lparr>message := ''Transaction completed status='' @ status_toString receipt,
                   lastAddReceiptStatus := receiptStatus receipt\<rparr> in
      if isStale thisLedgerAddress thisChainId thisEthersSigner (su_ctx2 env)
      then (s6\<lparr>message := ''Ignore transaction submission''\<rparr>, c6, Done)
      else
        (case refreshData_start cl (su_ctx2 env) s6 of
           (s7, c7, pending) \<Rightarrow>
             (s7, c6 @ c7, (case pending of None \<Rightarrow> Done | Some captured \<Rightarrow> Refreshing captured)))))))))))"

text \<open>
  The handler: its guards, the busy flag, the \<^verbatim>\<open>try\<close> block, \<^verbatim>\<open>catch\<close>, \<^verbatim>\<open>finally\<close>, and
  then the continuation of the reads that \<^verbatim>\<open>refreshData\<close> issued.
\<close>

definition addTransaction ::
  "Closure \<Rightarrow> number \<Rightarrow> bool \<Rightarrow> number \<Rightarrow> number \<Rightarrow> SubmitEnv \<Rightarrow> HookState
     \<Rightarrow> HookState \<times> call list" where
  "addTransaction cl amt income cat key env s =
     (if isRefreshingRef s \<or> isSubmittingRef s then (s, [])
      else
        (case (address (cl_ledger cl), cl_instance cl, cl_ethersSigner cl) of
           (Some thisLedgerAddress, Some inst, Some thisEthersSigner) \<Rightarrow>
             (let s1 = s\<lparr>isSubmittingRef := True, isSubmitting := True,
                          message := ''Starting transaction encryption...''\<rparr>;
                  (s2, calls, outcome) =
                     addTransaction_try inst thisLedgerAddress (cl_chainId cl) thisEthersSigner cl
                       amt income cat key env s1;
                  s3 = (case outcome of
                          Threw e \<Rightarrow> s2\<lparr>message := ''Transaction failed! '' @ e,
                                        lastAddError := Some e\<rparr>
                        | _ \<Rightarrow> s2);
                  s4 = s3\<lparr>isSubmittingRef := False, isSubmitting := False\<rparr>
              in ((case outcome of
                     Refreshing captured \<Rightarrow> refreshData_settle captured (su_refresh env) s4
                   | _ \<Rightarrow> s4),
                  calls))
         | _ \<Rightarrow> (s, [])))"

text \<open>
  The \<^verbatim>\<open>try\<close> block of \<^verbatim>\<open>setBudget\<close>; the signer's address is awaited as an argument of
  \<^verbatim>\<open>createEncryptedInput\<close>.
\<close>

definition setBudget_try ::
  "fhevmInstance \<Rightarrow> hexString \<Rightarrow> number option \<Rightarrow> signer \<Rightarrow> Closure
     \<Rightarrow> number \<Rightarrow> SubmitEnv \<Rightarrow> HookState \<Rightarrow> HookState \<times> call list \<times> completion" where
  "setBudget_try inst thisLedgerAddress thisChainId thisEthersSigner cl budget env s =
     (let c1 = [GetAddress thisEthersSigner] in
      case su_userAddr env of
        Rejected e \<Rightarrow> (s, c1, Threw e)
      | Resolved userAddr \<Rightarrow>
     (let c2 = c1 @ [CreateEncryptedInput inst thisLedgerAddress userAddr] in
      case su_createThrows env of
        Some e \<Rightarrow> (s, c2, Threw e)
      | None \<Rightarrow>
     (let c3 = c2 @ [Add32 budget] in
      case su_add32Throws env of
        Some e \<Rightarrow> (s, c3, Threw e)
      | None \<Rightarrow>
     (let c4 = c3 @ [Encrypt] in
      case su_encrypted env of
        Rejected e \<Rightarrow> (s, c4, Threw e)
      | Resolved enc \<Rightarrow>
      if isStale thisLedgerAddress thisChainId thisEthersSigner (su_ctx1 env)
      then (s\<lparr>message := ''Ignore budget submission''\<rparr>, c4, Done)
      else
     (let s1 = s\<lparr>message := ''Setting budget...''\<rparr>;
          c5 = c4 @ [ContractSetMonthlyBudget thisLedgerAddress thisEthersSigner
                       (firstHandle (handles enc)) (inputProof enc)] in
      case su_sent env of
        Rejected e \<Rightarrow> (s1, c5, Threw e)
      | Resolved tx \<Rightarrow>
     (let s2 = s1\<lparr>message := ''Wait for tx:'' @ hash tx @ ''...''\<rparr>;
          c6 = c5 @ [TxWait (hash tx)] in
      case su_receipt env of
        Rejected e \<Rightarrow> (s2, c6, Threw e)
      | Resolved receipt \<Rightarrow>
     (let s3 = s2\<lparr>message := ''Budget set completed status='' @ status_toString receipt\<rparr> in
      if isStale thisLedgerAddress thisChainId thisEthersSigner (su_ctx2 env)
      then (s3\<lparr>message := ''Ignore budget submission''\<rparr>, c6, Done)
      else
        (case refreshData_start cl (su_ctx2 env) s3 of
           (s4, c7, pending) \<Rightarrow>
             (s4, c6 @ c7, (case pending of None \<Rightarrow> Done | Some captured \<Rightarrow> Refreshing captured))))))))))"

definition setBudget :: "Closure \<Rightarrow> number \<Rightarrow> SubmitEnv \<Rightarrow> HookState \<Rightarrow> HookState \<times> call list" where
  "setBudget cl budget env s =
     (if isRefreshingRef s \<or> isSubmittingRef s then (s, [])
      else
        (case (address (cl_ledger cl), cl_instance cl, cl_ethersSigner cl) of
           (Some thisLedgerAddress, Some inst, Some thisEthersSigner) \<Rightarrow>
             (let s1 = s\<lparr>isSubmittingRef := True, isSubmitting := True,
                          message := ''Starting budget encryption...''\<rparr>;
                  (s2, calls, outcome) =
                     setBudget_try inst thisLedgerAddress (cl_chainId cl) thisEthersSigner cl
                       budget env s1;
                  s3 = (case outcome of
                          Threw e \<Rightarrow> s2\<lparr>message := ''Budget setting failed! '' @ e\<rparr>
                        | _ \<Rightarrow> s2);
                  s4 = s3\<lparr>isSubmittingRef := False, isSubmitting := False\<rparr>
              in ((case outcome of
                     Refreshing captured \<Rightarrow> refreshData_settle captured (su_refresh env) s4
                   | _ \<Rightarrow> s4),
                  calls))
         | _ \<Rightarrow> (s, [])))"


subsection \<open>The staleness check of a handler\<close>

text \<open>
  The \<^verbatim>\<open>isStale()\<close> of a handler created in a render with closure \<open>cl\<close>, read in the
  context \<open>ctx\<close>: the handler captures \<^verbatim>\<open>ledger.address\<close>, \<^verbatim>\<open>chainId\<close> and
  \<^verbatim>\<open>ethersSigner\<close> of its closure when it starts. A handler only starts when address and
  signer are present.
\<close>

definition staleAt :: "Closure \<Rightarrow> Ctx \<Rightarrow> bool" where
  "staleAt cl ctx =
     (case (address (cl_ledger cl), cl_ethersSigner cl) of
        (Some thisLedgerAddress, Some thisEthersSigner) \<Rightarrow>
          isStale thisLedgerAddress (cl_chainId cl) thisEthersSigner ctx
      | _ \<Rightarrow> False)"

section \<open>The frontend: the mock FHEVM instance\<close>








section \<open>Example inputs\<close>

definition exampleAddresses :: LedgerAddressTable where
  "exampleAddresses =
     [''31337'' \<mapsto> \<lparr>e_address = Hex0x ''5FbDB2315678afecb367f032d93F642f64180aa3'',
                     e_chainId = Some 31337, e_chainName = Some ''hardhat''\<rparr>,
      ''11155111'' \<mapsto> \<lparr>e_address = ZeroAddress,
                        e_chainId = Some 11155111, e_chainName = Some ''sepolia''\<rparr>]"



text \<open>The hook state of the first render: the initial values of its cells.\<close>

definition initialHookState :: HookState where
  "initialHookState =
     \<lparr>balanceHandle = None, clearBalance = None,
      monthlyExpenseHandle = None, clearMonthlyExpense = None,
      monthlyBudgetHandle = None, clearMonthlyBudget = None,
      isOverBudgetHandle = None, isBudgetWarningHandle = None,
      isRefreshing = False, isDecrypting = False, isSubmitting = False, message = [],
      debugEncryptionContractAddress = None, debugEncryptionUserAddress = None,
      debugEncryptionChainId = None,
      lastAddAmount = None, lastAddIsIncome = None, lastAddCategory = None,
      lastAddCategoryKey = None, lastAddMonth = None, lastAddTimestamp = None,
      lastAddAmountHandle = None, lastAddAmountProof = None, lastAddTxHash = None,
      lastAddReceiptStatus = None, lastAddError = None,
      clearBalanceRef = None,
      isRefreshingRef = False, isDecryptingRef = False, isSubmittingRef = False\<rparr>"

text \<open>
  A session on the local chain 31337, where the contract is deployed, with signer 1; and
  the context after the wallet has switched to chain 1, where it is not.
\<close>

definition exampleLedger :: LedgerInfoType where
  "exampleLedger = \<lparr>abi = LedgerABI,
     address = Some (Hex0x ''5FbDB2315678afecb367f032d93F642f64180aa3''),
     chainId = Some 31337, chainName = Some ''hardhat''\<rparr>"

definition exampleCtx :: Ctx where
  "exampleCtx = \<lparr>ledgerRef = Some exampleLedger, currentChainId = Some 31337,
     currentSigner = Some 1\<rparr>"

definition switchedCtx :: Ctx where
  "switchedCtx =
     \<lparr>ledgerRef = Some \<lparr>abi = LedgerABI, address = None, chainId = Some 1, chainName = None\<rparr>,
      currentChainId = Some 1, currentSigner = Some 1\<rparr>"

definition exampleHandle :: string where
  "exampleHandle = ''0x8d1f6e2b0c4a4e7f9a3b5c6d7e8f90a1b2c3d4e5f6ff0000000000007a690400''"

definition exampleClosure :: Closure where
  "exampleClosure = \<lparr>cl_chainId = Some 31337, cl_ledger = exampleLedger, cl_instance = Some 0,
     cl_ethersSigner = Some 1, cl_balanceHandle = Some exampleHandle,
     cl_monthlyExpenseHandle = Some ZeroHash, cl_monthlyBudgetHandle = Some exampleHandle\<rparr>"

definition exampleSignature :: FhevmDecryptionSignature where
  "exampleSignature = \<lparr>privateKey = ''2000'', publicKey = ''2001'', signature = ''aa55'',
     contractAddresses = [Hex0x ''5FbDB2315678afecb367f032d93F642f64180aa3''],
     userAddress = Hex0x ''f39Fd6e51aad88F6F4ce6aB8827279cffFb92266'',
     startTimestamp = 1700000000, durationDays = 365\<rparr>"

definition exampleDecryptEnv :: DecryptEnv where
  "exampleDecryptEnv = \<lparr>de_sig = Resolved (Some exampleSignature), de_ctx1 = exampleCtx,
     de_res = Resolved [exampleHandle \<mapsto> ClearBigint 42], de_ctx2 = exampleCtx\<rparr>"

definition exampleRefreshEnv :: RefreshEnv where
  "exampleRefreshEnv =
     \<lparr>rf_reads = Resolved (exampleHandle, ZeroHash, exampleHandle, exampleHandle, exampleHandle),
      rf_ctx = exampleCtx\<rparr>"

definition exampleHandleBytes :: bytes where
  "exampleHandleBytes =
     [90, 28, 147, 14, 119, 178, 77, 241, 8, 198, 62, 169, 18, 100, 208, 139,
      245, 42, 65, 156, 110, 255, 0, 0, 0, 0, 0, 0, 122, 105, 4, 0]"

definition exampleProofBytes :: bytes where
  "exampleProofBytes = [1, 1, 90, 28, 147, 14, 119, 178, 212, 63, 136, 16]"

definition exampleTxHash :: string where
  "exampleTxHash = ''0x5c504ed432cb51138bcf09aa5e8a410dd4a1e204ef84bfed1be16dfba1b22060''"

definition exampleUser :: string where
  "exampleUser = ''0xf39Fd6e51aad88F6F4ce6aB8827279cffFb92266''"

definition exampleEncrypted :: EncryptedInput where
  "exampleEncrypted = \<lparr>handles = [exampleHandleBytes], inputProof = ProofBytes exampleProofBytes\<rparr>"

definition exampleSubmitEnv :: SubmitEnv where
  "exampleSubmitEnv =
     \<lparr>su_userAddr = Resolved exampleUser,
      su_createThrows = None, su_add32Throws = None,
      su_encrypted = Resolved exampleEncrypted, su_ctx1 = exampleCtx,
      su_getMonth = 10, su_now = 1700000000123,
      su_sent = Resolved \<lparr>hash = exampleTxHash\<rparr>,
      su_receipt = Resolved (Some \<lparr>status = Some 1\<rparr>),
      su_ctx2 = exampleCtx, su_refresh = exampleRefreshEnv\<rparr>"

subsection \<open>A session with the contract\<close>

text \<open>
  User 1 records an expense in category 2 in November; user 2 records an income; user 1
  sets a budget and then records an expense in category 3. Every input proof verifies.
  The input ciphertexts have the numbers 11 to 14; the clear values behind them are
  90, 500, 100 and 40.
\<close>

definition verifiedInput :: "nat \<Rightarrow> externalInput" where
  "verifiedInput i = \<lparr>ext_id = i, ext_proof_ok = True\<rparr>"

definition afterExpense :: Ledger where
  "afterExpense =
     the (Ledger_addTransaction 1 (verifiedInput 11) 1700000000 2 False 2 11 deployed)"

definition afterIncome :: Ledger where
  "afterIncome =
     the (Ledger_addTransaction 2 (verifiedInput 12) 1700000050 1 True 1 11 afterExpense)"

definition afterBudget :: Ledger where
  "afterBudget = the (Ledger_setMonthlyBudget 1 (verifiedInput 13) afterIncome)"

definition afterSecondExpense :: Ledger where
  "afterSecondExpense =
     the (Ledger_addTransaction 1 (verifiedInput 14) 1700000100 3 False 3 11 afterBudget)"

text \<open>Another session: user 1 sets a budget on a new account.\<close>

definition afterFirstBudget :: Ledger where
  "afterFirstBudget = the (Ledger_setMonthlyBudget 1 (verifiedInput 13) deployed)"

definition examplePlain :: "nat \<Rightarrow> u32" where
  "examplePlain i = (if i = 11 then 90 else if i = 12 then 500 else if i = 13 then 100 else 40)"

text \<open>
  Other clear values behind the same ciphertexts: every amount \<open>2 ^ 32 - 1\<close>; every amount
  \<open>2 ^ 31\<close>; and every amount 1 with a budget of \<open>2 ^ 29\<close>.
\<close>

definition largestPlain :: "nat \<Rightarrow> u32" where
  "largestPlain i = 4294967295"

definition halfRangePlain :: "nat \<Rightarrow> u32" where
  "halfRangePlain i = 2147483648"

definition largeBudgetPlain :: "nat \<Rightarrow> u32" where
  "largeBudgetPlain i = (if i = 13 then 536870912 else 1)"

section \<open>Properties of the contract\<close>

subsection \<open>Running a call\<close>

lemma operand_simps [simp]:
  "operand h \<noteq> ZeroHandle"
  "operand (operand h) = operand h"
  "operand ZeroHandle = TrivialEncrypt 0"
  "operand (TrivialEncrypt v) = TrivialEncrypt v"
  "operand (InputHandle i) = InputHandle i"
  "operand (Computed op a b) = Computed op a b"
  by (simp_all add: operand_def)

lemma operand_clear [simp]: "clear32 \<rho> (operand h) = clear32 \<rho> h"
  by (simp add: operand_def)

lemma uninitialized_record [simp]:
  "uninitialized \<lparr>balance = b, monthlyExpense = e, monthlyBudget = m, isOverBudget = ov,
          isBudgetWarning = w, lastUpdateMonth = l\<rparr> =
     (b = ZeroHandle \<or> e = ZeroHandle \<or> m = ZeroHandle)"
  by (simp add: uninitialized_def)

text \<open>
  \<^verbatim>\<open>_ensureNumericInitialized\<close> in one step: the three numeric fields become their
  operands, and the contract is allowed on the trivial encryption of 0 for the rest of
  the transaction when one of them was zero.
\<close>

lemma ensure_eq:
  "ensureNumericInitialized u \<lparr>accounts = A, transactions = X, categoryTotals = C, events = Ev,
       persistedAllowed = P, transientAllowed = T\<rparr> =
     \<lparr>accounts = A(u := \<lparr>balance = operand (balance (A u)),
                          monthlyExpense = operand (monthlyExpense (A u)),
                          monthlyBudget = operand (monthlyBudget (A u)),
                          isOverBudget = isOverBudget (A u),
                          isBudgetWarning = isBudgetWarning (A u),
                          lastUpdateMonth = lastUpdateMonth (A u)\<rparr>),
      transactions = X, categoryTotals = C, events = Ev,
      persistedAllowed = P,
      transientAllowed = T \<union> {h. h = TrivialEncrypt 0 \<and> uninitialized (A u)}\<rparr>"
  by (rule Ledger.equality)
     (auto simp: uninitialized_def ensureNumericInitialized_def isZero_def FHE_asEuint32_def
        Let_def allowTransient_def account_update_def operand_def fun_eq_iff)

lemma bind_if: "Option.bind (if c then Some x else None) f = (if c then f x else None)"
  by simp

lemma if_merge:
  "(if a then (if b then x else None) else None) = (if a \<and> b then x else None)"
  by simp

lemma ex_ifI: "x = y \<Longrightarrow> \<exists>c. (if C then Some x else None) = (if c then Some y else None)"
  by auto

lemma FHE_binary_eq:
  "a \<noteq> ZeroHandle \<Longrightarrow> b \<noteq> ZeroHandle \<Longrightarrow>
   FHE_binary op a b s =
     (if isAllowed s a This \<and> isAllowed s b This
      then Some (Computed op a b, allowTransient (Computed op a b) s) else None)"
  by (simp add: FHE_binary_def initialized_def binaryOp_def)

lemmas exec = FHE_add_def FHE_sub_def FHE_mul_def FHE_gt_def FHE_binary_eq
  isAllowed_def allowTransient_def account_update_def FHE_asEuint32_def FHE_fromExternal_def
  FHE_allow_def FHE_allowThis_def allowIfNotZero_def isZero_def bind_if if_merge ensure_eq
  updateBudgetFlags_def Ledger_setMonthlyBudget_def Ledger_addTransaction_def

text \<open>The state a call of \<^verbatim>\<open>addTransaction\<close> returns when it does not revert.\<close>

lemma addTransaction_result:
  assumes "Ledger_addTransaction u inp ts cat income key mth s = Some s'"
  shows "s' = s\<lparr>accounts := (accounts s)(u :=
           \<lparr>balance = Computed (if income then fheAdd else fheSub)
                         (operand (balance (accounts s u))) (InputHandle (ext_id inp)),
            monthlyExpense =
              (if income then operand (monthlyExpense (accounts s u))
               else if mth = lastUpdateMonth (accounts s u)
                    then Computed fheAdd (operand (monthlyExpense (accounts s u)))
                           (InputHandle (ext_id inp))
                    else InputHandle (ext_id inp)),
            monthlyBudget = operand (monthlyBudget (accounts s u)),
            isOverBudget = Computed fheGt
              (if income then operand (monthlyExpense (accounts s u))
               else if mth = lastUpdateMonth (accounts s u)
                    then Computed fheAdd (operand (monthlyExpense (accounts s u)))
                           (InputHandle (ext_id inp))
                    else InputHandle (ext_id inp))
              (operand (monthlyBudget (accounts s u))),
            isBudgetWarning = Computed fheGt
               (Computed fheMul
                 (if income then operand (monthlyExpense (accounts s u))
                  else if mth = lastUpdateMonth (accounts s u)
                       then Computed fheAdd (operand (monthlyExpense (accounts s u)))
                              (InputHandle (ext_id inp))
                       else InputHandle (ext_id inp))
                 (TrivialEncrypt 10))
               (Computed fheMul (operand (monthlyBudget (accounts s u))) (TrivialEncrypt 8)),
            lastUpdateMonth = (if income then lastUpdateMonth (accounts s u) else mth)\<rparr>),
           transactions := (transactions s)(u := transactions s u @
              [\<lparr>amount = InputHandle (ext_id inp), timestamp = ts, category = cat,
                isIncome = income, month = mth\<rparr>]),
           categoryTotals := (categoryTotals s)(u := (categoryTotals s u)(key :=
              Computed fheAdd (operand (categoryTotals s u key)) (InputHandle (ext_id inp)))),
           events := events s @ [TransactionAdded u (of_nat (length (transactions s u))),
                                 BalanceUpdated u],
           persistedAllowed := persistedAllowed s \<union>
             {Computed (if income then fheAdd else fheSub)
                (operand (balance (accounts s u))) (InputHandle (ext_id inp)),
              (if income then operand (monthlyExpense (accounts s u))
               else if mth = lastUpdateMonth (accounts s u)
                    then Computed fheAdd (operand (monthlyExpense (accounts s u)))
                           (InputHandle (ext_id inp))
                    else InputHandle (ext_id inp)),
              Computed fheGt
                (if income then operand (monthlyExpense (accounts s u))
                 else if mth = lastUpdateMonth (accounts s u)
                      then Computed fheAdd (operand (monthlyExpense (accounts s u)))
                             (InputHandle (ext_id inp))
                      else InputHandle (ext_id inp))
                (operand (monthlyBudget (accounts s u))),
              Computed fheGt
                (Computed fheMul
                  (if income then operand (monthlyExpense (accounts s u))
                   else if mth = lastUpdateMonth (accounts s u)
                        then Computed fheAdd (operand (monthlyExpense (accounts s u)))
                               (InputHandle (ext_id inp))
                        else InputHandle (ext_id inp))
                  (TrivialEncrypt 10))
                (Computed fheMul (operand (monthlyBudget (accounts s u))) (TrivialEncrypt 8))}
             \<times> {This, User u},
           transientAllowed := {}\<rparr>"
    (is "_ = ?result")
proof -
  have "\<exists>c. Ledger_addTransaction u inp ts cat income key mth s =
          (if c then Some ?result else None)"
    apply (cases s)
    apply (cases income; cases "mth = lastUpdateMonth (accounts s u)";
           cases "categoryTotals s u key = ZeroHandle")
    apply (simp_all add: exec split del: if_split cong: if_cong)
    apply (rule ex_ifI; auto simp: operand_def)+
    done
  with assms show ?thesis
    by (auto split: if_splits)
qed

text \<open>The same, field by field.\<close>

lemma addTransaction_Some:
  assumes "Ledger_addTransaction u inp ts cat income key mth s = Some s'"
  shows "balance (accounts s' u) =
           Computed (if income then fheAdd else fheSub)
             (operand (balance (accounts s u))) (InputHandle (ext_id inp))"
    and "monthlyExpense (accounts s' u) =
           (if income then operand (monthlyExpense (accounts s u))
            else if mth = lastUpdateMonth (accounts s u)
                 then Computed fheAdd (operand (monthlyExpense (accounts s u)))
                        (InputHandle (ext_id inp))
                 else InputHandle (ext_id inp))"
    and "monthlyBudget (accounts s' u) = operand (monthlyBudget (accounts s u))"
    and "isOverBudget (accounts s' u) =
           Computed fheGt (monthlyExpense (accounts s' u)) (monthlyBudget (accounts s' u))"
    and "isBudgetWarning (accounts s' u) =
           Computed fheGt
             (Computed fheMul (monthlyExpense (accounts s' u)) (TrivialEncrypt 10))
             (Computed fheMul (monthlyBudget (accounts s' u)) (TrivialEncrypt 8))"
    and "lastUpdateMonth (accounts s' u) =
           (if income then lastUpdateMonth (accounts s u) else mth)"
    and "\<And>v. v \<noteq> u \<Longrightarrow> accounts s' v = accounts s v"
    and "transactions s' = (transactions s)(u := transactions s u @
           [\<lparr>amount = InputHandle (ext_id inp), timestamp = ts, category = cat,
             isIncome = income, month = mth\<rparr>])"
    and "categoryTotals s' = (categoryTotals s)(u := (categoryTotals s u)(key :=
           Computed fheAdd (operand (categoryTotals s u key)) (InputHandle (ext_id inp))))"
    and "events s' = events s @ [TransactionAdded u (of_nat (length (transactions s u))),
                                 BalanceUpdated u]"
    and "persistedAllowed s' = persistedAllowed s \<union>
           {balance (accounts s' u), monthlyExpense (accounts s' u),
            isOverBudget (accounts s' u), isBudgetWarning (accounts s' u)} \<times> {This, User u}"
    and "transientAllowed s' = {}"
  by (simp_all add: addTransaction_result [OF assms])

lemma addTransaction_proof:
  "Ledger_addTransaction u inp ts cat income key mth s = Some s' \<Longrightarrow> ext_proof_ok inp"
  by (cases "ext_proof_ok inp")
     (simp_all add: Ledger_addTransaction_def FHE_fromExternal_def Let_def)

text \<open>
  \<^verbatim>\<open>addTransaction\<close> does not revert when the proof verifies and every handle it reads
  from storage is zero or one the contract was allowed on for good.
\<close>

lemma addTransaction_succeeds:
  assumes "ext_proof_ok inp"
    and "balance (accounts s u) = ZeroHandle \<or> (balance (accounts s u), This) \<in> persistedAllowed s"
    and "monthlyExpense (accounts s u) = ZeroHandle
         \<or> (monthlyExpense (accounts s u), This) \<in> persistedAllowed s"
    and "monthlyBudget (accounts s u) = ZeroHandle
         \<or> (monthlyBudget (accounts s u), This) \<in> persistedAllowed s"
    and "categoryTotals s u key = ZeroHandle \<or> (categoryTotals s u key, This) \<in> persistedAllowed s"
  shows "\<exists>s'. Ledger_addTransaction u inp ts cat income key mth s = Some s'"
  using assms
  apply (cases s)
  apply (cases income; cases "mth = lastUpdateMonth (accounts s u)";
         cases "categoryTotals s u key = ZeroHandle")
  apply (simp_all add: exec split del: if_split cong: if_cong)
  apply (auto simp: operand_def uninitialized_def)
  done

text \<open>The state a call of \<^verbatim>\<open>setMonthlyBudget\<close> returns when it does not revert.\<close>

lemma setMonthlyBudget_result:
  assumes "Ledger_setMonthlyBudget u inp s = Some s'"
  shows "s' = s\<lparr>accounts := (accounts s)(u :=
           \<lparr>balance = operand (balance (accounts s u)),
            monthlyExpense = operand (monthlyExpense (accounts s u)),
            monthlyBudget = InputHandle (ext_id inp),
            isOverBudget = Computed fheGt (operand (monthlyExpense (accounts s u)))
                             (InputHandle (ext_id inp)),
            isBudgetWarning = Computed fheGt
               (Computed fheMul (operand (monthlyExpense (accounts s u))) (TrivialEncrypt 10))
               (Computed fheMul (InputHandle (ext_id inp)) (TrivialEncrypt 8)),
            lastUpdateMonth = lastUpdateMonth (accounts s u)\<rparr>),
           events := events s @ [BudgetUpdated u],
           persistedAllowed := persistedAllowed s \<union>
             {InputHandle (ext_id inp),
              Computed fheGt (operand (monthlyExpense (accounts s u))) (InputHandle (ext_id inp)),
              Computed fheGt
                (Computed fheMul (operand (monthlyExpense (accounts s u))) (TrivialEncrypt 10))
                (Computed fheMul (InputHandle (ext_id inp)) (TrivialEncrypt 8))}
             \<times> {This, User u},
           transientAllowed := {}\<rparr>"
    (is "_ = ?result")
proof -
  have "\<exists>c. Ledger_setMonthlyBudget u inp s = (if c then Some ?result else None)"
    apply (cases s)
    apply (simp add: exec split del: if_split cong: if_cong)
    apply (rule ex_ifI; auto)
    done
  with assms show ?thesis
    by (auto split: if_splits)
qed

lemma setMonthlyBudget_Some:
  assumes "Ledger_setMonthlyBudget u inp s = Some s'"
  shows "balance (accounts s' u) = operand (balance (accounts s u))"
    and "monthlyExpense (accounts s' u) = operand (monthlyExpense (accounts s u))"
    and "monthlyBudget (accounts s' u) = InputHandle (ext_id inp)"
    and "isOverBudget (accounts s' u) =
           Computed fheGt (monthlyExpense (accounts s' u)) (monthlyBudget (accounts s' u))"
    and "isBudgetWarning (accounts s' u) =
           Computed fheGt
             (Computed fheMul (monthlyExpense (accounts s' u)) (TrivialEncrypt 10))
             (Computed fheMul (monthlyBudget (accounts s' u)) (TrivialEncrypt 8))"
    and "lastUpdateMonth (accounts s' u) = lastUpdateMonth (accounts s u)"
    and "\<And>v. v \<noteq> u \<Longrightarrow> accounts s' v = accounts s v"
    and "transactions s' = transactions s"
    and "categoryTotals s' = categoryTotals s"
    and "events s' = events s @ [BudgetUpdated u]"
    and "persistedAllowed s' = persistedAllowed s \<union>
           {monthlyBudget (accounts s' u), isOverBudget (accounts s' u),
            isBudgetWarning (accounts s' u)} \<times> {This, User u}"
    and "transientAllowed s' = {}"
  by (simp_all add: setMonthlyBudget_result [OF assms])

lemma setMonthlyBudget_proof:
  "Ledger_setMonthlyBudget u inp s = Some s' \<Longrightarrow> ext_proof_ok inp"
  by (cases "ext_proof_ok inp")
     (simp_all add: Ledger_setMonthlyBudget_def FHE_fromExternal_def Let_def)

text \<open>
  \<^verbatim>\<open>setMonthlyBudget\<close> does not revert when the proof verifies and the monthly expense
  handle is zero or one the contract was allowed on for good.
\<close>

lemma setMonthlyBudget_succeeds:
  assumes "ext_proof_ok inp"
    and "monthlyExpense (accounts s u) = ZeroHandle
         \<or> (monthlyExpense (accounts s u), This) \<in> persistedAllowed s"
  shows "\<exists>s'. Ledger_setMonthlyBudget u inp s = Some s'"
  using assms
  apply (cases s)
  apply (simp add: exec split del: if_split cong: if_cong)
  apply (auto simp: operand_def uninitialized_def)
  done

subsection \<open>The example session\<close>

lemma afterExpense_run:
  "Ledger_addTransaction 1 (verifiedInput 11) 1700000000 2 False 2 11 deployed = Some afterExpense"
proof -
  have "\<exists>s'. Ledger_addTransaction 1 (verifiedInput 11) 1700000000 2 False 2 11 deployed = Some s'"
    by (rule addTransaction_succeeds) (simp_all add: verifiedInput_def deployed_def emptyAccount_def)
  then show ?thesis
    by (auto simp: afterExpense_def)
qed

lemmas afterExpense_eq = addTransaction_result [OF afterExpense_run]

lemma afterExpense_fields:
  "accounts afterExpense 1 =
     \<lparr>balance = Computed fheSub (TrivialEncrypt 0) (InputHandle 11),
      monthlyExpense = InputHandle 11,
      monthlyBudget = TrivialEncrypt 0,
      isOverBudget = Computed fheGt (InputHandle 11) (TrivialEncrypt 0),
      isBudgetWarning = Computed fheGt (Computed fheMul (InputHandle 11) (TrivialEncrypt 10))
                          (Computed fheMul (TrivialEncrypt 0) (TrivialEncrypt 8)),
      lastUpdateMonth = 11\<rparr>"
  "accounts afterExpense 2 = emptyAccount"
  "transactions afterExpense 1 =
     [\<lparr>amount = InputHandle 11, timestamp = 1700000000, category = 2, isIncome = False,
       month = 11\<rparr>]"
  "transactions afterExpense 2 = []"
  "categoryTotals afterExpense 1 2 = Computed fheAdd (TrivialEncrypt 0) (InputHandle 11)"
  "categoryTotals afterExpense 1 3 = ZeroHandle"
  "categoryTotals afterExpense 2 1 = ZeroHandle"
  "persistedAllowed afterExpense =
     {Computed fheSub (TrivialEncrypt 0) (InputHandle 11), InputHandle 11,
      Computed fheGt (InputHandle 11) (TrivialEncrypt 0),
      Computed fheGt (Computed fheMul (InputHandle 11) (TrivialEncrypt 10))
        (Computed fheMul (TrivialEncrypt 0) (TrivialEncrypt 8))} \<times> {This, User 1}"
  by (simp_all add: afterExpense_eq verifiedInput_def deployed_def emptyAccount_def)

lemma afterIncome_run:
  "Ledger_addTransaction 2 (verifiedInput 12) 1700000050 1 True 1 11 afterExpense = Some afterIncome"
proof -
  have "\<exists>s'. Ledger_addTransaction 2 (verifiedInput 12) 1700000050 1 True 1 11 afterExpense = Some s'"
    by (rule addTransaction_succeeds)
       (simp_all add: verifiedInput_def afterExpense_fields emptyAccount_def)
  then show ?thesis
    by (auto simp: afterIncome_def)
qed

lemmas afterIncome_Some = addTransaction_Some [OF afterIncome_run]

lemma afterIncome_fields:
  "accounts afterIncome 1 = accounts afterExpense 1"
  "accounts afterIncome 2 =
     \<lparr>balance = Computed fheAdd (TrivialEncrypt 0) (InputHandle 12),
      monthlyExpense = TrivialEncrypt 0,
      monthlyBudget = TrivialEncrypt 0,
      isOverBudget = Computed fheGt (TrivialEncrypt 0) (TrivialEncrypt 0),
      isBudgetWarning = Computed fheGt (Computed fheMul (TrivialEncrypt 0) (TrivialEncrypt 10))
                          (Computed fheMul (TrivialEncrypt 0) (TrivialEncrypt 8)),
      lastUpdateMonth = 0\<rparr>"
  "transactions afterIncome 1 = transactions afterExpense 1"
  "transactions afterIncome 2 =
     [\<lparr>amount = InputHandle 12, timestamp = 1700000050, category = 1, isIncome = True,
       month = 11\<rparr>]"
  "categoryTotals afterIncome 1 = categoryTotals afterExpense 1"
  "(InputHandle 11, This) \<in> persistedAllowed afterIncome"
  "(Computed fheSub (TrivialEncrypt 0) (InputHandle 11), This) \<in> persistedAllowed afterIncome"
  "(InputHandle 13, This) \<notin> persistedAllowed afterIncome"
  by (simp_all add: addTransaction_result [OF afterIncome_run] afterExpense_fields
        verifiedInput_def emptyAccount_def)

lemma afterBudget_run:
  "Ledger_setMonthlyBudget 1 (verifiedInput 13) afterIncome = Some afterBudget"
proof -
  have "\<exists>s'. Ledger_setMonthlyBudget 1 (verifiedInput 13) afterIncome = Some s'"
    by (rule setMonthlyBudget_succeeds)
       (simp_all add: verifiedInput_def afterIncome_fields afterExpense_fields)
  then show ?thesis
    by (auto simp: afterBudget_def)
qed

lemma afterBudget_fields:
  "accounts afterBudget 1 =
     \<lparr>balance = Computed fheSub (TrivialEncrypt 0) (InputHandle 11),
      monthlyExpense = InputHandle 11,
      monthlyBudget = InputHandle 13,
      isOverBudget = Computed fheGt (InputHandle 11) (InputHandle 13),
      isBudgetWarning = Computed fheGt (Computed fheMul (InputHandle 11) (TrivialEncrypt 10))
                          (Computed fheMul (InputHandle 13) (TrivialEncrypt 8)),
      lastUpdateMonth = 11\<rparr>"
  "accounts afterBudget 2 = accounts afterIncome 2"
  "transactions afterBudget = transactions afterIncome"
  "categoryTotals afterBudget = categoryTotals afterIncome"
  "(InputHandle 11, This) \<in> persistedAllowed afterBudget"
  "(InputHandle 13, This) \<in> persistedAllowed afterBudget"
  "(Computed fheSub (TrivialEncrypt 0) (InputHandle 11), This) \<in> persistedAllowed afterBudget"
  by (simp_all add: setMonthlyBudget_result [OF afterBudget_run] afterIncome_fields
        afterExpense_fields verifiedInput_def)

lemma afterSecondExpense_run:
  "Ledger_addTransaction 1 (verifiedInput 14) 1700000100 3 False 3 11 afterBudget
     = Some afterSecondExpense"
proof -
  have "\<exists>s'. Ledger_addTransaction 1 (verifiedInput 14) 1700000100 3 False 3 11 afterBudget = Some s'"
    by (rule addTransaction_succeeds)
       (simp_all add: verifiedInput_def afterBudget_fields afterIncome_fields afterExpense_fields)
  then show ?thesis
    by (auto simp: afterSecondExpense_def)
qed

lemma afterSecondExpense_fields:
  "accounts afterSecondExpense 1 =
     \<lparr>balance = Computed fheSub (Computed fheSub (TrivialEncrypt 0) (InputHandle 11)) (InputHandle 14),
      monthlyExpense = Computed fheAdd (InputHandle 11) (InputHandle 14),
      monthlyBudget = InputHandle 13,
      isOverBudget = Computed fheGt (Computed fheAdd (InputHandle 11) (InputHandle 14)) (InputHandle 13),
      isBudgetWarning = Computed fheGt
         (Computed fheMul (Computed fheAdd (InputHandle 11) (InputHandle 14)) (TrivialEncrypt 10))
         (Computed fheMul (InputHandle 13) (TrivialEncrypt 8)),
      lastUpdateMonth = 11\<rparr>"
  "accounts afterSecondExpense 2 = accounts afterIncome 2"
  "accounts afterSecondExpense 3 = emptyAccount"
  "transactions afterSecondExpense 1 =
     [\<lparr>amount = InputHandle 11, timestamp = 1700000000, category = 2, isIncome = False,
       month = 11\<rparr>,
      \<lparr>amount = InputHandle 14, timestamp = 1700000100, category = 3, isIncome = False,
       month = 11\<rparr>]"
  "categoryTotals afterSecondExpense 1 2 = Computed fheAdd (TrivialEncrypt 0) (InputHandle 11)"
  "categoryTotals afterSecondExpense 1 3 = Computed fheAdd (TrivialEncrypt 0) (InputHandle 14)"
  by (simp_all add: addTransaction_result [OF afterSecondExpense_run] afterBudget_fields
        afterIncome_fields afterExpense_fields setMonthlyBudget_Some(7) [OF afterBudget_run]
        addTransaction_Some(7) [OF afterIncome_run] addTransaction_Some(7) [OF afterExpense_run]
        deployed_def verifiedInput_def)

lemma example_reachable:
  "reachable afterExpense" "reachable afterIncome" "reachable afterBudget"
  "reachable afterSecondExpense"
proof -
  show 1: "reachable afterExpense"
    by (rule reachable_addTransaction [OF reachable_deployed afterExpense_run])
  show 2: "reachable afterIncome"
    by (rule reachable_addTransaction [OF 1 afterIncome_run])
  show 3: "reachable afterBudget"
    by (rule reachable_setMonthlyBudget [OF 2 afterBudget_run])
  show "reachable afterSecondExpense"
    by (rule reachable_addTransaction [OF 3 afterSecondExpense_run])
qed

subsection \<open>The category total of a second transaction\<close>

text \<open>
  The clear values after a call of \<^verbatim>\<open>addTransaction\<close> that does not revert; the arithmetic
  is that of 32-bit words, which wraps modulo \<open>2 ^ 32\<close>.
\<close>

lemma addTransaction_clear_effect:
  assumes "Ledger_addTransaction u inp ts cat income key mth s = Some s'"
  shows "clear32 \<rho> (balance (accounts s' u)) =
           (if income then clear32 \<rho> (balance (accounts s u)) + \<rho> (ext_id inp)
            else clear32 \<rho> (balance (accounts s u)) - \<rho> (ext_id inp))"
    and "clear32 \<rho> (monthlyExpense (accounts s' u)) =
           (if income then clear32 \<rho> (monthlyExpense (accounts s u))
            else if mth = lastUpdateMonth (accounts s u)
                 then clear32 \<rho> (monthlyExpense (accounts s u)) + \<rho> (ext_id inp)
                 else \<rho> (ext_id inp))"
    and "clear32 \<rho> (categoryTotals s' u key) =
           clear32 \<rho> (categoryTotals s u key) + \<rho> (ext_id inp)"
  by (simp_all add: addTransaction_Some [OF assms])

text \<open>
  C3. When a call of \<^verbatim>\<open>addTransaction\<close> does not revert, it appends the transaction and
  updates balance, monthly expense, \<^verbatim>\<open>lastUpdateMonth\<close> and the category total as
  \<open>addTransaction_Some\<close> and \<open>addTransaction_clear_effect\<close> say. But the call reverts on
  a category that already has a total: \<^verbatim>\<open>addTransaction\<close> allows the contract for good on
  the new balance, monthly expense and flags (\<^verbatim>\<open>FHE.allowThis\<close>), and never on the new
  category total. After the first expense of user 1 in category 2 the contract is allowed
  on the stored balance and not on the stored category total, and a second expense in
  the same category, with a verified input, reverts in \<^verbatim>\<open>FHE.add\<close> on the category
  total. Likewise \<^verbatim>\<open>setMonthlyBudget\<close> on a new account leaves the contract without an
  allowance on the balance and monthly expense it initialized, and the transaction that
  follows reverts.
\<close>

theorem addTransaction_existing_category_reverts:
  "Ledger_addTransaction 1 (verifiedInput 11) 1700000000 2 False 2 11 deployed = Some afterExpense
   \<and> categoryTotals afterExpense 1 2 = Computed fheAdd (TrivialEncrypt 0) (InputHandle 11)
   \<and> isAllowed afterExpense (balance (accounts afterExpense 1)) This
   \<and> \<not> isAllowed afterExpense (categoryTotals afterExpense 1 2) This
   \<and> Ledger_addTransaction 1 (verifiedInput 15) 1700000100 2 False 2 11 afterExpense = None
   \<and> Ledger_setMonthlyBudget 1 (verifiedInput 13) deployed = Some afterFirstBudget
   \<and> balance (accounts afterFirstBudget 1) = TrivialEncrypt 0
   \<and> \<not> isAllowed afterFirstBudget (balance (accounts afterFirstBudget 1)) This
   \<and> Ledger_addTransaction 1 (verifiedInput 11) 1700000000 2 False 2 11 afterFirstBudget = None"
proof -
  have a: "isAllowed afterExpense (balance (accounts afterExpense 1)) This"
    by (simp add: isAllowed_def afterExpense_fields)
  have b: "\<not> isAllowed afterExpense (categoryTotals afterExpense 1 2) This"
    by (simp add: isAllowed_def afterExpense_fields
          addTransaction_Some(12) [OF afterExpense_run])
  have c: "Ledger_addTransaction 1 (verifiedInput 15) 1700000100 2 False 2 11 afterExpense = None"
    by (simp add: afterExpense_eq verifiedInput_def deployed_def emptyAccount_def exec
          split del: if_split cong: if_cong)
  have "\<exists>s. Ledger_setMonthlyBudget 1 (verifiedInput 13) deployed = Some s"
    by (rule setMonthlyBudget_succeeds) (simp_all add: verifiedInput_def deployed_def emptyAccount_def)
  then have d: "Ledger_setMonthlyBudget 1 (verifiedInput 13) deployed = Some afterFirstBudget"
    by (auto simp: afterFirstBudget_def)
  note D = setMonthlyBudget_result [OF d]
  have e: "balance (accounts afterFirstBudget 1) = TrivialEncrypt 0"
    by (simp add: D deployed_def emptyAccount_def)
  have f: "\<not> isAllowed afterFirstBudget (balance (accounts afterFirstBudget 1)) This"
    by (simp add: isAllowed_def D deployed_def emptyAccount_def verifiedInput_def)
  have g: "Ledger_addTransaction 1 (verifiedInput 11) 1700000000 2 False 2 11 afterFirstBudget = None"
    by (simp add: D verifiedInput_def deployed_def emptyAccount_def exec
          split del: if_split cong: if_cong)
  from afterExpense_run afterExpense_fields(5) a b c d e f g show ?thesis
    by (intro conjI)
qed

subsection \<open>The budget flags\<close>

lemma flags_clear:
  assumes "isOverBudget a = Computed fheGt (monthlyExpense a) (monthlyBudget a)"
    and "isBudgetWarning a =
           Computed fheGt (Computed fheMul (monthlyExpense a) (TrivialEncrypt 10))
                          (Computed fheMul (monthlyBudget a) (TrivialEncrypt 8))"
  shows "clearBool \<rho> (isOverBudget a) =
           (uint (clear32 \<rho> (monthlyBudget a)) < uint (clear32 \<rho> (monthlyExpense a)))"
    and "clearBool \<rho> (isBudgetWarning a) =
           ((uint (clear32 \<rho> (monthlyBudget a)) * 8) mod 2 ^ 32
              < (uint (clear32 \<rho> (monthlyExpense a)) * 10) mod 2 ^ 32)"
  by (simp_all add: assms clearBool_def word_less_def uint_word_ariths)

lemma emptyAccount_flags_clear:
  "clearBool \<rho> (isOverBudget emptyAccount) =
     (uint (clear32 \<rho> (monthlyBudget emptyAccount)) < uint (clear32 \<rho> (monthlyExpense emptyAccount)))"
  "clearBool \<rho> (isBudgetWarning emptyAccount) =
     ((uint (clear32 \<rho> (monthlyBudget emptyAccount)) * 8) mod 2 ^ 32
        < (uint (clear32 \<rho> (monthlyExpense emptyAccount)) * 10) mod 2 ^ 32)"
  by (simp_all add: emptyAccount_def clearBool_def)

lemma reachable_flags:
  assumes "reachable s"
  shows "accounts s u = emptyAccount
       \<or> (isOverBudget (accounts s u) =
             Computed fheGt (monthlyExpense (accounts s u)) (monthlyBudget (accounts s u))
          \<and> isBudgetWarning (accounts s u) =
             Computed fheGt (Computed fheMul (monthlyExpense (accounts s u)) (TrivialEncrypt 10))
                            (Computed fheMul (monthlyBudget (accounts s u)) (TrivialEncrypt 8)))"
  using assms
proof (induction rule: reachable.induct)
  case reachable_deployed
  show ?case by (simp add: deployed_def)
next
  case (reachable_addTransaction s sender inp ts cat income key mth t)
  note S = addTransaction_Some [OF reachable_addTransaction.hyps(2)]
  show ?case
  proof (cases "u = sender")
    case True
    with S(4,5) show ?thesis by simp
  next
    case False
    with S(7) [of u] reachable_addTransaction.IH show ?thesis by simp
  qed
next
  case (reachable_setMonthlyBudget s sender inp t)
  note S = setMonthlyBudget_Some [OF reachable_setMonthlyBudget.hyps(2)]
  show ?case
  proof (cases "u = sender")
    case True
    with S(4,5) show ?thesis by simp
  next
    case False
    with S(7) [of u] reachable_setMonthlyBudget.IH show ?thesis by simp
  qed
qed

lemma reachable_flags_clear:
  assumes "reachable s"
  shows "clearBool \<rho> (isOverBudget (accounts s u)) =
           (uint (clear32 \<rho> (monthlyBudget (accounts s u)))
              < uint (clear32 \<rho> (monthlyExpense (accounts s u))))"
    and "clearBool \<rho> (isBudgetWarning (accounts s u)) =
           ((uint (clear32 \<rho> (monthlyBudget (accounts s u))) * 8) mod 2 ^ 32
              < (uint (clear32 \<rho> (monthlyExpense (accounts s u))) * 10) mod 2 ^ 32)"
  using reachable_flags [OF assms, of u] flags_clear [of "accounts s u" \<rho>]
    emptyAccount_flags_clear [of \<rho>]
  by auto

lemma warning_misses_expense_overflow:
  "Ledger_addTransaction 1 (verifiedInput 11) 1700000000 2 False 2 11 deployed = Some afterExpense
   \<and> 8 * uint (clear32 halfRangePlain (monthlyBudget (accounts afterExpense 1)))
       < 10 * uint (clear32 halfRangePlain (monthlyExpense (accounts afterExpense 1)))
   \<and> \<not> clearBool halfRangePlain (isBudgetWarning (accounts afterExpense 1))"
  by (simp add: afterExpense_run afterExpense_fields clearBool_def halfRangePlain_def)

lemma warning_wrong_on_budget_overflow:
  "Ledger_setMonthlyBudget 1 (verifiedInput 13) afterIncome = Some afterBudget
   \<and> \<not> 8 * uint (clear32 largeBudgetPlain (monthlyBudget (accounts afterBudget 1)))
         < 10 * uint (clear32 largeBudgetPlain (monthlyExpense (accounts afterBudget 1)))
   \<and> clearBool largeBudgetPlain (isBudgetWarning (accounts afterBudget 1))"
  by (simp add: afterBudget_run afterBudget_fields clearBool_def largeBudgetPlain_def)

lemma warning_right_on_overflow:
  "clear32 largestPlain (monthlyExpense (accounts afterExpense 1)) = 4294967295
   \<and> clear32 largestPlain (monthlyBudget (accounts afterExpense 1)) = 0
   \<and> clearBool largestPlain (isBudgetWarning (accounts afterExpense 1))"
  by (simp add: afterExpense_fields clearBool_def largestPlain_def)

text \<open>
  C4 as stated fails. After the first expense of user 1, with a clear amount of
  \<open>2 ^ 32 - 1\<close>, the monthly expense is \<open>2 ^ 32 - 1\<close> and the budget 0: the product of the
  expense overflows, and the warning flag still is the intended condition. So the flag
  agrees with the intended condition not only when neither product overflows.
\<close>

theorem budget_warning_agrees_despite_overflow:
  "Ledger_addTransaction 1 (verifiedInput 11) 1700000000 2 False 2 11 deployed = Some afterExpense
   \<and> uint (clear32 largestPlain (monthlyExpense (accounts afterExpense 1))) = 4294967295
   \<and> uint (clear32 largestPlain (monthlyBudget (accounts afterExpense 1))) = 0
   \<and> (2::int) ^ 32 \<le> uint (clear32 largestPlain (monthlyExpense (accounts afterExpense 1))) * 10
   \<and> clearBool largestPlain (isBudgetWarning (accounts afterExpense 1))
   \<and> 8 * uint (clear32 largestPlain (monthlyBudget (accounts afterExpense 1)))
       < 10 * uint (clear32 largestPlain (monthlyExpense (accounts afterExpense 1)))"
  using afterExpense_run warning_right_on_overflow
  by simp

text \<open>
  C4 (as amended). After a call of \<^verbatim>\<open>addTransaction\<close> or \<^verbatim>\<open>setMonthlyBudget\<close> that does not
  revert, the caller's \<^verbatim>\<open>isOverBudget\<close> is the handle of monthlyExpense > monthlyBudget and
  \<^verbatim>\<open>isBudgetWarning\<close> the handle of monthlyExpense * 10 > monthlyBudget * 8, computed on the
  handles stored by the call; decrypted, they are expense > budget and
  (expense * 10 mod \<open>2 ^ 32\<close>) > (budget * 8 mod \<open>2 ^ 32\<close>). A call that reverts changes
  nothing, so in every state that calls can produce the same holds of every account
  (the zero handles of an untouched account read as false and 0). The calls do return:
  they do not revert when the input proof verifies and the contract was allowed for good
  on the handles it reads. Whenever neither product overflows, the warning flag is the
  intended condition 10 * expense > 8 * budget. When a product overflows it may be or
  not: it is at expense \<open>2 ^ 32 - 1\<close> and budget 0; at expense \<open>2 ^ 31\<close> and budget 0 the
  expense exceeds 80% of the budget and the flag is false; at expense 1 and budget
  \<open>2 ^ 29\<close> it does not and the flag is true.
\<close>

theorem budget_flags_after_call:
  "(Ledger_addTransaction sender inp ts cat income key mth s = Some s'
      \<or> Ledger_setMonthlyBudget sender inp s = Some s' \<longrightarrow>
      isOverBudget (accounts s' sender) =
        Computed fheGt (monthlyExpense (accounts s' sender)) (monthlyBudget (accounts s' sender))
    \<and> isBudgetWarning (accounts s' sender) =
        Computed fheGt
          (Computed fheMul (monthlyExpense (accounts s' sender)) (TrivialEncrypt 10))
          (Computed fheMul (monthlyBudget (accounts s' sender)) (TrivialEncrypt 8))
    \<and> clearBool \<rho> (isOverBudget (accounts s' sender)) =
        (uint (clear32 \<rho> (monthlyBudget (accounts s' sender)))
           < uint (clear32 \<rho> (monthlyExpense (accounts s' sender))))
    \<and> clearBool \<rho> (isBudgetWarning (accounts s' sender)) =
        ((uint (clear32 \<rho> (monthlyBudget (accounts s' sender))) * 8) mod 2 ^ 32
           < (uint (clear32 \<rho> (monthlyExpense (accounts s' sender))) * 10) mod 2 ^ 32)
    \<and> (uint (clear32 \<rho> (monthlyExpense (accounts s' sender))) * 10 < 2 ^ 32
         \<and> uint (clear32 \<rho> (monthlyBudget (accounts s' sender))) * 8 < 2 ^ 32 \<longrightarrow>
        clearBool \<rho> (isBudgetWarning (accounts s' sender)) =
          (8 * uint (clear32 \<rho> (monthlyBudget (accounts s' sender)))
             < 10 * uint (clear32 \<rho> (monthlyExpense (accounts s' sender))))))
   \<and> (reachable s \<longrightarrow>
      clearBool \<rho> (isOverBudget (accounts s u)) =
        (uint (clear32 \<rho> (monthlyBudget (accounts s u)))
           < uint (clear32 \<rho> (monthlyExpense (accounts s u))))
    \<and> clearBool \<rho> (isBudgetWarning (accounts s u)) =
        ((uint (clear32 \<rho> (monthlyBudget (accounts s u))) * 8) mod 2 ^ 32
           < (uint (clear32 \<rho> (monthlyExpense (accounts s u))) * 10) mod 2 ^ 32)
    \<and> (uint (clear32 \<rho> (monthlyExpense (accounts s u))) * 10 < 2 ^ 32
         \<and> uint (clear32 \<rho> (monthlyBudget (accounts s u))) * 8 < 2 ^ 32 \<longrightarrow>
        clearBool \<rho> (isBudgetWarning (accounts s u)) =
          (8 * uint (clear32 \<rho> (monthlyBudget (accounts s u)))
             < 10 * uint (clear32 \<rho> (monthlyExpense (accounts s u))))))
   \<and> (ext_proof_ok inp
      \<and> (balance (accounts s sender) = ZeroHandle
           \<or> (balance (accounts s sender), This) \<in> persistedAllowed s)
      \<and> (monthlyExpense (accounts s sender) = ZeroHandle
           \<or> (monthlyExpense (accounts s sender), This) \<in> persistedAllowed s)
      \<and> (monthlyBudget (accounts s sender) = ZeroHandle
           \<or> (monthlyBudget (accounts s sender), This) \<in> persistedAllowed s)
      \<and> (categoryTotals s sender key = ZeroHandle
           \<or> (categoryTotals s sender key, This) \<in> persistedAllowed s) \<longrightarrow>
      (\<exists>t. Ledger_addTransaction sender inp ts cat income key mth s = Some t))
   \<and> (ext_proof_ok inp
      \<and> (monthlyExpense (accounts s sender) = ZeroHandle
           \<or> (monthlyExpense (accounts s sender), This) \<in> persistedAllowed s) \<longrightarrow>
      (\<exists>t. Ledger_setMonthlyBudget sender inp s = Some t))
   \<and> (Ledger_addTransaction 1 (verifiedInput 11) 1700000000 2 False 2 11 deployed
        = Some afterExpense
      \<and> 8 * uint (clear32 halfRangePlain (monthlyBudget (accounts afterExpense 1)))
          < 10 * uint (clear32 halfRangePlain (monthlyExpense (accounts afterExpense 1)))
      \<and> \<not> clearBool halfRangePlain (isBudgetWarning (accounts afterExpense 1)))
   \<and> (Ledger_setMonthlyBudget 1 (verifiedInput 13) afterIncome = Some afterBudget
      \<and> \<not> 8 * uint (clear32 largeBudgetPlain (monthlyBudget (accounts afterBudget 1)))
            < 10 * uint (clear32 largeBudgetPlain (monthlyExpense (accounts afterBudget 1)))
      \<and> clearBool largeBudgetPlain (isBudgetWarning (accounts afterBudget 1)))"
proof -
  have p1: "Ledger_addTransaction sender inp ts cat income key mth s = Some s'
      \<or> Ledger_setMonthlyBudget sender inp s = Some s' \<longrightarrow>
      isOverBudget (accounts s' sender) =
        Computed fheGt (monthlyExpense (accounts s' sender)) (monthlyBudget (accounts s' sender))
    \<and> isBudgetWarning (accounts s' sender) =
        Computed fheGt
          (Computed fheMul (monthlyExpense (accounts s' sender)) (TrivialEncrypt 10))
          (Computed fheMul (monthlyBudget (accounts s' sender)) (TrivialEncrypt 8))
    \<and> clearBool \<rho> (isOverBudget (accounts s' sender)) =
        (uint (clear32 \<rho> (monthlyBudget (accounts s' sender)))
           < uint (clear32 \<rho> (monthlyExpense (accounts s' sender))))
    \<and> clearBool \<rho> (isBudgetWarning (accounts s' sender)) =
        ((uint (clear32 \<rho> (monthlyBudget (accounts s' sender))) * 8) mod 2 ^ 32
           < (uint (clear32 \<rho> (monthlyExpense (accounts s' sender))) * 10) mod 2 ^ 32)
    \<and> (uint (clear32 \<rho> (monthlyExpense (accounts s' sender))) * 10 < 2 ^ 32
         \<and> uint (clear32 \<rho> (monthlyBudget (accounts s' sender))) * 8 < 2 ^ 32 \<longrightarrow>
        clearBool \<rho> (isBudgetWarning (accounts s' sender)) =
          (8 * uint (clear32 \<rho> (monthlyBudget (accounts s' sender)))
             < 10 * uint (clear32 \<rho> (monthlyExpense (accounts s' sender)))))"
  proof
    assume h: "Ledger_addTransaction sender inp ts cat income key mth s = Some s'
      \<or> Ledger_setMonthlyBudget sender inp s = Some s'"
    have over: "isOverBudget (accounts s' sender) =
        Computed fheGt (monthlyExpense (accounts s' sender)) (monthlyBudget (accounts s' sender))"
      using h addTransaction_Some(4) setMonthlyBudget_Some(4) by blast
    have warn: "isBudgetWarning (accounts s' sender) =
        Computed fheGt
          (Computed fheMul (monthlyExpense (accounts s' sender)) (TrivialEncrypt 10))
          (Computed fheMul (monthlyBudget (accounts s' sender)) (TrivialEncrypt 8))"
      using h addTransaction_Some(5) setMonthlyBudget_Some(5) by blast
    note c = flags_clear [OF over warn, of \<rho>]
    have "uint (clear32 \<rho> (monthlyExpense (accounts s' sender))) * 10 < 2 ^ 32
         \<and> uint (clear32 \<rho> (monthlyBudget (accounts s' sender))) * 8 < 2 ^ 32 \<longrightarrow>
        clearBool \<rho> (isBudgetWarning (accounts s' sender)) =
          (8 * uint (clear32 \<rho> (monthlyBudget (accounts s' sender)))
             < 10 * uint (clear32 \<rho> (monthlyExpense (accounts s' sender))))"
      unfolding c(2) by (simp add: mult.commute)
    with over warn c show "isOverBudget (accounts s' sender) =
        Computed fheGt (monthlyExpense (accounts s' sender)) (monthlyBudget (accounts s' sender))
    \<and> isBudgetWarning (accounts s' sender) =
        Computed fheGt
          (Computed fheMul (monthlyExpense (accounts s' sender)) (TrivialEncrypt 10))
          (Computed fheMul (monthlyBudget (accounts s' sender)) (TrivialEncrypt 8))
    \<and> clearBool \<rho> (isOverBudget (accounts s' sender)) =
        (uint (clear32 \<rho> (monthlyBudget (accounts s' sender)))
           < uint (clear32 \<rho> (monthlyExpense (accounts s' sender))))
    \<and> clearBool \<rho> (isBudgetWarning (accounts s' sender)) =
        ((uint (clear32 \<rho> (monthlyBudget (accounts s' sender))) * 8) mod 2 ^ 32
           < (uint (clear32 \<rho> (monthlyExpense (accounts s' sender))) * 10) mod 2 ^ 32)
    \<and> (uint (clear32 \<rho> (monthlyExpense (accounts s' sender))) * 10 < 2 ^ 32
         \<and> uint (clear32 \<rho> (monthlyBudget (accounts s' sender))) * 8 < 2 ^ 32 \<longrightarrow>
        clearBool \<rho> (isBudgetWarning (accounts s' sender)) =
          (8 * uint (clear32 \<rho> (monthlyBudget (accounts s' sender)))
             < 10 * uint (clear32 \<rho> (monthlyExpense (accounts s' sender)))))"
      by (intro conjI)
  qed
  have p2: "reachable s \<longrightarrow>
      clearBool \<rho> (isOverBudget (accounts s u)) =
        (uint (clear32 \<rho> (monthlyBudget (accounts s u)))
           < uint (clear32 \<rho> (monthlyExpense (accounts s u))))
    \<and> clearBool \<rho> (isBudgetWarning (accounts s u)) =
        ((uint (clear32 \<rho> (monthlyBudget (accounts s u))) * 8) mod 2 ^ 32
           < (uint (clear32 \<rho> (monthlyExpense (accounts s u))) * 10) mod 2 ^ 32)
    \<and> (uint (clear32 \<rho> (monthlyExpense (accounts s u))) * 10 < 2 ^ 32
         \<and> uint (clear32 \<rho> (monthlyBudget (accounts s u))) * 8 < 2 ^ 32 \<longrightarrow>
        clearBool \<rho> (isBudgetWarning (accounts s u)) =
          (8 * uint (clear32 \<rho> (monthlyBudget (accounts s u)))
             < 10 * uint (clear32 \<rho> (monthlyExpense (accounts s u)))))"
  proof
    assume r: "reachable s"
    note c = reachable_flags_clear [OF r, of \<rho> u]
    have "uint (clear32 \<rho> (monthlyExpense (accounts s u))) * 10 < 2 ^ 32
         \<and> uint (clear32 \<rho> (monthlyBudget (accounts s u))) * 8 < 2 ^ 32 \<longrightarrow>
        clearBool \<rho> (isBudgetWarning (accounts s u)) =
          (8 * uint (clear32 \<rho> (monthlyBudget (accounts s u)))
             < 10 * uint (clear32 \<rho> (monthlyExpense (accounts s u))))"
      unfolding c(2) by (simp add: mult.commute)
    with c show "clearBool \<rho> (isOverBudget (accounts s u)) =
        (uint (clear32 \<rho> (monthlyBudget (accounts s u)))
           < uint (clear32 \<rho> (monthlyExpense (accounts s u))))
    \<and> clearBool \<rho> (isBudgetWarning (accounts s u)) =
        ((uint (clear32 \<rho> (monthlyBudget (accounts s u))) * 8) mod 2 ^ 32
           < (uint (clear32 \<rho> (monthlyExpense (accounts s u))) * 10) mod 2 ^ 32)
    \<and> (uint (clear32 \<rho> (monthlyExpense (accounts s u))) * 10 < 2 ^ 32
         \<and> uint (clear32 \<rho> (monthlyBudget (accounts s u))) * 8 < 2 ^ 32 \<longrightarrow>
        clearBool \<rho> (isBudgetWarning (accounts s u)) =
          (8 * uint (clear32 \<rho> (monthlyBudget (accounts s u)))
             < 10 * uint (clear32 \<rho> (monthlyExpense (accounts s u)))))"
      by (intro conjI)
  qed
  have p3: "ext_proof_ok inp
      \<and> (balance (accounts s sender) = ZeroHandle
           \<or> (balance (accounts s sender), This) \<in> persistedAllowed s)
      \<and> (monthlyExpense (accounts s sender) = ZeroHandle
           \<or> (monthlyExpense (accounts s sender), This) \<in> persistedAllowed s)
      \<and> (monthlyBudget (accounts s sender) = ZeroHandle
           \<or> (monthlyBudget (accounts s sender), This) \<in> persistedAllowed s)
      \<and> (categoryTotals s sender key = ZeroHandle
           \<or> (categoryTotals s sender key, This) \<in> persistedAllowed s) \<longrightarrow>
      (\<exists>t. Ledger_addTransaction sender inp ts cat income key mth s = Some t)"
  proof
    assume "ext_proof_ok inp
      \<and> (balance (accounts s sender) = ZeroHandle
           \<or> (balance (accounts s sender), This) \<in> persistedAllowed s)
      \<and> (monthlyExpense (accounts s sender) = ZeroHandle
           \<or> (monthlyExpense (accounts s sender), This) \<in> persistedAllowed s)
      \<and> (monthlyBudget (accounts s sender) = ZeroHandle
           \<or> (monthlyBudget (accounts s sender), This) \<in> persistedAllowed s)
      \<and> (categoryTotals s sender key = ZeroHandle
           \<or> (categoryTotals s sender key, This) \<in> persistedAllowed s)"
    then show "\<exists>t. Ledger_addTransaction sender inp ts cat income key mth s = Some t"
      by (intro addTransaction_succeeds) simp_all
  qed
  have p4: "ext_proof_ok inp
      \<and> (monthlyExpense (accounts s sender) = ZeroHandle
           \<or> (monthlyExpense (accounts s sender), This) \<in> persistedAllowed s) \<longrightarrow>
      (\<exists>t. Ledger_setMonthlyBudget sender inp s = Some t)"
  proof
    assume "ext_proof_ok inp
      \<and> (monthlyExpense (accounts s sender) = ZeroHandle
           \<or> (monthlyExpense (accounts s sender), This) \<in> persistedAllowed s)"
    then show "\<exists>t. Ledger_setMonthlyBudget sender inp s = Some t"
      by (intro setMonthlyBudget_succeeds) simp_all
  qed
  show ?thesis
    by (rule conjI, rule p1, rule conjI, rule p2, rule conjI, rule p3, rule conjI, rule p4,
        rule conjI, rule warning_misses_expense_overflow, rule warning_wrong_on_budget_overflow)
qed

theorem budget_flags_after_call_witness:
  "ext_proof_ok (verifiedInput 13)
   \<and> (monthlyExpense (accounts afterIncome 1), This) \<in> persistedAllowed afterIncome
   \<and> Ledger_setMonthlyBudget 1 (verifiedInput 13) afterIncome = Some afterBudget
   \<and> isOverBudget (accounts afterBudget 1) = Computed fheGt (InputHandle 11) (InputHandle 13)
   \<and> isBudgetWarning (accounts afterBudget 1) =
       Computed fheGt (Computed fheMul (InputHandle 11) (TrivialEncrypt 10))
                      (Computed fheMul (InputHandle 13) (TrivialEncrypt 8))
   \<and> uint (clear32 examplePlain (monthlyExpense (accounts afterBudget 1))) = 90
   \<and> uint (clear32 examplePlain (monthlyBudget (accounts afterBudget 1))) = 100
   \<and> \<not> clearBool examplePlain (isOverBudget (accounts afterBudget 1))
   \<and> clearBool examplePlain (isBudgetWarning (accounts afterBudget 1))
   \<and> ext_proof_ok (verifiedInput 14)
   \<and> (balance (accounts afterBudget 1), This) \<in> persistedAllowed afterBudget
   \<and> (monthlyExpense (accounts afterBudget 1), This) \<in> persistedAllowed afterBudget
   \<and> (monthlyBudget (accounts afterBudget 1), This) \<in> persistedAllowed afterBudget
   \<and> categoryTotals afterBudget 1 3 = ZeroHandle
   \<and> Ledger_addTransaction 1 (verifiedInput 14) 1700000100 3 False 3 11 afterBudget
       = Some afterSecondExpense
   \<and> isOverBudget (accounts afterSecondExpense 1) =
       Computed fheGt (Computed fheAdd (InputHandle 11) (InputHandle 14)) (InputHandle 13)
   \<and> reachable afterSecondExpense
   \<and> uint (clear32 examplePlain (monthlyExpense (accounts afterSecondExpense 1))) = 130
   \<and> uint (clear32 examplePlain (monthlyBudget (accounts afterSecondExpense 1))) = 100
   \<and> clearBool examplePlain (isOverBudget (accounts afterSecondExpense 1))
   \<and> clearBool examplePlain (isBudgetWarning (accounts afterSecondExpense 1))"
proof -
  have ok: "ext_proof_ok (verifiedInput 13)"
    by (simp add: verifiedInput_def)
  have al: "(monthlyExpense (accounts afterIncome 1), This) \<in> persistedAllowed afterIncome"
    by (simp add: afterIncome_fields afterExpense_fields)
  note T = budget_flags_after_call [where sender = 1 and inp = "verifiedInput 13"
      and s = afterIncome and s' = afterBudget and \<rho> = examplePlain]
  from T ok al have "\<exists>t. Ledger_setMonthlyBudget 1 (verifiedInput 13) afterIncome = Some t"
    by blast
  then have run: "Ledger_setMonthlyBudget 1 (verifiedInput 13) afterIncome = Some afterBudget"
    by (auto simp: afterBudget_def)
  from T run have f:
    "isOverBudget (accounts afterBudget 1) =
       Computed fheGt (monthlyExpense (accounts afterBudget 1)) (monthlyBudget (accounts afterBudget 1))"
    "isBudgetWarning (accounts afterBudget 1) =
       Computed fheGt (Computed fheMul (monthlyExpense (accounts afterBudget 1)) (TrivialEncrypt 10))
                      (Computed fheMul (monthlyBudget (accounts afterBudget 1)) (TrivialEncrypt 8))"
    "clearBool examplePlain (isOverBudget (accounts afterBudget 1)) =
        (uint (clear32 examplePlain (monthlyBudget (accounts afterBudget 1)))
           < uint (clear32 examplePlain (monthlyExpense (accounts afterBudget 1))))"
    "uint (clear32 examplePlain (monthlyExpense (accounts afterBudget 1))) * 10 < 2 ^ 32
         \<and> uint (clear32 examplePlain (monthlyBudget (accounts afterBudget 1))) * 8 < 2 ^ 32 \<longrightarrow>
        clearBool examplePlain (isBudgetWarning (accounts afterBudget 1)) =
          (8 * uint (clear32 examplePlain (monthlyBudget (accounts afterBudget 1)))
             < 10 * uint (clear32 examplePlain (monthlyExpense (accounts afterBudget 1))))"
    by blast+
  have v: "uint (clear32 examplePlain (monthlyExpense (accounts afterBudget 1))) = 90"
    "uint (clear32 examplePlain (monthlyBudget (accounts afterBudget 1))) = 100"
    by (simp_all add: afterBudget_fields examplePlain_def)
  have h: "isOverBudget (accounts afterBudget 1) = Computed fheGt (InputHandle 11) (InputHandle 13)"
    "isBudgetWarning (accounts afterBudget 1) =
       Computed fheGt (Computed fheMul (InputHandle 11) (TrivialEncrypt 10))
                      (Computed fheMul (InputHandle 13) (TrivialEncrypt 8))"
    using f(1,2) by (simp_all add: afterBudget_fields)
  have b: "\<not> clearBool examplePlain (isOverBudget (accounts afterBudget 1))"
    "clearBool examplePlain (isBudgetWarning (accounts afterBudget 1))"
    using f(3,4) by (simp_all add: v)
  have ok2: "ext_proof_ok (verifiedInput 14)"
    by (simp add: verifiedInput_def)
  have al2: "(balance (accounts afterBudget 1), This) \<in> persistedAllowed afterBudget"
    "(monthlyExpense (accounts afterBudget 1), This) \<in> persistedAllowed afterBudget"
    "(monthlyBudget (accounts afterBudget 1), This) \<in> persistedAllowed afterBudget"
    "categoryTotals afterBudget 1 3 = ZeroHandle"
    by (simp_all add: afterBudget_fields afterIncome_fields afterExpense_fields)
  note U = budget_flags_after_call [where sender = 1 and inp = "verifiedInput 14"
      and ts = 1700000100 and cat = 3 and income = False and key = 3 and mth = 11
      and s = afterBudget and s' = afterSecondExpense and \<rho> = examplePlain]
  from U ok2 al2 have
    "\<exists>t. Ledger_addTransaction 1 (verifiedInput 14) 1700000100 3 False 3 11 afterBudget = Some t"
    by blast
  then have run2: "Ledger_addTransaction 1 (verifiedInput 14) 1700000100 3 False 3 11 afterBudget
       = Some afterSecondExpense"
    by (auto simp: afterSecondExpense_def)
  from U run2 have "isOverBudget (accounts afterSecondExpense 1) =
       Computed fheGt (monthlyExpense (accounts afterSecondExpense 1))
         (monthlyBudget (accounts afterSecondExpense 1))"
    by blast
  then have h2: "isOverBudget (accounts afterSecondExpense 1) =
       Computed fheGt (Computed fheAdd (InputHandle 11) (InputHandle 14)) (InputHandle 13)"
    by (simp add: afterSecondExpense_fields)
  note R = budget_flags_after_call [where s = afterSecondExpense and \<rho> = examplePlain and u = 1]
  have w: "uint (clear32 examplePlain (monthlyExpense (accounts afterSecondExpense 1))) = 130"
    "uint (clear32 examplePlain (monthlyBudget (accounts afterSecondExpense 1))) = 100"
    by (simp_all add: afterSecondExpense_fields examplePlain_def)
  from R example_reachable(4) have g:
    "clearBool examplePlain (isOverBudget (accounts afterSecondExpense 1)) =
        (uint (clear32 examplePlain (monthlyBudget (accounts afterSecondExpense 1)))
           < uint (clear32 examplePlain (monthlyExpense (accounts afterSecondExpense 1))))"
    "uint (clear32 examplePlain (monthlyExpense (accounts afterSecondExpense 1))) * 10 < 2 ^ 32
         \<and> uint (clear32 examplePlain (monthlyBudget (accounts afterSecondExpense 1))) * 8 < 2 ^ 32 \<longrightarrow>
        clearBool examplePlain (isBudgetWarning (accounts afterSecondExpense 1)) =
          (8 * uint (clear32 examplePlain (monthlyBudget (accounts afterSecondExpense 1)))
             < 10 * uint (clear32 examplePlain (monthlyExpense (accounts afterSecondExpense 1))))"
    by blast+
  have c: "clearBool examplePlain (isOverBudget (accounts afterSecondExpense 1))"
    "clearBool examplePlain (isBudgetWarning (accounts afterSecondExpense 1))"
    using g by (simp_all add: w)
  from ok al run h v b ok2 al2 run2 h2 example_reachable(4) w c show ?thesis
    by (intro conjI)
qed

subsection \<open>The frame of setMonthlyBudget\<close>

text \<open>
  C7. A call of \<^verbatim>\<open>setMonthlyBudget\<close> that does not revert changes, in the contract's
  storage, only the caller's \<^verbatim>\<open>monthlyBudget\<close>, \<^verbatim>\<open>isOverBudget\<close> and \<^verbatim>\<open>isBudgetWarning\<close>,
  apart from turning a zero balance or monthly expense handle into the trivial
  encryption of 0: the caller's balance and monthly expense keep their clear values,
  \<^verbatim>\<open>lastUpdateMonth\<close>, every transaction list and every category total are as before, and
  so is every other account. Outside the storage, the call emits \<^verbatim>\<open>BudgetUpdated\<close> and
  allows the contract and the caller on the three new handles. A call that reverts
  changes nothing; the call does not revert when the input proof verifies and the
  contract was allowed for good on the stored monthly expense, and it reverts when the
  proof does not verify.
\<close>

theorem setMonthlyBudget_frame:
  "(Ledger_setMonthlyBudget sender inp s = Some s' \<longrightarrow>
      balance (accounts s' sender) = operand (balance (accounts s sender))
    \<and> monthlyExpense (accounts s' sender) = operand (monthlyExpense (accounts s sender))
    \<and> clear32 \<rho> (balance (accounts s' sender)) = clear32 \<rho> (balance (accounts s sender))
    \<and> clear32 \<rho> (monthlyExpense (accounts s' sender)) =
        clear32 \<rho> (monthlyExpense (accounts s sender))
    \<and> monthlyBudget (accounts s' sender) = InputHandle (ext_id inp)
    \<and> lastUpdateMonth (accounts s' sender) = lastUpdateMonth (accounts s sender)
    \<and> transactions s' = transactions s
    \<and> categoryTotals s' = categoryTotals s
    \<and> (\<forall>u. u \<noteq> sender \<longrightarrow> accounts s' u = accounts s u)
    \<and> events s' = events s @ [BudgetUpdated sender]
    \<and> persistedAllowed s' = persistedAllowed s \<union>
        {monthlyBudget (accounts s' sender), isOverBudget (accounts s' sender),
         isBudgetWarning (accounts s' sender)} \<times> {This, User sender})
   \<and> (ext_proof_ok inp
      \<and> (monthlyExpense (accounts s sender) = ZeroHandle
           \<or> (monthlyExpense (accounts s sender), This) \<in> persistedAllowed s) \<longrightarrow>
      (\<exists>t. Ledger_setMonthlyBudget sender inp s = Some t))
   \<and> (\<not> ext_proof_ok inp \<longrightarrow> Ledger_setMonthlyBudget sender inp s = None)"
proof -
  have p1: "Ledger_setMonthlyBudget sender inp s = Some s' \<longrightarrow>
      balance (accounts s' sender) = operand (balance (accounts s sender))
    \<and> monthlyExpense (accounts s' sender) = operand (monthlyExpense (accounts s sender))
    \<and> clear32 \<rho> (balance (accounts s' sender)) = clear32 \<rho> (balance (accounts s sender))
    \<and> clear32 \<rho> (monthlyExpense (accounts s' sender)) =
        clear32 \<rho> (monthlyExpense (accounts s sender))
    \<and> monthlyBudget (accounts s' sender) = InputHandle (ext_id inp)
    \<and> lastUpdateMonth (accounts s' sender) = lastUpdateMonth (accounts s sender)
    \<and> transactions s' = transactions s
    \<and> categoryTotals s' = categoryTotals s
    \<and> (\<forall>u. u \<noteq> sender \<longrightarrow> accounts s' u = accounts s u)
    \<and> events s' = events s @ [BudgetUpdated sender]
    \<and> persistedAllowed s' = persistedAllowed s \<union>
        {monthlyBudget (accounts s' sender), isOverBudget (accounts s' sender),
         isBudgetWarning (accounts s' sender)} \<times> {This, User sender}"
  proof
    assume h: "Ledger_setMonthlyBudget sender inp s = Some s'"
    note S = setMonthlyBudget_Some [OF h]
    have c1: "clear32 \<rho> (balance (accounts s' sender)) = clear32 \<rho> (balance (accounts s sender))"
      by (simp add: S(1))
    have c2: "clear32 \<rho> (monthlyExpense (accounts s' sender)) =
        clear32 \<rho> (monthlyExpense (accounts s sender))"
      by (simp add: S(2))
    have o: "\<forall>u. u \<noteq> sender \<longrightarrow> accounts s' u = accounts s u"
      using S(7) by blast
    from S(1) S(2) c1 c2 S(3) S(6) S(8) S(9) o S(10) S(11)
    show "balance (accounts s' sender) = operand (balance (accounts s sender))
    \<and> monthlyExpense (accounts s' sender) = operand (monthlyExpense (accounts s sender))
    \<and> clear32 \<rho> (balance (accounts s' sender)) = clear32 \<rho> (balance (accounts s sender))
    \<and> clear32 \<rho> (monthlyExpense (accounts s' sender)) =
        clear32 \<rho> (monthlyExpense (accounts s sender))
    \<and> monthlyBudget (accounts s' sender) = InputHandle (ext_id inp)
    \<and> lastUpdateMonth (accounts s' sender) = lastUpdateMonth (accounts s sender)
    \<and> transactions s' = transactions s
    \<and> categoryTotals s' = categoryTotals s
    \<and> (\<forall>u. u \<noteq> sender \<longrightarrow> accounts s' u = accounts s u)
    \<and> events s' = events s @ [BudgetUpdated sender]
    \<and> persistedAllowed s' = persistedAllowed s \<union>
        {monthlyBudget (accounts s' sender), isOverBudget (accounts s' sender),
         isBudgetWarning (accounts s' sender)} \<times> {This, User sender}"
      by (intro conjI)
  qed
  have p2: "ext_proof_ok inp
      \<and> (monthlyExpense (accounts s sender) = ZeroHandle
           \<or> (monthlyExpense (accounts s sender), This) \<in> persistedAllowed s) \<longrightarrow>
      (\<exists>t. Ledger_setMonthlyBudget sender inp s = Some t)"
  proof
    assume "ext_proof_ok inp
      \<and> (monthlyExpense (accounts s sender) = ZeroHandle
           \<or> (monthlyExpense (accounts s sender), This) \<in> persistedAllowed s)"
    then show "\<exists>t. Ledger_setMonthlyBudget sender inp s = Some t"
      by (intro setMonthlyBudget_succeeds) simp_all
  qed
  have p3: "\<not> ext_proof_ok inp \<longrightarrow> Ledger_setMonthlyBudget sender inp s = None"
    using setMonthlyBudget_proof [of sender inp s] by (cases "Ledger_setMonthlyBudget sender inp s") auto
  show ?thesis
    by (rule conjI, rule p1, rule conjI, rule p2, rule p3)
qed

theorem setMonthlyBudget_frame_witness:
  "ext_proof_ok (verifiedInput 13)
   \<and> (monthlyExpense (accounts afterIncome 1), This) \<in> persistedAllowed afterIncome
   \<and> Ledger_setMonthlyBudget 1 (verifiedInput 13) afterIncome = Some afterBudget
   \<and> balance (accounts afterIncome 1) = Computed fheSub (TrivialEncrypt 0) (InputHandle 11)
   \<and> balance (accounts afterBudget 1) = Computed fheSub (TrivialEncrypt 0) (InputHandle 11)
   \<and> monthlyExpense (accounts afterBudget 1) = InputHandle 11
   \<and> clear32 examplePlain (monthlyExpense (accounts afterBudget 1)) = 90
   \<and> monthlyBudget (accounts afterIncome 1) = TrivialEncrypt 0
   \<and> monthlyBudget (accounts afterBudget 1) = InputHandle 13
   \<and> lastUpdateMonth (accounts afterBudget 1) = 11
   \<and> transactions afterBudget 1 =
       [\<lparr>amount = InputHandle 11, timestamp = 1700000000, category = 2, isIncome = False,
         month = 11\<rparr>]
   \<and> transactions afterBudget 2 =
       [\<lparr>amount = InputHandle 12, timestamp = 1700000050, category = 1, isIncome = True,
         month = 11\<rparr>]
   \<and> categoryTotals afterBudget 1 2 = Computed fheAdd (TrivialEncrypt 0) (InputHandle 11)
   \<and> (2::address) \<noteq> 1
   \<and> balance (accounts afterBudget 2) = Computed fheAdd (TrivialEncrypt 0) (InputHandle 12)
   \<and> (InputHandle 13, This) \<notin> persistedAllowed afterIncome
   \<and> (InputHandle 13, This) \<in> persistedAllowed afterBudget
   \<and> (InputHandle 13, User 1) \<in> persistedAllowed afterBudget
   \<and> Ledger_setMonthlyBudget 1 \<lparr>ext_id = 13, ext_proof_ok = False\<rparr> afterIncome = None"
proof -
  have ok: "ext_proof_ok (verifiedInput 13)"
    by (simp add: verifiedInput_def)
  have al: "(monthlyExpense (accounts afterIncome 1), This) \<in> persistedAllowed afterIncome"
    by (simp add: afterIncome_fields afterExpense_fields)
  note T = setMonthlyBudget_frame [where sender = 1 and inp = "verifiedInput 13"
      and s = afterIncome and s' = afterBudget and \<rho> = examplePlain]
  from T ok al have "\<exists>t. Ledger_setMonthlyBudget 1 (verifiedInput 13) afterIncome = Some t"
    by blast
  then have run: "Ledger_setMonthlyBudget 1 (verifiedInput 13) afterIncome = Some afterBudget"
    by (auto simp: afterBudget_def)
  from T run have f:
    "balance (accounts afterBudget 1) = operand (balance (accounts afterIncome 1))"
    "monthlyExpense (accounts afterBudget 1) = operand (monthlyExpense (accounts afterIncome 1))"
    "clear32 examplePlain (monthlyExpense (accounts afterBudget 1)) =
        clear32 examplePlain (monthlyExpense (accounts afterIncome 1))"
    "monthlyBudget (accounts afterBudget 1) = InputHandle (ext_id (verifiedInput 13))"
    "lastUpdateMonth (accounts afterBudget 1) = lastUpdateMonth (accounts afterIncome 1)"
    "transactions afterBudget = transactions afterIncome"
    "categoryTotals afterBudget = categoryTotals afterIncome"
    "\<forall>u. u \<noteq> 1 \<longrightarrow> accounts afterBudget u = accounts afterIncome u"
    "persistedAllowed afterBudget = persistedAllowed afterIncome \<union>
        {monthlyBudget (accounts afterBudget 1), isOverBudget (accounts afterBudget 1),
         isBudgetWarning (accounts afterBudget 1)} \<times> {This, User 1}"
    by blast+
  have b0: "balance (accounts afterIncome 1) = Computed fheSub (TrivialEncrypt 0) (InputHandle 11)"
    "monthlyBudget (accounts afterIncome 1) = TrivialEncrypt 0"
    by (simp_all add: afterIncome_fields afterExpense_fields)
  have b1: "balance (accounts afterBudget 1) = Computed fheSub (TrivialEncrypt 0) (InputHandle 11)"
    "monthlyExpense (accounts afterBudget 1) = InputHandle 11"
    "clear32 examplePlain (monthlyExpense (accounts afterBudget 1)) = 90"
    "monthlyBudget (accounts afterBudget 1) = InputHandle 13"
    "lastUpdateMonth (accounts afterBudget 1) = 11"
    using f(1-5)
    by (simp_all add: afterIncome_fields afterExpense_fields verifiedInput_def examplePlain_def)
  have t: "transactions afterBudget 1 =
       [\<lparr>amount = InputHandle 11, timestamp = 1700000000, category = 2, isIncome = False,
         month = 11\<rparr>]"
    "transactions afterBudget 2 =
       [\<lparr>amount = InputHandle 12, timestamp = 1700000050, category = 1, isIncome = True,
         month = 11\<rparr>]"
    "categoryTotals afterBudget 1 2 = Computed fheAdd (TrivialEncrypt 0) (InputHandle 11)"
    by (simp_all add: f(6,7) afterIncome_fields afterExpense_fields)
  have n: "(2::address) \<noteq> 1"
    by simp
  with f(8) have "accounts afterBudget 2 = accounts afterIncome 2"
    by blast
  then have o: "balance (accounts afterBudget 2) = Computed fheAdd (TrivialEncrypt 0) (InputHandle 12)"
    by (simp add: afterIncome_fields)
  have a0: "(InputHandle 13, This) \<notin> persistedAllowed afterIncome"
    by (rule afterIncome_fields(8))
  have a1: "(InputHandle 13, This) \<in> persistedAllowed afterBudget"
    "(InputHandle 13, User 1) \<in> persistedAllowed afterBudget"
    by (simp_all add: f(9) b1(4))
  have "\<not> ext_proof_ok \<lparr>ext_id = 13, ext_proof_ok = False\<rparr>"
    by simp
  with setMonthlyBudget_frame [where sender = 1 and inp = "\<lparr>ext_id = 13, ext_proof_ok = False\<rparr>"
      and s = afterIncome]
  have r: "Ledger_setMonthlyBudget 1 \<lparr>ext_id = 13, ext_proof_ok = False\<rparr> afterIncome = None"
    by blast
  from ok al run b0(1) b1(1,2,3) b0(2) b1(4,5) t n o a0 a1 r show ?thesis
    by (intro conjI)
qed

subsection \<open>The shape of the storage\<close>

lemma isEuint32_operand: "h = ZeroHandle \<or> isEuint32 h \<Longrightarrow> isEuint32 (operand h)"
  by (auto simp: operand_def)

lemma isEuint32_nonzero: "isEuint32 h \<Longrightarrow> h \<noteq> ZeroHandle"
  by auto

lemma addTransaction_shape:
  assumes "Ledger_addTransaction sender inp ts cat income key mth s = Some t"
  shows "balance (accounts t sender) \<noteq> ZeroHandle
       \<and> monthlyExpense (accounts t sender) \<noteq> ZeroHandle
       \<and> monthlyBudget (accounts t sender) \<noteq> ZeroHandle
       \<and> isEbool (isOverBudget (accounts t sender))
       \<and> isEbool (isBudgetWarning (accounts t sender))
       \<and> lastUpdateMonth (accounts t sender) =
           (if income then lastUpdateMonth (accounts s sender) else mth)
       \<and> transactions t sender = transactions s sender @
           [\<lparr>amount = InputHandle (ext_id inp), timestamp = ts, category = cat,
             isIncome = income, month = mth\<rparr>]
       \<and> isEuint32 (categoryTotals t sender key)"
  by (simp add: addTransaction_result [OF assms])

lemma setMonthlyBudget_shape:
  assumes "Ledger_setMonthlyBudget sender inp s = Some t"
  shows "balance (accounts t sender) \<noteq> ZeroHandle
       \<and> monthlyExpense (accounts t sender) \<noteq> ZeroHandle
       \<and> monthlyBudget (accounts t sender) = InputHandle (ext_id inp)
       \<and> isEbool (isOverBudget (accounts t sender))
       \<and> isEbool (isBudgetWarning (accounts t sender))
       \<and> lastUpdateMonth (accounts t sender) = lastUpdateMonth (accounts s sender)
       \<and> transactions t = transactions s
       \<and> categoryTotals t = categoryTotals s"
  by (simp add: setMonthlyBudget_result [OF assms])

lemma reachable_account_shape:
  assumes "reachable s"
  shows "accounts s u = emptyAccount
       \<or> (isEuint32 (balance (accounts s u)) \<and> isEuint32 (monthlyExpense (accounts s u))
          \<and> isEuint32 (monthlyBudget (accounts s u)) \<and> isEbool (isOverBudget (accounts s u))
          \<and> isEbool (isBudgetWarning (accounts s u)))"
  using assms
proof (induction rule: reachable.induct)
  case reachable_deployed
  show ?case by (simp add: deployed_def)
next
  case (reachable_addTransaction s sender inp ts cat income key mth t)
  note S = addTransaction_Some [OF reachable_addTransaction.hyps(2)]
  show ?case
  proof (cases "u = sender")
    case True
    from reachable_addTransaction.IH
    have "isEuint32 (operand (monthlyExpense (accounts s u)))
        \<and> isEuint32 (operand (monthlyBudget (accounts s u)))"
      by (auto simp: emptyAccount_def isEuint32_operand)
    with True S(1-5) show ?thesis by simp
  next
    case False
    with S(7) [of u] reachable_addTransaction.IH show ?thesis by simp
  qed
next
  case (reachable_setMonthlyBudget s sender inp t)
  note S = setMonthlyBudget_Some [OF reachable_setMonthlyBudget.hyps(2)]
  show ?case
  proof (cases "u = sender")
    case True
    from reachable_setMonthlyBudget.IH
    have "isEuint32 (operand (balance (accounts s u)))
        \<and> isEuint32 (operand (monthlyExpense (accounts s u)))"
      by (auto simp: emptyAccount_def isEuint32_operand)
    with True S(1-5) show ?thesis by simp
  next
    case False
    with S(7) [of u] reachable_setMonthlyBudget.IH show ?thesis by simp
  qed
qed

lemma reachable_stored_shape:
  assumes "reachable s"
  shows "list_all (\<lambda>tx. \<exists>i. amount tx = InputHandle i) (transactions s u)
       \<and> (categoryTotals s u k = ZeroHandle \<or> isEuint32 (categoryTotals s u k))"
  using assms
proof (induction rule: reachable.induct)
  case reachable_deployed
  show ?case by (simp add: deployed_def)
next
  case (reachable_addTransaction s sender inp ts cat income key mth t)
  note S = addTransaction_Some [OF reachable_addTransaction.hyps(2)]
  from reachable_addTransaction.IH show ?case
    by (auto simp: S(8,9))
next
  case (reachable_setMonthlyBudget s sender inp t)
  note S = setMonthlyBudget_Some [OF reachable_setMonthlyBudget.hyps(2)]
  from reachable_setMonthlyBudget.IH show ?case
    by (simp add: S(8,9))
qed

text \<open>
  C5. Balance, monthly expense, monthly budget, the two flags, the category totals and
  every transaction amount are stored as handles of encrypted values; timestamp,
  category, income flag and month of every transaction and \<^verbatim>\<open>lastUpdateMonth\<close> are stored
  as plaintext words. The record types fix that split, and the clear values behind the
  handles are no argument of any function of the contract. Every operation keeps the
  shape. After a call of \<^verbatim>\<open>addTransaction\<close> or \<^verbatim>\<open>setMonthlyBudget\<close> that does not revert,
  the caller's three numeric fields hold set handles and the two flags handles of type
  \<^verbatim>\<open>ebool\<close>; the new transaction holds the handle of the verified input as its amount
  and the timestamp, category, income flag and month as they were passed; the category
  total is a handle of type \<^verbatim>\<open>euint32\<close>; \<^verbatim>\<open>lastUpdateMonth\<close> is the plaintext month of an
  expense. The calls do return: they do not revert when the input proof verifies and the
  contract was allowed for good on the handles they read. A call that reverts changes
  nothing. So in every state that calls can produce
  from a fresh deployment, each account is untouched or holds three handles of type
  \<^verbatim>\<open>euint32\<close> and two of type \<^verbatim>\<open>ebool\<close>, every stored transaction amount is the handle of
  an input ciphertext, and every category total is zero or a handle of type \<^verbatim>\<open>euint32\<close>.
\<close>

theorem stored_shape_preserved:
  "(Ledger_addTransaction sender inp ts cat income key mth s = Some t \<longrightarrow>
      balance (accounts t sender) \<noteq> ZeroHandle
    \<and> monthlyExpense (accounts t sender) \<noteq> ZeroHandle
    \<and> monthlyBudget (accounts t sender) \<noteq> ZeroHandle
    \<and> isEbool (isOverBudget (accounts t sender))
    \<and> isEbool (isBudgetWarning (accounts t sender))
    \<and> lastUpdateMonth (accounts t sender) =
        (if income then lastUpdateMonth (accounts s sender) else mth)
    \<and> transactions t sender = transactions s sender @
        [\<lparr>amount = InputHandle (ext_id inp), timestamp = ts, category = cat,
          isIncome = income, month = mth\<rparr>]
    \<and> isEuint32 (categoryTotals t sender key))
   \<and> (Ledger_setMonthlyBudget sender inp s = Some t \<longrightarrow>
      balance (accounts t sender) \<noteq> ZeroHandle
    \<and> monthlyExpense (accounts t sender) \<noteq> ZeroHandle
    \<and> monthlyBudget (accounts t sender) = InputHandle (ext_id inp)
    \<and> isEbool (isOverBudget (accounts t sender))
    \<and> isEbool (isBudgetWarning (accounts t sender))
    \<and> lastUpdateMonth (accounts t sender) = lastUpdateMonth (accounts s sender)
    \<and> transactions t = transactions s
    \<and> categoryTotals t = categoryTotals s)
   \<and> (reachable s \<longrightarrow>
      (accounts s u = emptyAccount
       \<or> (isEuint32 (balance (accounts s u)) \<and> isEuint32 (monthlyExpense (accounts s u))
          \<and> isEuint32 (monthlyBudget (accounts s u)) \<and> isEbool (isOverBudget (accounts s u))
          \<and> isEbool (isBudgetWarning (accounts s u))))
    \<and> list_all (\<lambda>tx. \<exists>i. amount tx = InputHandle i) (transactions s u)
    \<and> (categoryTotals s u k = ZeroHandle \<or> isEuint32 (categoryTotals s u k)))
   \<and> (ext_proof_ok inp
      \<and> (balance (accounts s sender) = ZeroHandle
           \<or> (balance (accounts s sender), This) \<in> persistedAllowed s)
      \<and> (monthlyExpense (accounts s sender) = ZeroHandle
           \<or> (monthlyExpense (accounts s sender), This) \<in> persistedAllowed s)
      \<and> (monthlyBudget (accounts s sender) = ZeroHandle
           \<or> (monthlyBudget (accounts s sender), This) \<in> persistedAllowed s)
      \<and> (categoryTotals s sender key = ZeroHandle
           \<or> (categoryTotals s sender key, This) \<in> persistedAllowed s) \<longrightarrow>
      (\<exists>t. Ledger_addTransaction sender inp ts cat income key mth s = Some t))
   \<and> (ext_proof_ok inp
      \<and> (monthlyExpense (accounts s sender) = ZeroHandle
           \<or> (monthlyExpense (accounts s sender), This) \<in> persistedAllowed s) \<longrightarrow>
      (\<exists>t. Ledger_setMonthlyBudget sender inp s = Some t))"
proof -
  have p1: "Ledger_addTransaction sender inp ts cat income key mth s = Some t \<longrightarrow>
      balance (accounts t sender) \<noteq> ZeroHandle
    \<and> monthlyExpense (accounts t sender) \<noteq> ZeroHandle
    \<and> monthlyBudget (accounts t sender) \<noteq> ZeroHandle
    \<and> isEbool (isOverBudget (accounts t sender))
    \<and> isEbool (isBudgetWarning (accounts t sender))
    \<and> lastUpdateMonth (accounts t sender) =
        (if income then lastUpdateMonth (accounts s sender) else mth)
    \<and> transactions t sender = transactions s sender @
        [\<lparr>amount = InputHandle (ext_id inp), timestamp = ts, category = cat,
          isIncome = income, month = mth\<rparr>]
    \<and> isEuint32 (categoryTotals t sender key)"
    by (rule impI) (rule addTransaction_shape)
  have p2: "Ledger_setMonthlyBudget sender inp s = Some t \<longrightarrow>
      balance (accounts t sender) \<noteq> ZeroHandle
    \<and> monthlyExpense (accounts t sender) \<noteq> ZeroHandle
    \<and> monthlyBudget (accounts t sender) = InputHandle (ext_id inp)
    \<and> isEbool (isOverBudget (accounts t sender))
    \<and> isEbool (isBudgetWarning (accounts t sender))
    \<and> lastUpdateMonth (accounts t sender) = lastUpdateMonth (accounts s sender)
    \<and> transactions t = transactions s
    \<and> categoryTotals t = categoryTotals s"
    by (rule impI) (rule setMonthlyBudget_shape)
  have p3: "reachable s \<longrightarrow>
      (accounts s u = emptyAccount
       \<or> (isEuint32 (balance (accounts s u)) \<and> isEuint32 (monthlyExpense (accounts s u))
          \<and> isEuint32 (monthlyBudget (accounts s u)) \<and> isEbool (isOverBudget (accounts s u))
          \<and> isEbool (isBudgetWarning (accounts s u))))
    \<and> list_all (\<lambda>tx. \<exists>i. amount tx = InputHandle i) (transactions s u)
    \<and> (categoryTotals s u k = ZeroHandle \<or> isEuint32 (categoryTotals s u k))"
  proof
    assume r: "reachable s"
    from reachable_account_shape [OF r, of u] reachable_stored_shape [OF r, of u k]
    show "(accounts s u = emptyAccount
       \<or> (isEuint32 (balance (accounts s u)) \<and> isEuint32 (monthlyExpense (accounts s u))
          \<and> isEuint32 (monthlyBudget (accounts s u)) \<and> isEbool (isOverBudget (accounts s u))
          \<and> isEbool (isBudgetWarning (accounts s u))))
    \<and> list_all (\<lambda>tx. \<exists>i. amount tx = InputHandle i) (transactions s u)
    \<and> (categoryTotals s u k = ZeroHandle \<or> isEuint32 (categoryTotals s u k))"
      by (intro conjI) simp_all
  qed
  have p4: "ext_proof_ok inp
      \<and> (balance (accounts s sender) = ZeroHandle
           \<or> (balance (accounts s sender), This) \<in> persistedAllowed s)
      \<and> (monthlyExpense (accounts s sender) = ZeroHandle
           \<or> (monthlyExpense (accounts s sender), This) \<in> persistedAllowed s)
      \<and> (monthlyBudget (accounts s sender) = ZeroHandle
           \<or> (monthlyBudget (accounts s sender), This) \<in> persistedAllowed s)
      \<and> (categoryTotals s sender key = ZeroHandle
           \<or> (categoryTotals s sender key, This) \<in> persistedAllowed s) \<longrightarrow>
      (\<exists>t. Ledger_addTransaction sender inp ts cat income key mth s = Some t)"
  proof
    assume "ext_proof_ok inp
      \<and> (balance (accounts s sender) = ZeroHandle
           \<or> (balance (accounts s sender), This) \<in> persistedAllowed s)
      \<and> (monthlyExpense (accounts s sender) = ZeroHandle
           \<or> (monthlyExpense (accounts s sender), This) \<in> persistedAllowed s)
      \<and> (monthlyBudget (accounts s sender) = ZeroHandle
           \<or> (monthlyBudget (accounts s sender), This) \<in> persistedAllowed s)
      \<and> (categoryTotals s sender key = ZeroHandle
           \<or> (categoryTotals s sender key, This) \<in> persistedAllowed s)"
    then show "\<exists>t. Ledger_addTransaction sender inp ts cat income key mth s = Some t"
      by (intro addTransaction_succeeds) simp_all
  qed
  have p5: "ext_proof_ok inp
      \<and> (monthlyExpense (accounts s sender) = ZeroHandle
           \<or> (monthlyExpense (accounts s sender), This) \<in> persistedAllowed s) \<longrightarrow>
      (\<exists>t. Ledger_setMonthlyBudget sender inp s = Some t)"
  proof
    assume "ext_proof_ok inp
      \<and> (monthlyExpense (accounts s sender) = ZeroHandle
           \<or> (monthlyExpense (accounts s sender), This) \<in> persistedAllowed s)"
    then show "\<exists>t. Ledger_setMonthlyBudget sender inp s = Some t"
      by (intro setMonthlyBudget_succeeds) simp_all
  qed
  show ?thesis
    by (rule conjI, rule p1, rule conjI, rule p2, rule conjI, rule p3, rule conjI, rule p4,
        rule p5)
qed

theorem stored_shape_preserved_witness:
  "ext_proof_ok (verifiedInput 14)
   \<and> (balance (accounts afterBudget 1), This) \<in> persistedAllowed afterBudget
   \<and> (monthlyExpense (accounts afterBudget 1), This) \<in> persistedAllowed afterBudget
   \<and> (monthlyBudget (accounts afterBudget 1), This) \<in> persistedAllowed afterBudget
   \<and> categoryTotals afterBudget 1 3 = ZeroHandle
   \<and> Ledger_addTransaction 1 (verifiedInput 14) 1700000100 3 False 3 11 afterBudget
     = Some afterSecondExpense
   \<and> lastUpdateMonth (accounts afterSecondExpense 1) = 11
   \<and> transactions afterSecondExpense 1 =
       [\<lparr>amount = InputHandle 11, timestamp = 1700000000, category = 2, isIncome = False,
         month = 11\<rparr>,
        \<lparr>amount = InputHandle 14, timestamp = 1700000100, category = 3, isIncome = False,
         month = 11\<rparr>]
   \<and> categoryTotals afterSecondExpense 1 3 = Computed fheAdd (TrivialEncrypt 0) (InputHandle 14)
   \<and> isEuint32 (categoryTotals afterSecondExpense 1 3)
   \<and> isEbool (isOverBudget (accounts afterSecondExpense 1))
   \<and> ext_proof_ok (verifiedInput 13)
   \<and> (monthlyExpense (accounts afterIncome 1), This) \<in> persistedAllowed afterIncome
   \<and> Ledger_setMonthlyBudget 1 (verifiedInput 13) afterIncome = Some afterBudget
   \<and> monthlyBudget (accounts afterBudget 1) = InputHandle 13
   \<and> lastUpdateMonth (accounts afterBudget 1) = 11
   \<and> isEbool (isBudgetWarning (accounts afterBudget 1))
   \<and> reachable afterSecondExpense
   \<and> accounts afterSecondExpense 1 \<noteq> emptyAccount
   \<and> isEuint32 (balance (accounts afterSecondExpense 1))
   \<and> isEuint32 (monthlyExpense (accounts afterSecondExpense 1))
   \<and> accounts afterSecondExpense 3 = emptyAccount
   \<and> list_all (\<lambda>tx. \<exists>i. amount tx = InputHandle i) (transactions afterSecondExpense 1)
   \<and> length (transactions afterSecondExpense 1) = 2
   \<and> isEuint32 (categoryTotals afterSecondExpense 1 2)
   \<and> categoryTotals afterSecondExpense 1 7 = ZeroHandle"
proof -
  note A = stored_shape_preserved [where sender = 1 and inp = "verifiedInput 14"
      and ts = 1700000100 and cat = 3 and income = False and key = 3 and mth = 11
      and s = afterBudget and t = afterSecondExpense]
  have ok2: "ext_proof_ok (verifiedInput 14)"
    by (simp add: verifiedInput_def)
  have al2: "(balance (accounts afterBudget 1), This) \<in> persistedAllowed afterBudget"
    "(monthlyExpense (accounts afterBudget 1), This) \<in> persistedAllowed afterBudget"
    "(monthlyBudget (accounts afterBudget 1), This) \<in> persistedAllowed afterBudget"
    "categoryTotals afterBudget 1 3 = ZeroHandle"
    by (simp_all add: afterBudget_fields afterIncome_fields afterExpense_fields)
  from A ok2 al2 have
    "\<exists>t. Ledger_addTransaction 1 (verifiedInput 14) 1700000100 3 False 3 11 afterBudget = Some t"
    by blast
  then have run2: "Ledger_addTransaction 1 (verifiedInput 14) 1700000100 3 False 3 11 afterBudget
       = Some afterSecondExpense"
    by (auto simp: afterSecondExpense_def)
  from A run2 have a:
    "lastUpdateMonth (accounts afterSecondExpense 1) =
        (if False then lastUpdateMonth (accounts afterBudget 1) else 11)"
    "transactions afterSecondExpense 1 = transactions afterBudget 1 @
        [\<lparr>amount = InputHandle (ext_id (verifiedInput 14)), timestamp = 1700000100, category = 3,
          isIncome = False, month = 11\<rparr>]"
    "isEuint32 (categoryTotals afterSecondExpense 1 3)"
    "isEbool (isOverBudget (accounts afterSecondExpense 1))"
    by blast+
  have a1: "lastUpdateMonth (accounts afterSecondExpense 1) = 11"
    using a(1) by simp
  have a2: "transactions afterSecondExpense 1 =
       [\<lparr>amount = InputHandle 11, timestamp = 1700000000, category = 2, isIncome = False,
         month = 11\<rparr>,
        \<lparr>amount = InputHandle 14, timestamp = 1700000100, category = 3, isIncome = False,
         month = 11\<rparr>]"
    using a(2) by (simp add: afterBudget_fields afterIncome_fields afterExpense_fields
        verifiedInput_def)
  note B = stored_shape_preserved [where sender = 1 and inp = "verifiedInput 13"
      and s = afterIncome and t = afterBudget]
  have ok: "ext_proof_ok (verifiedInput 13)"
    by (simp add: verifiedInput_def)
  have al: "(monthlyExpense (accounts afterIncome 1), This) \<in> persistedAllowed afterIncome"
    by (simp add: afterIncome_fields afterExpense_fields)
  from B ok al have "\<exists>t. Ledger_setMonthlyBudget 1 (verifiedInput 13) afterIncome = Some t"
    by blast
  then have run: "Ledger_setMonthlyBudget 1 (verifiedInput 13) afterIncome = Some afterBudget"
    by (auto simp: afterBudget_def)
  from B run have b:
    "monthlyBudget (accounts afterBudget 1) = InputHandle (ext_id (verifiedInput 13))"
    "lastUpdateMonth (accounts afterBudget 1) = lastUpdateMonth (accounts afterIncome 1)"
    "isEbool (isBudgetWarning (accounts afterBudget 1))"
    by blast+
  have b1: "monthlyBudget (accounts afterBudget 1) = InputHandle 13"
    "lastUpdateMonth (accounts afterBudget 1) = 11"
    using b(1,2) by (simp_all add: verifiedInput_def afterIncome_fields afterExpense_fields)
  have ne: "accounts afterSecondExpense 1 \<noteq> emptyAccount"
  proof
    assume "accounts afterSecondExpense 1 = emptyAccount"
    then have "lastUpdateMonth (accounts afterSecondExpense 1) = lastUpdateMonth emptyAccount"
      by simp
    with a1 show False
      by (simp add: emptyAccount_def)
  qed
  note R1 = stored_shape_preserved [where s = afterSecondExpense and u = 1 and k = 2]
  note R7 = stored_shape_preserved [where s = afterSecondExpense and u = 1 and k = 7]
  from R1 example_reachable(4) ne have r:
    "isEuint32 (balance (accounts afterSecondExpense 1))"
    "isEuint32 (monthlyExpense (accounts afterSecondExpense 1))"
    "list_all (\<lambda>tx. \<exists>i. amount tx = InputHandle i) (transactions afterSecondExpense 1)"
    by blast+
  have c2: "categoryTotals afterSecondExpense 1 2 \<noteq> ZeroHandle"
    by (simp add: afterSecondExpense_fields)
  from R1 example_reachable(4) c2 have r2: "isEuint32 (categoryTotals afterSecondExpense 1 2)"
    by blast
  have c7: "categoryTotals afterSecondExpense 1 7 = ZeroHandle"
    by (simp add: addTransaction_Some(9) [OF afterSecondExpense_run] afterBudget_fields
        afterIncome_fields addTransaction_Some(9) [OF afterExpense_run] deployed_def)
  have l: "length (transactions afterSecondExpense 1) = 2"
    by (simp add: a2)
  from ok2 al2 run2 a1 a2 afterSecondExpense_fields(6) a(3,4) ok al run b1 b(3)
    example_reachable(4) ne r(1,2) afterSecondExpense_fields(3) r(3) l r2 c7
  show ?thesis
    by (intro conjI)
qed

section \<open>Properties of the contract binding\<close>

lemma decimalDigits_small: "n < 10 \<Longrightarrow> decimalDigits n = [''0123456789'' ! n]"
  by (subst decimalDigits.simps) simp

lemma decimalDigits_large:
  "10 \<le> n \<Longrightarrow> decimalDigits n = decimalDigits (n div 10) @ [''0123456789'' ! (n mod 10)]"
  by (subst decimalDigits.simps) simp

lemma getLedger_address_iff:
  "address (getLedgerByChainId tbl cid) = Some a \<longleftrightarrow>
     (\<exists>c entry. cid = Some c \<and> c \<noteq> 0 \<and> tbl (number_toString c) = Some entry
        \<and> e_address entry \<noteq> ZeroAddress \<and> a = e_address entry)"
  by (auto simp: getLedgerByChainId_def split: option.splits)

text \<open>
  C8. \<^verbatim>\<open>getLedgerByChainId\<close> returns an address exactly when the chain id is defined and
  non-zero and \<^verbatim>\<open>LedgerAddresses\<close> has an entry for it whose address is not the zero
  address, and then it is that entry's address; for an undefined chain id, a missing
  entry or an entry holding the zero address it returns the ABI with no address; and the
  hook's \<^verbatim>\<open>isDeployed\<close> is true exactly when an address was returned.
\<close>

theorem getLedgerByChainId_address:
  "(address (getLedgerByChainId tbl cid) = Some a \<longleftrightarrow>
     (\<exists>c entry. cid = Some c \<and> c \<noteq> 0 \<and> tbl (number_toString c) = Some entry
        \<and> e_address entry \<noteq> ZeroAddress \<and> a = e_address entry))
   \<and> (cid = None \<longrightarrow>
        getLedgerByChainId tbl cid =
          \<lparr>abi = LedgerABI, address = None, chainId = None, chainName = None\<rparr>)
   \<and> (\<forall>c. cid = Some c
          \<and> (tbl (number_toString c) = None
              \<or> (\<exists>entry. tbl (number_toString c) = Some entry \<and> e_address entry = ZeroAddress))
        \<longrightarrow> abi (getLedgerByChainId tbl cid) = LedgerABI
            \<and> address (getLedgerByChainId tbl cid) = None)
   \<and> useLedger_isDeployed tbl cid = Some (address (getLedgerByChainId tbl cid) \<noteq> None)"
proof -
  have iff: "address (getLedgerByChainId tbl cid) = Some a \<longleftrightarrow>
     (\<exists>c entry. cid = Some c \<and> c \<noteq> 0 \<and> tbl (number_toString c) = Some entry
        \<and> e_address entry \<noteq> ZeroAddress \<and> a = e_address entry)"
    by (rule getLedger_address_iff)
  have undef: "cid = None \<longrightarrow>
        getLedgerByChainId tbl cid =
          \<lparr>abi = LedgerABI, address = None, chainId = None, chainName = None\<rparr>"
    by (simp add: getLedgerByChainId_def)
  have missing: "\<forall>c. cid = Some c
          \<and> (tbl (number_toString c) = None
              \<or> (\<exists>entry. tbl (number_toString c) = Some entry \<and> e_address entry = ZeroAddress))
        \<longrightarrow> abi (getLedgerByChainId tbl cid) = LedgerABI
            \<and> address (getLedgerByChainId tbl cid) = None"
    by (auto simp: getLedgerByChainId_def)
  have nz: "address (getLedgerByChainId tbl cid) \<noteq> Some ZeroAddress"
    using getLedger_address_iff [of tbl cid ZeroAddress] by auto
  have dep: "useLedger_isDeployed tbl cid = Some (address (getLedgerByChainId tbl cid) \<noteq> None)"
    using nz by (simp add: useLedger_isDeployed_def isDeployed_def)
  from iff undef missing dep show ?thesis by blast
qed

theorem getLedgerByChainId_address_witness:
  "address (getLedgerByChainId exampleAddresses (Some 31337)) =
      Some (Hex0x ''5FbDB2315678afecb367f032d93F642f64180aa3'')
   \<and> useLedger_isDeployed exampleAddresses (Some 31337) = Some True
   \<and> exampleAddresses (number_toString 11155111) =
        Some \<lparr>e_address = ZeroAddress, e_chainId = Some 11155111, e_chainName = Some ''sepolia''\<rparr>
   \<and> address (getLedgerByChainId exampleAddresses (Some 11155111)) = None
   \<and> useLedger_isDeployed exampleAddresses (Some 11155111) = Some False
   \<and> exampleAddresses (number_toString 1) = None
   \<and> address (getLedgerByChainId exampleAddresses (Some 1)) = None
   \<and> getLedgerByChainId exampleAddresses None =
        \<lparr>abi = LedgerABI, address = None, chainId = None, chainName = None\<rparr>"
proof -
  have k: "number_toString 31337 = ''31337''" "number_toString 11155111 = ''11155111''"
    "number_toString 1 = ''1''"
    by (simp_all add: number_toString_def decimalDigits_small decimalDigits_large)
  have e1: "exampleAddresses (number_toString 31337) =
      Some \<lparr>e_address = Hex0x ''5FbDB2315678afecb367f032d93F642f64180aa3'',
             e_chainId = Some 31337, e_chainName = Some ''hardhat''\<rparr>"
    and e2: "exampleAddresses (number_toString 11155111) =
        Some \<lparr>e_address = ZeroAddress, e_chainId = Some 11155111, e_chainName = Some ''sepolia''\<rparr>"
    and e3: "exampleAddresses (number_toString 1) = None"
    by (simp_all add: k exampleAddresses_def)
  note A = getLedgerByChainId_address [of exampleAddresses "Some 31337"
      "Hex0x ''5FbDB2315678afecb367f032d93F642f64180aa3''"]
  note B = getLedgerByChainId_address [of exampleAddresses "Some 11155111" ZeroAddress]
  note C = getLedgerByChainId_address [of exampleAddresses "Some 1" ZeroAddress]
  note D = getLedgerByChainId_address [of exampleAddresses None ZeroAddress]
  have a1: "address (getLedgerByChainId exampleAddresses (Some 31337)) =
      Some (Hex0x ''5FbDB2315678afecb367f032d93F642f64180aa3'')"
    using A e1 by (simp add: ZeroAddress_def)
  have a2: "address (getLedgerByChainId exampleAddresses (Some 11155111)) = None"
    using B e2 by simp
  have a3: "address (getLedgerByChainId exampleAddresses (Some 1)) = None"
    using C e3 by simp
  from A B D a1 a2 a3 e2 e3 show ?thesis
    by simp
qed

section \<open>Properties of the mock FHEVM instance\<close>



section \<open>Properties of the hook\<close>

lemma refreshData_start_calls:
  "refreshData_start cl ctx s = (s1, calls, pending) \<Longrightarrow> c \<in> set calls \<Longrightarrow> isContractRead c"
  by (auto simp: refreshData_start_def split: if_splits option.splits)

lemma refreshData_calls: "c \<in> set (snd (refreshData cl ctx env s)) \<Longrightarrow> isContractRead c"
  by (auto simp: refreshData_def split: prod.splits option.splits dest: refreshData_start_calls)

lemma read_not_decrypt: "isContractRead c \<Longrightarrow> \<not> isUserDecrypt c"
  by (cases c) simp_all

lemma decryptBalance_decrypts:
  assumes "c \<in> set (snd (decryptBalance cl env s))" and "isUserDecrypt c"
  shows "\<exists>h. cl_balanceHandle cl = Some h \<and> h \<noteq> []
           \<and> Some h \<noteq> map_option handle (clearBalanceRef s) \<and> h \<noteq> ZeroHash"
  using assms
  by (auto simp: decryptBalance_def Let_def split: if_splits option.splits prod.splits)

lemma decryptBalance_zero_calls:
  "cl_balanceHandle cl = Some ZeroHash \<Longrightarrow> snd (decryptBalance cl env s) = []"
  by (auto simp: decryptBalance_def Let_def split: if_splits option.splits prod.splits)

lemma decryptBalance_zero_state:
  assumes "cl_balanceHandle cl = Some ZeroHash"
    and "\<not> isRefreshingRef s" and "\<not> isDecryptingRef s"
    and "address (cl_ledger cl) \<noteq> None" and "cl_instance cl \<noteq> None"
    and "cl_ethersSigner cl \<noteq> None"
    and "map_option handle (clearBalanceRef s) \<noteq> Some ZeroHash"
  shows "fst (decryptBalance cl env s) =
           s\<lparr>clearBalance := Some \<lparr>handle = ZeroHash, clear = Some (ClearBigint 0)\<rparr>,
             clearBalanceRef := Some \<lparr>handle = ZeroHash, clear = Some (ClearBigint 0)\<rparr>\<rparr>"
proof -
  from assms(4-6) obtain a i sg where
    "address (cl_ledger cl) = Some a" "cl_instance cl = Some i" "cl_ethersSigner cl = Some sg"
    by auto
  moreover have "ZeroHash \<noteq> []"
    by (simp add: ZeroHash_def)
  moreover have "Some ZeroHash \<noteq> map_option handle (clearBalanceRef s)"
    using assms(7) by (cases "clearBalanceRef s") auto
  ultimately show ?thesis
    using assms(1-3) by (simp add: decryptBalance_def)
qed

text \<open>
  C6. Decryption happens only on demand: \<^verbatim>\<open>refreshData\<close> never calls
  \<^verbatim>\<open>instance.userDecrypt\<close>; \<^verbatim>\<open>decryptBalance\<close> calls it only when a balance handle is
  present, differs from the handle whose clear value is cached, and is not the all-zero
  hash; when the balance handle is the all-zero hash, \<^verbatim>\<open>decryptBalance\<close> makes no call
  at all, and, once past its guards (not refreshing or decrypting; address, instance and
  signer present; the zero handle not cached yet), it sets the clear balance to 0.
\<close>

theorem decryption_on_demand:
  "(\<forall>c \<in> set (snd (refreshData cl ctx renv s)). \<not> isUserDecrypt c)
   \<and> ((\<exists>c \<in> set (snd (decryptBalance cl env s)). isUserDecrypt c) \<longrightarrow>
        (\<exists>h. cl_balanceHandle cl = Some h \<and> h \<noteq> []
           \<and> Some h \<noteq> map_option handle (clearBalanceRef s) \<and> h \<noteq> ZeroHash))
   \<and> (cl_balanceHandle cl = Some ZeroHash \<longrightarrow>
        snd (decryptBalance cl env s) = []
        \<and> (\<not> isRefreshingRef s \<and> \<not> isDecryptingRef s
            \<and> address (cl_ledger cl) \<noteq> None \<and> cl_instance cl \<noteq> None
            \<and> cl_ethersSigner cl \<noteq> None
            \<and> map_option handle (clearBalanceRef s) \<noteq> Some ZeroHash \<longrightarrow>
              fst (decryptBalance cl env s) =
                s\<lparr>clearBalance := Some \<lparr>handle = ZeroHash, clear = Some (ClearBigint 0)\<rparr>,
                  clearBalanceRef := Some \<lparr>handle = ZeroHash, clear = Some (ClearBigint 0)\<rparr>\<rparr>))"
  using refreshData_calls read_not_decrypt decryptBalance_decrypts decryptBalance_zero_calls
    decryptBalance_zero_state
  by blast

lemma read_not_write: "isContractRead c \<Longrightarrow> \<not> isContractWrite c"
  by (cases c) simp_all

lemma refreshData_start_no_write:
  "refreshData_start cl ctx s = (s1, calls, pending) \<Longrightarrow> filter isContractWrite calls = []"
  by (auto simp: filter_empty_conv dest: refreshData_start_calls read_not_write)

lemma addTransaction_idle:
  "isRefreshingRef s \<or> isSubmittingRef s \<or> address (cl_ledger cl) = None
     \<or> cl_instance cl = None \<or> cl_ethersSigner cl = None \<Longrightarrow>
   addTransaction cl amt income cat key env s = (s, [])"
  by (auto simp: addTransaction_def split: option.splits)

lemma addTransaction_run:
  assumes "\<not> isRefreshingRef s" and "\<not> isSubmittingRef s"
    and "address (cl_ledger cl) = Some addr" and "cl_instance cl = Some inst"
    and "cl_ethersSigner cl = Some sg"
    and "addTransaction_try inst addr (cl_chainId cl) sg cl amt income cat key env
           (s\<lparr>isSubmittingRef := True, isSubmitting := True,
              message := ''Starting transaction encryption...''\<rparr>) = (s2, calls, outcome)"
  shows "addTransaction cl amt income cat key env s =
           ((case outcome of
               Refreshing captured \<Rightarrow>
                 refreshData_settle captured (su_refresh env)
                   (s2\<lparr>isSubmittingRef := False, isSubmitting := False\<rparr>)
             | Threw e \<Rightarrow> s2\<lparr>message := ''Transaction failed! '' @ e, lastAddError := Some e,
                            isSubmittingRef := False, isSubmitting := False\<rparr>
             | Done \<Rightarrow> s2\<lparr>isSubmittingRef := False, isSubmitting := False\<rparr>),
            calls)"
  using assms by (simp add: addTransaction_def Let_def split: completion.splits)

lemma setBudget_idle:
  "isRefreshingRef s \<or> isSubmittingRef s \<or> address (cl_ledger cl) = None
     \<or> cl_instance cl = None \<or> cl_ethersSigner cl = None \<Longrightarrow>
   setBudget cl budget env s = (s, [])"
  by (auto simp: setBudget_def split: option.splits)

lemma setBudget_run:
  assumes "\<not> isRefreshingRef s" and "\<not> isSubmittingRef s"
    and "address (cl_ledger cl) = Some addr" and "cl_instance cl = Some inst"
    and "cl_ethersSigner cl = Some sg"
    and "setBudget_try inst addr (cl_chainId cl) sg cl budget env
           (s\<lparr>isSubmittingRef := True, isSubmitting := True,
              message := ''Starting budget encryption...''\<rparr>) = (s2, calls, outcome)"
  shows "setBudget cl budget env s =
           ((case outcome of
               Refreshing captured \<Rightarrow>
                 refreshData_settle captured (su_refresh env)
                   (s2\<lparr>isSubmittingRef := False, isSubmitting := False\<rparr>)
             | Threw e \<Rightarrow> s2\<lparr>message := ''Budget setting failed! '' @ e,
                            isSubmittingRef := False, isSubmitting := False\<rparr>
             | Done \<Rightarrow> s2\<lparr>isSubmittingRef := False, isSubmitting := False\<rparr>),
            calls)"
  using assms by (simp add: setBudget_def Let_def split: completion.splits)

lemma addTransaction_try_writes:
  "filter isContractWrite (fst (snd (addTransaction_try inst addr cid sg cl amt income cat key env s))) =
     (case (su_userAddr env, su_encrypted env) of
        (Resolved userAddr, Resolved enc) \<Rightarrow>
          if su_createThrows env = None \<and> su_add32Throws env = None
             \<and> \<not> isStale addr cid sg (su_ctx1 env)
          then [ContractAddTransaction addr sg (firstHandle (handles enc)) (su_now env div 1000)
                  cat income key (su_getMonth env + 1) (inputProof enc)]
          else []
      | _ \<Rightarrow> [])"
  by (auto simp: addTransaction_try_def Let_def
      split: awaited.splits option.splits prod.splits dest: refreshData_start_no_write)

lemma setBudget_try_writes:
  "filter isContractWrite (fst (snd (setBudget_try inst addr cid sg cl budget env s))) =
     (case (su_userAddr env, su_encrypted env) of
        (Resolved userAddr, Resolved enc) \<Rightarrow>
          if su_createThrows env = None \<and> su_add32Throws env = None
             \<and> \<not> isStale addr cid sg (su_ctx1 env)
          then [ContractSetMonthlyBudget addr sg (firstHandle (handles enc)) (inputProof enc)]
          else []
      | _ \<Rightarrow> [])"
  by (auto simp: setBudget_try_def Let_def
      split: awaited.splits option.splits prod.splits dest: refreshData_start_no_write)

lemma addTransaction_try_prefix:
  assumes "su_userAddr env = Resolved userAddr" and "su_encrypted env = Resolved enc"
    and "su_createThrows env = None" and "su_add32Throws env = None"
  shows "take 4 (fst (snd (addTransaction_try inst addr cid sg cl amt income cat key env s))) =
           [GetAddress sg, CreateEncryptedInput inst addr userAddr, Add32 amt, Encrypt]"
  using assms
  by (auto simp: addTransaction_try_def Let_def split: awaited.splits option.splits prod.splits)

lemma setBudget_try_prefix:
  assumes "su_userAddr env = Resolved userAddr" and "su_encrypted env = Resolved enc"
    and "su_createThrows env = None" and "su_add32Throws env = None"
  shows "take 4 (fst (snd (setBudget_try inst addr cid sg cl budget env s))) =
           [GetAddress sg, CreateEncryptedInput inst addr userAddr, Add32 budget, Encrypt]"
  using assms
  by (auto simp: setBudget_try_def Let_def split: awaited.splits option.splits prod.splits)

lemma addTransaction_calls:
  assumes "\<not> isRefreshingRef s" and "\<not> isSubmittingRef s"
    and "address (cl_ledger cl) = Some addr" and "cl_instance cl = Some inst"
    and "cl_ethersSigner cl = Some sg"
  shows "snd (addTransaction cl amt income cat key env s) =
           fst (snd (addTransaction_try inst addr (cl_chainId cl) sg cl amt income cat key env
             (s\<lparr>isSubmittingRef := True, isSubmitting := True,
                message := ''Starting transaction encryption...''\<rparr>)))"
  using assms by (simp add: addTransaction_def Let_def split: prod.splits)

lemma setBudget_calls:
  assumes "\<not> isRefreshingRef s" and "\<not> isSubmittingRef s"
    and "address (cl_ledger cl) = Some addr" and "cl_instance cl = Some inst"
    and "cl_ethersSigner cl = Some sg"
  shows "snd (setBudget cl budget env s) =
           fst (snd (setBudget_try inst addr (cl_chainId cl) sg cl budget env
             (s\<lparr>isSubmittingRef := True, isSubmitting := True,
                message := ''Starting budget encryption...''\<rparr>)))"
  using assms by (simp add: setBudget_def Let_def split: prod.splits)

lemma addTransaction_write_call:
  assumes "c \<in> set (snd (addTransaction cl amt income cat key env s))" and "isContractWrite c"
  shows "\<exists>addr inst sg userAddr enc.
           address (cl_ledger cl) = Some addr \<and> cl_instance cl = Some inst
         \<and> cl_ethersSigner cl = Some sg
         \<and> su_userAddr env = Resolved userAddr \<and> su_encrypted env = Resolved enc
         \<and> take 4 (snd (addTransaction cl amt income cat key env s)) =
             [GetAddress sg, CreateEncryptedInput inst addr userAddr, Add32 amt, Encrypt]
         \<and> c = ContractAddTransaction addr sg (firstHandle (handles enc)) (su_now env div 1000)
                 cat income key (su_getMonth env + 1) (inputProof enc)"
proof -
  have started: "\<not> (isRefreshingRef s \<or> isSubmittingRef s \<or> address (cl_ledger cl) = None
     \<or> cl_instance cl = None \<or> cl_ethersSigner cl = None)"
  proof
    assume "isRefreshingRef s \<or> isSubmittingRef s \<or> address (cl_ledger cl) = None
     \<or> cl_instance cl = None \<or> cl_ethersSigner cl = None"
    from addTransaction_idle [OF this, of amt income cat key env] assms(1) show False
      by simp
  qed
  then obtain addr inst sg where g: "\<not> isRefreshingRef s" "\<not> isSubmittingRef s"
    "address (cl_ledger cl) = Some addr" "cl_instance cl = Some inst" "cl_ethersSigner cl = Some sg"
    by auto
  note calls = addTransaction_calls [OF g, of amt income cat key env]
  from assms have "c \<in> set (filter isContractWrite (snd (addTransaction cl amt income cat key env s)))"
    by simp
  then have w: "c \<in> set (case (su_userAddr env, su_encrypted env) of
        (Resolved userAddr, Resolved enc) \<Rightarrow>
          if su_createThrows env = None \<and> su_add32Throws env = None
             \<and> \<not> isStale addr (cl_chainId cl) sg (su_ctx1 env)
          then [ContractAddTransaction addr sg (firstHandle (handles enc)) (su_now env div 1000)
                  cat income key (su_getMonth env + 1) (inputProof enc)]
          else []
      | _ \<Rightarrow> [])"
    unfolding calls addTransaction_try_writes .
  then obtain userAddr enc where r: "su_userAddr env = Resolved userAddr"
    "su_encrypted env = Resolved enc" "su_createThrows env = None" "su_add32Throws env = None"
    and c: "c = ContractAddTransaction addr sg (firstHandle (handles enc)) (su_now env div 1000)
                 cat income key (su_getMonth env + 1) (inputProof enc)"
    by (cases "su_userAddr env"; cases "su_encrypted env") (auto split: if_splits)
  have "take 4 (snd (addTransaction cl amt income cat key env s)) =
             [GetAddress sg, CreateEncryptedInput inst addr userAddr, Add32 amt, Encrypt]"
    unfolding calls by (rule addTransaction_try_prefix [OF r])
  with g r c show ?thesis by blast
qed

lemma addTransaction_writes_amount:
  "filter isContractWrite (snd (addTransaction cl amt income cat key env s)) =
   filter isContractWrite (snd (addTransaction cl amt' income cat key env s))"
proof (cases "isRefreshingRef s \<or> isSubmittingRef s \<or> address (cl_ledger cl) = None
     \<or> cl_instance cl = None \<or> cl_ethersSigner cl = None")
  case True
  then show ?thesis by (simp only: addTransaction_idle)
next
  case False
  then obtain addr inst sg where g: "\<not> isRefreshingRef s" "\<not> isSubmittingRef s"
    "address (cl_ledger cl) = Some addr" "cl_instance cl = Some inst" "cl_ethersSigner cl = Some sg"
    by auto
  show ?thesis
    by (simp only: addTransaction_calls [OF g] addTransaction_try_writes)
qed

lemma setBudget_write_call:
  assumes "c \<in> set (snd (setBudget cl budget env s))" and "isContractWrite c"
  shows "\<exists>addr inst sg userAddr enc.
           address (cl_ledger cl) = Some addr \<and> cl_instance cl = Some inst
         \<and> cl_ethersSigner cl = Some sg
         \<and> su_userAddr env = Resolved userAddr \<and> su_encrypted env = Resolved enc
         \<and> take 4 (snd (setBudget cl budget env s)) =
             [GetAddress sg, CreateEncryptedInput inst addr userAddr, Add32 budget, Encrypt]
         \<and> c = ContractSetMonthlyBudget addr sg (firstHandle (handles enc)) (inputProof enc)"
proof -
  have started: "\<not> (isRefreshingRef s \<or> isSubmittingRef s \<or> address (cl_ledger cl) = None
     \<or> cl_instance cl = None \<or> cl_ethersSigner cl = None)"
  proof
    assume "isRefreshingRef s \<or> isSubmittingRef s \<or> address (cl_ledger cl) = None
     \<or> cl_instance cl = None \<or> cl_ethersSigner cl = None"
    from setBudget_idle [OF this, of budget env] assms(1) show False
      by simp
  qed
  then obtain addr inst sg where g: "\<not> isRefreshingRef s" "\<not> isSubmittingRef s"
    "address (cl_ledger cl) = Some addr" "cl_instance cl = Some inst" "cl_ethersSigner cl = Some sg"
    by auto
  note calls = setBudget_calls [OF g, of budget env]
  from assms have "c \<in> set (filter isContractWrite (snd (setBudget cl budget env s)))"
    by simp
  then have w: "c \<in> set (case (su_userAddr env, su_encrypted env) of
        (Resolved userAddr, Resolved enc) \<Rightarrow>
          if su_createThrows env = None \<and> su_add32Throws env = None
             \<and> \<not> isStale addr (cl_chainId cl) sg (su_ctx1 env)
          then [ContractSetMonthlyBudget addr sg (firstHandle (handles enc)) (inputProof enc)]
          else []
      | _ \<Rightarrow> [])"
    unfolding calls setBudget_try_writes .
  then obtain userAddr enc where r: "su_userAddr env = Resolved userAddr"
    "su_encrypted env = Resolved enc" "su_createThrows env = None" "su_add32Throws env = None"
    and c: "c = ContractSetMonthlyBudget addr sg (firstHandle (handles enc)) (inputProof enc)"
    by (cases "su_userAddr env"; cases "su_encrypted env") (auto split: if_splits)
  have "take 4 (snd (setBudget cl budget env s)) =
             [GetAddress sg, CreateEncryptedInput inst addr userAddr, Add32 budget, Encrypt]"
    unfolding calls by (rule setBudget_try_prefix [OF r])
  with g r c show ?thesis by blast
qed

lemma setBudget_writes_amount:
  "filter isContractWrite (snd (setBudget cl budget env s)) =
   filter isContractWrite (snd (setBudget cl budget' env s))"
proof (cases "isRefreshingRef s \<or> isSubmittingRef s \<or> address (cl_ledger cl) = None
     \<or> cl_instance cl = None \<or> cl_ethersSigner cl = None")
  case True
  then show ?thesis by (simp only: setBudget_idle)
next
  case False
  then obtain addr inst sg where g: "\<not> isRefreshingRef s" "\<not> isSubmittingRef s"
    "address (cl_ledger cl) = Some addr" "cl_instance cl = Some inst" "cl_ethersSigner cl = Some sg"
    by auto
  show ?thesis
    by (simp only: setBudget_calls [OF g] setBudget_try_writes)
qed

text \<open>
  C2. Inputs are encrypted before submission. Every contract call that \<^verbatim>\<open>addTransaction\<close>
  makes comes after \<^verbatim>\<open>createEncryptedInput\<close> for the contract address and the signer's
  address, \<^verbatim>\<open>add32\<close> of the amount and \<^verbatim>\<open>encrypt()\<close>, and its arguments are the first
  handle and the input proof of that encryption together with the plaintext timestamp,
  category, income flag, category key and month; the amount is no argument: changing
  it changes no contract call. The same holds for \<^verbatim>\<open>setBudget\<close>, whose contract call
  carries only the handle and the proof.
\<close>

theorem inputs_encrypted_before_submission:
  "(\<forall>c \<in> set (snd (addTransaction cl amt income cat key env s)). isContractWrite c \<longrightarrow>
      (\<exists>addr inst sg userAddr enc.
           address (cl_ledger cl) = Some addr \<and> cl_instance cl = Some inst
         \<and> cl_ethersSigner cl = Some sg
         \<and> su_userAddr env = Resolved userAddr \<and> su_encrypted env = Resolved enc
         \<and> take 4 (snd (addTransaction cl amt income cat key env s)) =
             [GetAddress sg, CreateEncryptedInput inst addr userAddr, Add32 amt, Encrypt]
         \<and> c = ContractAddTransaction addr sg (firstHandle (handles enc)) (su_now env div 1000)
                 cat income key (su_getMonth env + 1) (inputProof enc)))
   \<and> filter isContractWrite (snd (addTransaction cl amt income cat key env s)) =
     filter isContractWrite (snd (addTransaction cl amt' income cat key env s))
   \<and> (\<forall>c \<in> set (snd (setBudget cl budget env s)). isContractWrite c \<longrightarrow>
      (\<exists>addr inst sg userAddr enc.
           address (cl_ledger cl) = Some addr \<and> cl_instance cl = Some inst
         \<and> cl_ethersSigner cl = Some sg
         \<and> su_userAddr env = Resolved userAddr \<and> su_encrypted env = Resolved enc
         \<and> take 4 (snd (setBudget cl budget env s)) =
             [GetAddress sg, CreateEncryptedInput inst addr userAddr, Add32 budget, Encrypt]
         \<and> c = ContractSetMonthlyBudget addr sg (firstHandle (handles enc)) (inputProof enc)))
   \<and> filter isContractWrite (snd (setBudget cl budget env s)) =
     filter isContractWrite (snd (setBudget cl budget' env s))"
proof (intro conjI ballI impI)
  fix c
  assume "c \<in> set (snd (addTransaction cl amt income cat key env s))" and "isContractWrite c"
  then show "\<exists>addr inst sg userAddr enc.
           address (cl_ledger cl) = Some addr \<and> cl_instance cl = Some inst
         \<and> cl_ethersSigner cl = Some sg
         \<and> su_userAddr env = Resolved userAddr \<and> su_encrypted env = Resolved enc
         \<and> take 4 (snd (addTransaction cl amt income cat key env s)) =
             [GetAddress sg, CreateEncryptedInput inst addr userAddr, Add32 amt, Encrypt]
         \<and> c = ContractAddTransaction addr sg (firstHandle (handles enc)) (su_now env div 1000)
                 cat income key (su_getMonth env + 1) (inputProof enc)"
    by (rule addTransaction_write_call)
next
  show "filter isContractWrite (snd (addTransaction cl amt income cat key env s)) =
     filter isContractWrite (snd (addTransaction cl amt' income cat key env s))"
    by (rule addTransaction_writes_amount)
next
  fix c
  assume "c \<in> set (snd (setBudget cl budget env s))" and "isContractWrite c"
  then show "\<exists>addr inst sg userAddr enc.
           address (cl_ledger cl) = Some addr \<and> cl_instance cl = Some inst
         \<and> cl_ethersSigner cl = Some sg
         \<and> su_userAddr env = Resolved userAddr \<and> su_encrypted env = Resolved enc
         \<and> take 4 (snd (setBudget cl budget env s)) =
             [GetAddress sg, CreateEncryptedInput inst addr userAddr, Add32 budget, Encrypt]
         \<and> c = ContractSetMonthlyBudget addr sg (firstHandle (handles enc)) (inputProof enc)"
    by (rule setBudget_write_call)
next
  show "filter isContractWrite (snd (setBudget cl budget env s)) =
     filter isContractWrite (snd (setBudget cl budget' env s))"
    by (rule setBudget_writes_amount)
qed

lemmas example_defs = exampleClosure_def exampleLedger_def exampleCtx_def switchedCtx_def
  exampleSubmitEnv_def exampleEncrypted_def exampleRefreshEnv_def exampleDecryptEnv_def
  exampleSignature_def initialHookState_def

lemmas stale_defs = isStale_def sameChain_def sameSigner_def ledgerRef_address_def
  ledgerRef_chainId_def

lemma exampleHandle_neq: "exampleHandle \<noteq> ZeroHash" "exampleHandle \<noteq> []" "ZeroHash \<noteq> []"
  by (simp_all add: exampleHandle_def ZeroHash_def)

lemma example_addTransaction_calls:
  "snd (addTransaction exampleClosure 5 False 2 2 exampleSubmitEnv initialHookState) =
     [GetAddress 1,
      CreateEncryptedInput 0 (Hex0x ''5FbDB2315678afecb367f032d93F642f64180aa3'')
        exampleUser,
      Add32 5, Encrypt,
      ContractAddTransaction (Hex0x ''5FbDB2315678afecb367f032d93F642f64180aa3'') 1
        (Some exampleHandleBytes) 1700000000 2 False 2 11 (ProofBytes exampleProofBytes),
      TxWait exampleTxHash,
      GetBalance (Hex0x ''5FbDB2315678afecb367f032d93F642f64180aa3'') 1,
      GetMonthlyExpense (Hex0x ''5FbDB2315678afecb367f032d93F642f64180aa3'') 1,
      GetMonthlyBudget (Hex0x ''5FbDB2315678afecb367f032d93F642f64180aa3'') 1,
      GetIsOverBudget (Hex0x ''5FbDB2315678afecb367f032d93F642f64180aa3'') 1,
      GetIsBudgetWarning (Hex0x ''5FbDB2315678afecb367f032d93F642f64180aa3'') 1]"
  by (simp add: addTransaction_def addTransaction_try_def refreshData_start_def Let_def
      example_defs stale_defs)

lemma example_setBudget_calls:
  "snd (setBudget exampleClosure 300 exampleSubmitEnv initialHookState) =
     [GetAddress 1,
      CreateEncryptedInput 0 (Hex0x ''5FbDB2315678afecb367f032d93F642f64180aa3'')
        exampleUser,
      Add32 300, Encrypt,
      ContractSetMonthlyBudget (Hex0x ''5FbDB2315678afecb367f032d93F642f64180aa3'') 1
        (Some exampleHandleBytes) (ProofBytes exampleProofBytes),
      TxWait exampleTxHash,
      GetBalance (Hex0x ''5FbDB2315678afecb367f032d93F642f64180aa3'') 1,
      GetMonthlyExpense (Hex0x ''5FbDB2315678afecb367f032d93F642f64180aa3'') 1,
      GetMonthlyBudget (Hex0x ''5FbDB2315678afecb367f032d93F642f64180aa3'') 1,
      GetIsOverBudget (Hex0x ''5FbDB2315678afecb367f032d93F642f64180aa3'') 1,
      GetIsBudgetWarning (Hex0x ''5FbDB2315678afecb367f032d93F642f64180aa3'') 1]"
  by (simp add: setBudget_def setBudget_try_def refreshData_start_def Let_def
      example_defs stale_defs)

theorem inputs_encrypted_before_submission_witness:
  "ContractAddTransaction (Hex0x ''5FbDB2315678afecb367f032d93F642f64180aa3'') 1
        (Some exampleHandleBytes) 1700000000 2 False 2 11 (ProofBytes exampleProofBytes)
     \<in> set (snd (addTransaction exampleClosure 5 False 2 2 exampleSubmitEnv initialHookState))
   \<and> take 4 (snd (addTransaction exampleClosure 5 False 2 2 exampleSubmitEnv initialHookState)) =
       [GetAddress 1,
        CreateEncryptedInput 0 (Hex0x ''5FbDB2315678afecb367f032d93F642f64180aa3'')
          exampleUser,
        Add32 5, Encrypt]
   \<and> filter isContractWrite
        (snd (addTransaction exampleClosure 70000 False 2 2 exampleSubmitEnv initialHookState)) =
       [ContractAddTransaction (Hex0x ''5FbDB2315678afecb367f032d93F642f64180aa3'') 1
          (Some exampleHandleBytes) 1700000000 2 False 2 11 (ProofBytes exampleProofBytes)]
   \<and> ContractSetMonthlyBudget (Hex0x ''5FbDB2315678afecb367f032d93F642f64180aa3'') 1
        (Some exampleHandleBytes) (ProofBytes exampleProofBytes)
     \<in> set (snd (setBudget exampleClosure 300 exampleSubmitEnv initialHookState))
   \<and> filter isContractWrite
        (snd (setBudget exampleClosure 9 exampleSubmitEnv initialHookState)) =
       [ContractSetMonthlyBudget (Hex0x ''5FbDB2315678afecb367f032d93F642f64180aa3'') 1
          (Some exampleHandleBytes) (ProofBytes exampleProofBytes)]"
proof -
  note T = inputs_encrypted_before_submission [of exampleClosure 5 False 2 2 exampleSubmitEnv
      initialHookState 70000 300 9]
  from T show ?thesis
    by (simp add: example_addTransaction_calls example_setBudget_calls)
qed

lemma example_decryptBalance:
  "decryptBalance exampleClosure exampleDecryptEnv initialHookState =
     (initialHookState
        \<lparr>clearBalance := Some \<lparr>handle = exampleHandle, clear = Some (ClearBigint 42)\<rparr>,
         clearBalanceRef := Some \<lparr>handle = exampleHandle, clear = Some (ClearBigint 42)\<rparr>,
         message := ''Balance decrypted: 42''\<rparr>,
      [LoadOrSign 0 [Hex0x ''5FbDB2315678afecb367f032d93F642f64180aa3''] 1,
       UserDecrypt 0 [(exampleHandle, Hex0x ''5FbDB2315678afecb367f032d93F642f64180aa3'')]
         exampleSignature])"
proof -
  have k: "number_toString 42 = ''42''"
    by (simp add: number_toString_def decimalDigits_small decimalDigits_large)
  show ?thesis
    by (simp add: decryptBalance_def decryptBalance_try_def Let_def exampleClosure_def
        exampleLedger_def exampleCtx_def exampleDecryptEnv_def initialHookState_def
        stale_defs exampleHandle_neq k)
qed

theorem decryption_on_demand_witness:
  "(\<exists>c \<in> set (snd (decryptBalance exampleClosure exampleDecryptEnv initialHookState)).
        isUserDecrypt c)
   \<and> cl_balanceHandle exampleClosure = Some exampleHandle
   \<and> exampleHandle \<noteq> [] \<and> exampleHandle \<noteq> ZeroHash
   \<and> Some exampleHandle \<noteq> map_option handle (clearBalanceRef initialHookState)
   \<and> cl_balanceHandle (exampleClosure\<lparr>cl_balanceHandle := Some ZeroHash\<rparr>) = Some ZeroHash
   \<and> decryptBalance (exampleClosure\<lparr>cl_balanceHandle := Some ZeroHash\<rparr>) exampleDecryptEnv
         initialHookState =
       (initialHookState
          \<lparr>clearBalance := Some \<lparr>handle = ZeroHash, clear = Some (ClearBigint 0)\<rparr>,
           clearBalanceRef := Some \<lparr>handle = ZeroHash, clear = Some (ClearBigint 0)\<rparr>\<rparr>, [])
   \<and> filter isUserDecrypt
         (snd (refreshData exampleClosure exampleCtx exampleRefreshEnv initialHookState)) = []
   \<and> length (snd (refreshData exampleClosure exampleCtx exampleRefreshEnv initialHookState)) = 5"
proof -
  note A = decryption_on_demand [of exampleClosure exampleCtx exampleRefreshEnv initialHookState
      exampleDecryptEnv]
  note B = decryption_on_demand [of "exampleClosure\<lparr>cl_balanceHandle := Some ZeroHash\<rparr>"
      exampleCtx exampleRefreshEnv initialHookState exampleDecryptEnv]
  have g: "\<not> isRefreshingRef initialHookState" "\<not> isDecryptingRef initialHookState"
    "address (cl_ledger (exampleClosure\<lparr>cl_balanceHandle := Some ZeroHash\<rparr>)) \<noteq> None"
    "cl_instance (exampleClosure\<lparr>cl_balanceHandle := Some ZeroHash\<rparr>) \<noteq> None"
    "cl_ethersSigner (exampleClosure\<lparr>cl_balanceHandle := Some ZeroHash\<rparr>) \<noteq> None"
    "map_option handle (clearBalanceRef initialHookState) \<noteq> Some ZeroHash"
    "cl_balanceHandle (exampleClosure\<lparr>cl_balanceHandle := Some ZeroHash\<rparr>) = Some ZeroHash"
    by (simp_all add: initialHookState_def exampleClosure_def exampleLedger_def)
  have d: "\<exists>c \<in> set (snd (decryptBalance exampleClosure exampleDecryptEnv initialHookState)).
        isUserDecrypt c"
    by (simp add: example_decryptBalance)
  have z: "decryptBalance (exampleClosure\<lparr>cl_balanceHandle := Some ZeroHash\<rparr>) exampleDecryptEnv
         initialHookState =
       (initialHookState
          \<lparr>clearBalance := Some \<lparr>handle = ZeroHash, clear = Some (ClearBigint 0)\<rparr>,
           clearBalanceRef := Some \<lparr>handle = ZeroHash, clear = Some (ClearBigint 0)\<rparr>\<rparr>, [])"
    using B g by (simp add: prod_eq_iff)
  have r: "length (snd (refreshData exampleClosure exampleCtx exampleRefreshEnv initialHookState)) = 5"
    by (simp add: refreshData_def refreshData_start_def exampleClosure_def exampleCtx_def
        exampleLedger_def initialHookState_def stale_defs)
  from A d have h: "cl_balanceHandle exampleClosure = Some exampleHandle"
    "Some exampleHandle \<noteq> map_option handle (clearBalanceRef initialHookState)"
    by (simp_all add: exampleClosure_def initialHookState_def)
  from A have f: "filter isUserDecrypt
         (snd (refreshData exampleClosure exampleCtx exampleRefreshEnv initialHookState)) = []"
    by (simp add: filter_empty_conv)
  from d z r h g(7) f exampleHandle_neq show ?thesis
    by blast
qed

lemma decryptBalance_idle:
  "isRefreshingRef s \<or> isDecryptingRef s \<or> address (cl_ledger cl) = None
     \<or> cl_instance cl = None \<or> cl_ethersSigner cl = None
     \<or> \<not> truthy (cl_balanceHandle cl)
     \<or> cl_balanceHandle cl = map_option handle (clearBalanceRef s) \<Longrightarrow>
   decryptBalance cl env s = (s, [])"
  by (auto simp: decryptBalance_def split: option.splits)

lemma decryptBalance_run:
  assumes "\<not> isRefreshingRef s" and "\<not> isDecryptingRef s"
    and "address (cl_ledger cl) = Some a" and "cl_instance cl = Some i"
    and "cl_ethersSigner cl = Some sg" and "cl_balanceHandle cl = Some h" and "h \<noteq> []"
    and "Some h \<noteq> map_option handle (clearBalanceRef s)" and "h \<noteq> ZeroHash"
    and "decryptBalance_try i a (cl_chainId cl) sg h env
           (s\<lparr>isDecryptingRef := True, isDecrypting := True,
              message := ''Start decrypting balance...''\<rparr>) = (s2, calls)"
  shows "decryptBalance cl env s = (s2\<lparr>isDecryptingRef := False, isDecrypting := False\<rparr>, calls)"
  using assms by (simp add: decryptBalance_def Let_def)

lemma decryptBalance_try_cases:
  "decryptBalance_try i a cid sg h env s =
     (case de_sig env of
        Rejected e \<Rightarrow> (s, [LoadOrSign i [a] sg])
      | Resolved None \<Rightarrow>
          (s\<lparr>message := ''Unable to build FHEVM decryption signature''\<rparr>, [LoadOrSign i [a] sg])
      | Resolved (Some sig) \<Rightarrow>
          if isStale a cid sg (de_ctx1 env)
          then (s\<lparr>message := ''Ignore FHEVM decryption''\<rparr>, [LoadOrSign i [a] sg])
          else (case de_res env of
                  Rejected e \<Rightarrow>
                    (s\<lparr>message := ''Call FHEVM userDecrypt...''\<rparr>,
                     [LoadOrSign i [a] sg, UserDecrypt i [(h, a)] sig])
                | Resolved res \<Rightarrow>
                    if isStale a cid sg (de_ctx2 env)
                    then (s\<lparr>message := ''Ignore FHEVM decryption''\<rparr>,
                          [LoadOrSign i [a] sg, UserDecrypt i [(h, a)] sig])
                    else (s\<lparr>clearBalance := Some \<lparr>handle = h, clear = res h\<rparr>,
                            clearBalanceRef := Some \<lparr>handle = h, clear = res h\<rparr>,
                            message := ''Balance decrypted: '' @ clear_toString (res h)\<rparr>,
                          [LoadOrSign i [a] sg, UserDecrypt i [(h, a)] sig])))"
  by (simp add: decryptBalance_try_def Let_def split: awaited.splits option.splits)

lemma decryptBalance_started:
  assumes "snd (decryptBalance cl env s) \<noteq> []"
  obtains a i sg h where "\<not> isRefreshingRef s" and "\<not> isDecryptingRef s"
    and "address (cl_ledger cl) = Some a" and "cl_instance cl = Some i"
    and "cl_ethersSigner cl = Some sg" and "cl_balanceHandle cl = Some h" and "h \<noteq> []"
    and "Some h \<noteq> map_option handle (clearBalanceRef s)" and "h \<noteq> ZeroHash"
proof -
  have n: "\<not> (isRefreshingRef s \<or> isDecryptingRef s \<or> address (cl_ledger cl) = None
     \<or> cl_instance cl = None \<or> cl_ethersSigner cl = None
     \<or> \<not> truthy (cl_balanceHandle cl)
     \<or> cl_balanceHandle cl = map_option handle (clearBalanceRef s))"
  proof
    assume "isRefreshingRef s \<or> isDecryptingRef s \<or> address (cl_ledger cl) = None
     \<or> cl_instance cl = None \<or> cl_ethersSigner cl = None
     \<or> \<not> truthy (cl_balanceHandle cl)
     \<or> cl_balanceHandle cl = map_option handle (clearBalanceRef s)"
    from decryptBalance_idle [OF this, of env] assms show False by simp
  qed
  then obtain a i sg h where g: "address (cl_ledger cl) = Some a" "cl_instance cl = Some i"
    "cl_ethersSigner cl = Some sg" "cl_balanceHandle cl = Some h" "h \<noteq> []"
    by (cases "cl_balanceHandle cl") auto
  have z: "h \<noteq> ZeroHash"
  proof
    assume "h = ZeroHash"
    with g have "cl_balanceHandle cl = Some ZeroHash" by simp
    from decryptBalance_zero_calls [OF this, of env s] assms show False by simp
  qed
  from n g z that show thesis by auto
qed

lemma decryptBalance_stale:
  assumes "snd (decryptBalance cl env s) \<noteq> []" and "de_sig env = Resolved (Some sig)"
    and "staleAt cl (de_ctx1 env) \<or> (de_res env = Resolved res \<and> staleAt cl (de_ctx2 env))"
  shows "fst (decryptBalance cl env s) =
           s\<lparr>isDecryptingRef := False, isDecrypting := False,
             message := ''Ignore FHEVM decryption''\<rparr>"
proof -
  from assms(1) obtain a i sg h where g: "\<not> isRefreshingRef s" "\<not> isDecryptingRef s"
    "address (cl_ledger cl) = Some a" "cl_instance cl = Some i"
    "cl_ethersSigner cl = Some sg" "cl_balanceHandle cl = Some h" "h \<noteq> []"
    "Some h \<noteq> map_option handle (clearBalanceRef s)" "h \<noteq> ZeroHash"
    by (rule decryptBalance_started)
  have st: "staleAt cl ctx = isStale a (cl_chainId cl) sg ctx" for ctx
    by (simp add: staleAt_def g)
  obtain s2 calls where t: "decryptBalance_try i a (cl_chainId cl) sg h env
           (s\<lparr>isDecryptingRef := True, isDecrypting := True,
              message := ''Start decrypting balance...''\<rparr>) = (s2, calls)"
    by (cases "decryptBalance_try i a (cl_chainId cl) sg h env
           (s\<lparr>isDecryptingRef := True, isDecrypting := True,
              message := ''Start decrypting balance...''\<rparr>)") 
  have s2: "s2 = s\<lparr>isDecryptingRef := True, isDecrypting := True,
              message := ''Ignore FHEVM decryption''\<rparr>"
    using t assms(2,3) unfolding st decryptBalance_try_cases
    by (auto split: if_splits)
  show ?thesis
    by (simp add: decryptBalance_run [OF g t] s2)
qed

lemma decryptBalance_commit:
  assumes "cl_balanceHandle cl \<noteq> Some ZeroHash"
    and "clearBalance (fst (decryptBalance cl env s)) \<noteq> clearBalance s
         \<or> clearBalanceRef (fst (decryptBalance cl env s)) \<noteq> clearBalanceRef s"
  shows "\<not> staleAt cl (de_ctx1 env) \<and> \<not> staleAt cl (de_ctx2 env)"
proof -
  have n: "\<not> (isRefreshingRef s \<or> isDecryptingRef s \<or> address (cl_ledger cl) = None
     \<or> cl_instance cl = None \<or> cl_ethersSigner cl = None
     \<or> \<not> truthy (cl_balanceHandle cl)
     \<or> cl_balanceHandle cl = map_option handle (clearBalanceRef s))"
  proof
    assume "isRefreshingRef s \<or> isDecryptingRef s \<or> address (cl_ledger cl) = None
     \<or> cl_instance cl = None \<or> cl_ethersSigner cl = None
     \<or> \<not> truthy (cl_balanceHandle cl)
     \<or> cl_balanceHandle cl = map_option handle (clearBalanceRef s)"
    from decryptBalance_idle [OF this, of env] assms(2) show False by simp
  qed
  then obtain a i sg h where g: "\<not> isRefreshingRef s" "\<not> isDecryptingRef s"
    "address (cl_ledger cl) = Some a" "cl_instance cl = Some i"
    "cl_ethersSigner cl = Some sg" "cl_balanceHandle cl = Some h" "h \<noteq> []"
    "Some h \<noteq> map_option handle (clearBalanceRef s)"
    by (cases "cl_balanceHandle cl") auto
  from g assms(1) have z: "h \<noteq> ZeroHash" by simp
  have st: "staleAt cl ctx = isStale a (cl_chainId cl) sg ctx" for ctx
    by (simp add: staleAt_def g)
  obtain s2 calls where t: "decryptBalance_try i a (cl_chainId cl) sg h env
           (s\<lparr>isDecryptingRef := True, isDecrypting := True,
              message := ''Start decrypting balance...''\<rparr>) = (s2, calls)"
    by (cases "decryptBalance_try i a (cl_chainId cl) sg h env
           (s\<lparr>isDecryptingRef := True, isDecrypting := True,
              message := ''Start decrypting balance...''\<rparr>)") 
  from assms(2) have "clearBalance s2 \<noteq> clearBalance s \<or> clearBalanceRef s2 \<noteq> clearBalanceRef s"
    by (simp add: decryptBalance_run [OF g z t])
  then show ?thesis
    using t unfolding st decryptBalance_try_cases
    by (auto split: awaited.splits option.splits if_splits)
qed

lemma decryptStats_idle:
  "isRefreshingRef s \<or> isDecryptingRef s \<or> address (cl_ledger cl) = None
     \<or> cl_instance cl = None \<or> cl_ethersSigner cl = None
     \<or> (\<not> truthy (cl_monthlyExpenseHandle cl) \<and> \<not> truthy (cl_monthlyBudgetHandle cl)) \<Longrightarrow>
   decryptStats cl env s = (s, [])"
  by (auto simp: decryptStats_def split: option.splits)

lemma decryptStats_run:
  assumes "\<not> isRefreshingRef s" and "\<not> isDecryptingRef s"
    and "address (cl_ledger cl) = Some a" and "cl_instance cl = Some i"
    and "cl_ethersSigner cl = Some sg"
    and "truthy (cl_monthlyExpenseHandle cl) \<or> truthy (cl_monthlyBudgetHandle cl)"
    and "decryptStats_try i a (cl_chainId cl) sg (cl_monthlyExpenseHandle cl)
           (cl_monthlyBudgetHandle cl) env
           (s\<lparr>isDecryptingRef := True, isDecrypting := True,
              message := ''Start decrypting statistics...''\<rparr>) = (s2, calls)"
  shows "decryptStats cl env s = (s2\<lparr>isDecryptingRef := False, isDecrypting := False\<rparr>, calls)"
  using assms by (auto simp: decryptStats_def Let_def)

lemma decryptStats_try_cases:
  "decryptStats_try i a cid sg eh bh env s =
     (case de_sig env of
        Rejected e \<Rightarrow> (s, [LoadOrSign i [a] sg])
      | Resolved None \<Rightarrow>
          (s\<lparr>message := ''Unable to build FHEVM decryption signature''\<rparr>, [LoadOrSign i [a] sg])
      | Resolved (Some sig) \<Rightarrow>
          if isStale a cid sg (de_ctx1 env)
          then (s\<lparr>message := ''Ignore FHEVM decryption''\<rparr>, [LoadOrSign i [a] sg])
          else if decryptItem a eh @ decryptItem a bh = []
          then (s\<lparr>message := ''No statistics data to decrypt''\<rparr>, [LoadOrSign i [a] sg])
          else (case de_res env of
                  Rejected e \<Rightarrow>
                    (s\<lparr>message := ''Call FHEVM userDecrypt for statistics...''\<rparr>,
                     [LoadOrSign i [a] sg,
                      UserDecrypt i (decryptItem a eh @ decryptItem a bh) sig])
                | Resolved res \<Rightarrow>
                    if isStale a cid sg (de_ctx2 env)
                    then (s\<lparr>message := ''Ignore FHEVM decryption''\<rparr>,
                          [LoadOrSign i [a] sg,
                           UserDecrypt i (decryptItem a eh @ decryptItem a bh) sig])
                    else ((case decryptedStat res bh of
                             None \<Rightarrow>
                               (case decryptedStat res eh of
                                  None \<Rightarrow> s
                                | Some cv \<Rightarrow> s\<lparr>clearMonthlyExpense := Some cv\<rparr>)
                           | Some cw \<Rightarrow>
                               (case decryptedStat res eh of
                                  None \<Rightarrow> s
                                | Some cv \<Rightarrow> s\<lparr>clearMonthlyExpense := Some cv\<rparr>)
                               \<lparr>clearMonthlyBudget := Some cw\<rparr>)
                            \<lparr>message := ''Statistics decrypted successfully''\<rparr>,
                          [LoadOrSign i [a] sg,
                           UserDecrypt i (decryptItem a eh @ decryptItem a bh) sig])))"
  by (auto simp: decryptStats_try_def Let_def split: awaited.splits option.splits)

lemma decryptStats_started:
  assumes "snd (decryptStats cl env s) \<noteq> []"
  obtains a i sg where "\<not> isRefreshingRef s" and "\<not> isDecryptingRef s"
    and "address (cl_ledger cl) = Some a" and "cl_instance cl = Some i"
    and "cl_ethersSigner cl = Some sg"
    and "truthy (cl_monthlyExpenseHandle cl) \<or> truthy (cl_monthlyBudgetHandle cl)"
proof -
  have n: "\<not> (isRefreshingRef s \<or> isDecryptingRef s \<or> address (cl_ledger cl) = None
     \<or> cl_instance cl = None \<or> cl_ethersSigner cl = None
     \<or> (\<not> truthy (cl_monthlyExpenseHandle cl) \<and> \<not> truthy (cl_monthlyBudgetHandle cl)))"
  proof
    assume "isRefreshingRef s \<or> isDecryptingRef s \<or> address (cl_ledger cl) = None
     \<or> cl_instance cl = None \<or> cl_ethersSigner cl = None
     \<or> (\<not> truthy (cl_monthlyExpenseHandle cl) \<and> \<not> truthy (cl_monthlyBudgetHandle cl))"
    from decryptStats_idle [OF this, of env] assms show False by simp
  qed
  with that show thesis by auto
qed

lemma decryptStats_stale:
  assumes "snd (decryptStats cl env s) \<noteq> []" and "de_sig env = Resolved (Some sig)"
    and "staleAt cl (de_ctx1 env)
         \<or> ((\<exists>c \<in> set (snd (decryptStats cl env s)). isUserDecrypt c)
             \<and> de_res env = Resolved res \<and> staleAt cl (de_ctx2 env))"
  shows "fst (decryptStats cl env s) =
           s\<lparr>isDecryptingRef := False, isDecrypting := False,
             message := ''Ignore FHEVM decryption''\<rparr>"
proof -
  from assms(1) obtain a i sg where g: "\<not> isRefreshingRef s" "\<not> isDecryptingRef s"
    "address (cl_ledger cl) = Some a" "cl_instance cl = Some i"
    "cl_ethersSigner cl = Some sg"
    "truthy (cl_monthlyExpenseHandle cl) \<or> truthy (cl_monthlyBudgetHandle cl)"
    by (rule decryptStats_started)
  have st: "staleAt cl ctx = isStale a (cl_chainId cl) sg ctx" for ctx
    by (simp add: staleAt_def g)
  obtain s2 calls where t: "decryptStats_try i a (cl_chainId cl) sg (cl_monthlyExpenseHandle cl)
           (cl_monthlyBudgetHandle cl) env
           (s\<lparr>isDecryptingRef := True, isDecrypting := True,
              message := ''Start decrypting statistics...''\<rparr>) = (s2, calls)"
    by (cases "decryptStats_try i a (cl_chainId cl) sg (cl_monthlyExpenseHandle cl)
           (cl_monthlyBudgetHandle cl) env
           (s\<lparr>isDecryptingRef := True, isDecrypting := True,
              message := ''Start decrypting statistics...''\<rparr>)") 
  note R = decryptStats_run [OF g t]
  from assms(3) have c: "staleAt cl (de_ctx1 env)
         \<or> ((\<exists>c \<in> set calls. isUserDecrypt c)
             \<and> de_res env = Resolved res \<and> staleAt cl (de_ctx2 env))"
    by (simp add: R)
  have s2: "s2 = s\<lparr>isDecryptingRef := True, isDecrypting := True,
              message := ''Ignore FHEVM decryption''\<rparr>"
    using t assms(2) c unfolding st decryptStats_try_cases
    by (auto split: if_splits)
  show ?thesis
    by (simp add: R s2)
qed

lemma decryptStats_commit:
  assumes "clearMonthlyExpense (fst (decryptStats cl env s)) \<noteq> clearMonthlyExpense s
         \<or> clearMonthlyBudget (fst (decryptStats cl env s)) \<noteq> clearMonthlyBudget s"
  shows "\<not> staleAt cl (de_ctx1 env) \<and> \<not> staleAt cl (de_ctx2 env)"
proof -
  have n: "\<not> (isRefreshingRef s \<or> isDecryptingRef s \<or> address (cl_ledger cl) = None
     \<or> cl_instance cl = None \<or> cl_ethersSigner cl = None
     \<or> (\<not> truthy (cl_monthlyExpenseHandle cl) \<and> \<not> truthy (cl_monthlyBudgetHandle cl)))"
  proof
    assume "isRefreshingRef s \<or> isDecryptingRef s \<or> address (cl_ledger cl) = None
     \<or> cl_instance cl = None \<or> cl_ethersSigner cl = None
     \<or> (\<not> truthy (cl_monthlyExpenseHandle cl) \<and> \<not> truthy (cl_monthlyBudgetHandle cl))"
    from decryptStats_idle [OF this, of env] assms show False by simp
  qed
  then obtain a i sg where g: "\<not> isRefreshingRef s" "\<not> isDecryptingRef s"
    "address (cl_ledger cl) = Some a" "cl_instance cl = Some i"
    "cl_ethersSigner cl = Some sg"
    "truthy (cl_monthlyExpenseHandle cl) \<or> truthy (cl_monthlyBudgetHandle cl)"
    by auto
  have st: "staleAt cl ctx = isStale a (cl_chainId cl) sg ctx" for ctx
    by (simp add: staleAt_def g)
  obtain s2 calls where t: "decryptStats_try i a (cl_chainId cl) sg (cl_monthlyExpenseHandle cl)
           (cl_monthlyBudgetHandle cl) env
           (s\<lparr>isDecryptingRef := True, isDecrypting := True,
              message := ''Start decrypting statistics...''\<rparr>) = (s2, calls)"
    by (cases "decryptStats_try i a (cl_chainId cl) sg (cl_monthlyExpenseHandle cl)
           (cl_monthlyBudgetHandle cl) env
           (s\<lparr>isDecryptingRef := True, isDecrypting := True,
              message := ''Start decrypting statistics...''\<rparr>)") 
  from assms have "clearMonthlyExpense s2 \<noteq> clearMonthlyExpense s
      \<or> clearMonthlyBudget s2 \<noteq> clearMonthlyBudget s"
    by (simp add: decryptStats_run [OF g t])
  then show ?thesis
    using t unfolding st decryptStats_try_cases
    by (auto split: awaited.splits option.splits if_splits)
qed

lemma setBudget_try_stale1:
  assumes "su_userAddr env = Resolved u" and "su_createThrows env = None"
    and "su_add32Throws env = None" and "su_encrypted env = Resolved e"
    and "isStale a cid sg (su_ctx1 env)"
  shows "setBudget_try i a cid sg cl budget env s =
           (s\<lparr>message := ''Ignore budget submission''\<rparr>,
            [GetAddress sg, CreateEncryptedInput i a u, Add32 budget, Encrypt], Done)"
  using assms by (simp add: setBudget_try_def Let_def)

lemma setBudget_try_stale2:
  assumes "su_userAddr env = Resolved u" and "su_createThrows env = None"
    and "su_add32Throws env = None" and "su_encrypted env = Resolved e"
    and "\<not> isStale a cid sg (su_ctx1 env)"
    and "su_sent env = Resolved tx" and "su_receipt env = Resolved r"
    and "isStale a cid sg (su_ctx2 env)"
  shows "setBudget_try i a cid sg cl budget env s =
           (s\<lparr>message := ''Ignore budget submission''\<rparr>,
            [GetAddress sg, CreateEncryptedInput i a u, Add32 budget, Encrypt,
             ContractSetMonthlyBudget a sg (firstHandle (handles e)) (inputProof e),
             TxWait (hash tx)], Done)"
  using assms by (simp add: setBudget_try_def Let_def)

lemma addTransaction_try_stale1:
  assumes "su_userAddr env = Resolved u" and "su_createThrows env = None"
    and "su_add32Throws env = None" and "su_encrypted env = Resolved e"
    and "isStale a cid sg (su_ctx1 env)"
  shows "addTransaction_try i a cid sg cl amt income cat key env s =
           (s\<lparr>debugEncryptionContractAddress := Some a,
              debugEncryptionUserAddress := Some u,
              debugEncryptionChainId := cid,
              lastAddAmount := Some amt, lastAddIsIncome := Some income,
              lastAddCategory := Some cat, lastAddCategoryKey := Some key,
              lastAddAmountHandle := map_option hexlify (firstHandle (handles e)),
              lastAddAmountProof := Some (proof_toString (inputProof e)),
              message := ''Ignore transaction submission''\<rparr>,
            [GetAddress sg, CreateEncryptedInput i a u, Add32 amt, Encrypt], Done)"
  using assms by (simp add: addTransaction_try_def Let_def)

lemma addTransaction_try_stale2:
  assumes "su_userAddr env = Resolved u" and "su_createThrows env = None"
    and "su_add32Throws env = None" and "su_encrypted env = Resolved e"
    and "\<not> isStale a cid sg (su_ctx1 env)"
    and "su_sent env = Resolved tx" and "su_receipt env = Resolved r"
    and "isStale a cid sg (su_ctx2 env)"
  shows "addTransaction_try i a cid sg cl amt income cat key env s =
           (s\<lparr>debugEncryptionContractAddress := Some a,
              debugEncryptionUserAddress := Some u,
              debugEncryptionChainId := cid,
              lastAddAmount := Some amt, lastAddIsIncome := Some income,
              lastAddCategory := Some cat, lastAddCategoryKey := Some key,
              lastAddAmountHandle := map_option hexlify (firstHandle (handles e)),
              lastAddAmountProof := Some (proof_toString (inputProof e)),
              lastAddMonth := Some (su_getMonth env + 1),
              lastAddTimestamp := Some (su_now env div 1000),
              lastAddTxHash := Some (hash tx),
              lastAddReceiptStatus := receiptStatus r,
              message := ''Ignore transaction submission''\<rparr>,
            [GetAddress sg, CreateEncryptedInput i a u, Add32 amt, Encrypt,
             ContractAddTransaction a sg (firstHandle (handles e)) (su_now env div 1000)
               cat income key (su_getMonth env + 1) (inputProof e),
             TxWait (hash tx)], Done)"
  using assms by (simp add: addTransaction_try_def Let_def)

lemma setBudget_try_reads:
  assumes "c \<in> set (fst (snd (setBudget_try i a cid sg cl budget env s)))"
    and "isContractRead c"
  shows "\<not> isStale a cid sg (su_ctx1 env) \<and> \<not> isStale a cid sg (su_ctx2 env)"
  using assms
  by (auto simp: setBudget_try_def Let_def
      split: awaited.splits option.splits prod.splits if_splits)

lemma addTransaction_try_reads:
  assumes "c \<in> set (fst (snd (addTransaction_try i a cid sg cl amt income cat key env s)))"
    and "isContractRead c"
  shows "\<not> isStale a cid sg (su_ctx1 env) \<and> \<not> isStale a cid sg (su_ctx2 env)"
  using assms
  by (auto simp: addTransaction_try_def Let_def
      split: awaited.splits option.splits prod.splits if_splits)

lemma setBudget_started:
  assumes "snd (setBudget cl budget env s) \<noteq> []"
  obtains a i sg where "\<not> isRefreshingRef s" and "\<not> isSubmittingRef s"
    and "address (cl_ledger cl) = Some a" and "cl_instance cl = Some i"
    and "cl_ethersSigner cl = Some sg"
proof -
  have "\<not> (isRefreshingRef s \<or> isSubmittingRef s \<or> address (cl_ledger cl) = None
     \<or> cl_instance cl = None \<or> cl_ethersSigner cl = None)"
  proof
    assume "isRefreshingRef s \<or> isSubmittingRef s \<or> address (cl_ledger cl) = None
     \<or> cl_instance cl = None \<or> cl_ethersSigner cl = None"
    from setBudget_idle [OF this, of budget env] assms show False by simp
  qed
  with that show thesis by auto
qed

lemma addTransaction_started:
  assumes "snd (addTransaction cl amt income cat key env s) \<noteq> []"
  obtains a i sg where "\<not> isRefreshingRef s" and "\<not> isSubmittingRef s"
    and "address (cl_ledger cl) = Some a" and "cl_instance cl = Some i"
    and "cl_ethersSigner cl = Some sg"
proof -
  have "\<not> (isRefreshingRef s \<or> isSubmittingRef s \<or> address (cl_ledger cl) = None
     \<or> cl_instance cl = None \<or> cl_ethersSigner cl = None)"
  proof
    assume "isRefreshingRef s \<or> isSubmittingRef s \<or> address (cl_ledger cl) = None
     \<or> cl_instance cl = None \<or> cl_ethersSigner cl = None"
    from addTransaction_idle [OF this, of amt income cat key env] assms show False by simp
  qed
  with that show thesis by auto
qed

lemma setBudget_stale:
  assumes "snd (setBudget cl budget env s) \<noteq> []"
    and "su_userAddr env = Resolved u" and "su_createThrows env = None"
    and "su_add32Throws env = None" and "su_encrypted env = Resolved e"
    and "staleAt cl (su_ctx1 env)
         \<or> (su_sent env = Resolved tx \<and> su_receipt env = Resolved r \<and> staleAt cl (su_ctx2 env))"
  shows "fst (setBudget cl budget env s) =
           s\<lparr>isSubmittingRef := False, isSubmitting := False,
             message := ''Ignore budget submission''\<rparr>"
proof -
  from assms(1) obtain a i sg where g: "\<not> isRefreshingRef s" "\<not> isSubmittingRef s"
    "address (cl_ledger cl) = Some a" "cl_instance cl = Some i" "cl_ethersSigner cl = Some sg"
    by (rule setBudget_started)
  have st: "staleAt cl ctx = isStale a (cl_chainId cl) sg ctx" for ctx
    by (simp add: staleAt_def g)
  show ?thesis
  proof (cases "isStale a (cl_chainId cl) sg (su_ctx1 env)")
    case True
    from setBudget_run [OF g setBudget_try_stale1 [OF assms(2-5) True]]
    show ?thesis by simp
  next
    case False
    with assms(6) have r: "su_sent env = Resolved tx" "su_receipt env = Resolved r"
      "isStale a (cl_chainId cl) sg (su_ctx2 env)"
      by (simp_all add: st)
    from setBudget_run [OF g setBudget_try_stale2 [OF assms(2-5) False r]]
    show ?thesis by simp
  qed
qed

lemma addTransaction_stale1:
  assumes "snd (addTransaction cl amt income cat key env s) \<noteq> []"
    and "su_userAddr env = Resolved u" and "su_createThrows env = None"
    and "su_add32Throws env = None" and "su_encrypted env = Resolved e"
    and "staleAt cl (su_ctx1 env)"
  shows "addTransaction cl amt income cat key env s =
           (s\<lparr>debugEncryptionContractAddress := address (cl_ledger cl),
              debugEncryptionUserAddress := Some u,
              debugEncryptionChainId := cl_chainId cl,
              lastAddAmount := Some amt, lastAddIsIncome := Some income,
              lastAddCategory := Some cat, lastAddCategoryKey := Some key,
              lastAddAmountHandle := map_option hexlify (firstHandle (handles e)),
              lastAddAmountProof := Some (proof_toString (inputProof e)),
              isSubmittingRef := False, isSubmitting := False,
              message := ''Ignore transaction submission''\<rparr>,
            take 4 (snd (addTransaction cl amt income cat key env s)))"
proof -
  from assms(1) obtain a i sg where g: "\<not> isRefreshingRef s" "\<not> isSubmittingRef s"
    "address (cl_ledger cl) = Some a" "cl_instance cl = Some i" "cl_ethersSigner cl = Some sg"
    by (rule addTransaction_started)
  have st: "isStale a (cl_chainId cl) sg (su_ctx1 env)"
    using assms(6) by (simp add: staleAt_def g)
  from addTransaction_run [OF g addTransaction_try_stale1 [OF assms(2-5) st]]
  show ?thesis by (simp add: g)
qed

lemma addTransaction_stale2:
  assumes "snd (addTransaction cl amt income cat key env s) \<noteq> []"
    and "su_userAddr env = Resolved u" and "su_createThrows env = None"
    and "su_add32Throws env = None" and "su_encrypted env = Resolved e"
    and "\<not> staleAt cl (su_ctx1 env)"
    and "su_sent env = Resolved tx" and "su_receipt env = Resolved r"
    and "staleAt cl (su_ctx2 env)"
  shows "addTransaction cl amt income cat key env s =
           (s\<lparr>debugEncryptionContractAddress := address (cl_ledger cl),
              debugEncryptionUserAddress := Some u,
              debugEncryptionChainId := cl_chainId cl,
              lastAddAmount := Some amt, lastAddIsIncome := Some income,
              lastAddCategory := Some cat, lastAddCategoryKey := Some key,
              lastAddAmountHandle := map_option hexlify (firstHandle (handles e)),
              lastAddAmountProof := Some (proof_toString (inputProof e)),
              lastAddMonth := Some (su_getMonth env + 1),
              lastAddTimestamp := Some (su_now env div 1000),
              lastAddTxHash := Some (hash tx),
              lastAddReceiptStatus := receiptStatus r,
              isSubmittingRef := False, isSubmitting := False,
              message := ''Ignore transaction submission''\<rparr>,
            take 6 (snd (addTransaction cl amt income cat key env s)))"
proof -
  from assms(1) obtain a i sg where g: "\<not> isRefreshingRef s" "\<not> isSubmittingRef s"
    "address (cl_ledger cl) = Some a" "cl_instance cl = Some i" "cl_ethersSigner cl = Some sg"
    by (rule addTransaction_started)
  have st: "\<not> isStale a (cl_chainId cl) sg (su_ctx1 env)"
    "isStale a (cl_chainId cl) sg (su_ctx2 env)"
    using assms(6,9) by (simp_all add: staleAt_def g)
  from addTransaction_run [OF g addTransaction_try_stale2 [OF assms(2-5) st(1) assms(7,8) st(2)]]
  show ?thesis by (simp add: g)
qed

lemma setBudget_guarded:
  assumes "c \<in> set (snd (setBudget cl budget env s))"
  shows "(isContractWrite c \<longrightarrow> \<not> staleAt cl (su_ctx1 env))
       \<and> (isContractRead c \<longrightarrow> \<not> staleAt cl (su_ctx1 env) \<and> \<not> staleAt cl (su_ctx2 env))"
proof -
  from assms have "snd (setBudget cl budget env s) \<noteq> []" by auto
  then obtain a i sg where g: "\<not> isRefreshingRef s" "\<not> isSubmittingRef s"
    "address (cl_ledger cl) = Some a" "cl_instance cl = Some i" "cl_ethersSigner cl = Some sg"
    by (rule setBudget_started)
  have st: "staleAt cl ctx = isStale a (cl_chainId cl) sg ctx" for ctx
    by (simp add: staleAt_def g)
  note calls = setBudget_calls [OF g, of budget env]
  have w: "isContractWrite c \<longrightarrow> \<not> staleAt cl (su_ctx1 env)"
  proof
    assume "isContractWrite c"
    with assms have "c \<in> set (filter isContractWrite (snd (setBudget cl budget env s)))"
      by simp
    then show "\<not> staleAt cl (su_ctx1 env)"
      unfolding calls setBudget_try_writes st
      by (cases "su_userAddr env"; cases "su_encrypted env") (auto split: if_splits)
  qed
  have r: "isContractRead c \<longrightarrow> \<not> staleAt cl (su_ctx1 env) \<and> \<not> staleAt cl (su_ctx2 env)"
    using assms unfolding calls st by (blast dest: setBudget_try_reads)
  from w r show ?thesis by blast
qed

lemma addTransaction_guarded:
  assumes "c \<in> set (snd (addTransaction cl amt income cat key env s))"
  shows "(isContractWrite c \<longrightarrow> \<not> staleAt cl (su_ctx1 env))
       \<and> (isContractRead c \<longrightarrow> \<not> staleAt cl (su_ctx1 env) \<and> \<not> staleAt cl (su_ctx2 env))"
proof -
  from assms have "snd (addTransaction cl amt income cat key env s) \<noteq> []" by auto
  then obtain a i sg where g: "\<not> isRefreshingRef s" "\<not> isSubmittingRef s"
    "address (cl_ledger cl) = Some a" "cl_instance cl = Some i" "cl_ethersSigner cl = Some sg"
    by (rule addTransaction_started)
  have st: "staleAt cl ctx = isStale a (cl_chainId cl) sg ctx" for ctx
    by (simp add: staleAt_def g)
  note calls = addTransaction_calls [OF g, of amt income cat key env]
  have w: "isContractWrite c \<longrightarrow> \<not> staleAt cl (su_ctx1 env)"
  proof
    assume "isContractWrite c"
    with assms have "c \<in> set (filter isContractWrite (snd (addTransaction cl amt income cat key env s)))"
      by simp
    then show "\<not> staleAt cl (su_ctx1 env)"
      unfolding calls addTransaction_try_writes st
      by (cases "su_userAddr env"; cases "su_encrypted env") (auto split: if_splits)
  qed
  have r: "isContractRead c \<longrightarrow> \<not> staleAt cl (su_ctx1 env) \<and> \<not> staleAt cl (su_ctx2 env)"
    using assms unfolding calls st by (blast dest: addTransaction_try_reads)
  from w r show ?thesis by blast
qed

text \<open>
  C1 (as amended). In \<^verbatim>\<open>decryptBalance\<close>, \<^verbatim>\<open>decryptStats\<close> and \<^verbatim>\<open>setBudget\<close> a result
  produced after an await is committed only if the \<^verbatim>\<open>isStale()\<close> checks before it found
  the captured contract address, chain id and signer equal to the current ones: a
  decrypted value is stored, the contract is called and the data is refreshed only after
  the checks passed. When a check that the handler reaches, the awaited calls before it
  having succeeded, finds one of the three different, the handler stops and leaves the
  hook state as it was at the call, except for the message \<^verbatim>\<open>Ignore ...\<close> and the cleared
  busy flag. In \<^verbatim>\<open>addTransaction\<close> the same checks guard the contract call and the refresh
  and the final message is \<^verbatim>\<open>Ignore transaction submission\<close>, but the diagnostic cells
  (the signer's address, the amount handle and proof of the encryption, and after the
  submission the month, timestamp, transaction hash and receipt status) are written
  before the checks, stale or not. A handler that makes no call returned at a guard.
\<close>

theorem stale_results_discarded:
  "(cl_balanceHandle cl \<noteq> Some ZeroHash
      \<and> (clearBalance (fst (decryptBalance cl denv s)) \<noteq> clearBalance s
          \<or> clearBalanceRef (fst (decryptBalance cl denv s)) \<noteq> clearBalanceRef s)
     \<longrightarrow> \<not> staleAt cl (de_ctx1 denv) \<and> \<not> staleAt cl (de_ctx2 denv))
   \<and> (snd (decryptBalance cl denv s) \<noteq> [] \<and> de_sig denv = Resolved (Some sig)
      \<and> (staleAt cl (de_ctx1 denv) \<or> (de_res denv = Resolved res \<and> staleAt cl (de_ctx2 denv)))
     \<longrightarrow> fst (decryptBalance cl denv s) =
           s\<lparr>isDecryptingRef := False, isDecrypting := False,
             message := ''Ignore FHEVM decryption''\<rparr>)
   \<and> (clearMonthlyExpense (fst (decryptStats cl denv s)) \<noteq> clearMonthlyExpense s
        \<or> clearMonthlyBudget (fst (decryptStats cl denv s)) \<noteq> clearMonthlyBudget s
     \<longrightarrow> \<not> staleAt cl (de_ctx1 denv) \<and> \<not> staleAt cl (de_ctx2 denv))
   \<and> (snd (decryptStats cl denv s) \<noteq> [] \<and> de_sig denv = Resolved (Some sig)
      \<and> (staleAt cl (de_ctx1 denv)
          \<or> ((\<exists>c \<in> set (snd (decryptStats cl denv s)). isUserDecrypt c)
              \<and> de_res denv = Resolved res \<and> staleAt cl (de_ctx2 denv)))
     \<longrightarrow> fst (decryptStats cl denv s) =
           s\<lparr>isDecryptingRef := False, isDecrypting := False,
             message := ''Ignore FHEVM decryption''\<rparr>)
   \<and> (\<forall>c \<in> set (snd (setBudget cl budget senv s)).
        (isContractWrite c \<longrightarrow> \<not> staleAt cl (su_ctx1 senv))
        \<and> (isContractRead c \<longrightarrow> \<not> staleAt cl (su_ctx1 senv) \<and> \<not> staleAt cl (su_ctx2 senv)))
   \<and> (snd (setBudget cl budget senv s) \<noteq> []
      \<and> su_userAddr senv = Resolved u \<and> su_createThrows senv = None
      \<and> su_add32Throws senv = None \<and> su_encrypted senv = Resolved e
      \<and> (staleAt cl (su_ctx1 senv)
          \<or> (su_sent senv = Resolved tx \<and> su_receipt senv = Resolved r
              \<and> staleAt cl (su_ctx2 senv)))
     \<longrightarrow> fst (setBudget cl budget senv s) =
           s\<lparr>isSubmittingRef := False, isSubmitting := False,
             message := ''Ignore budget submission''\<rparr>)
   \<and> (\<forall>c \<in> set (snd (addTransaction cl amt income cat key senv s)).
        (isContractWrite c \<longrightarrow> \<not> staleAt cl (su_ctx1 senv))
        \<and> (isContractRead c \<longrightarrow> \<not> staleAt cl (su_ctx1 senv) \<and> \<not> staleAt cl (su_ctx2 senv)))
   \<and> (snd (addTransaction cl amt income cat key senv s) \<noteq> []
      \<and> su_userAddr senv = Resolved u \<and> su_createThrows senv = None
      \<and> su_add32Throws senv = None \<and> su_encrypted senv = Resolved e
      \<and> staleAt cl (su_ctx1 senv)
     \<longrightarrow> fst (addTransaction cl amt income cat key senv s) =
           s\<lparr>debugEncryptionContractAddress := address (cl_ledger cl),
              debugEncryptionUserAddress := Some u,
              debugEncryptionChainId := cl_chainId cl,
              lastAddAmount := Some amt, lastAddIsIncome := Some income,
              lastAddCategory := Some cat, lastAddCategoryKey := Some key,
              lastAddAmountHandle := map_option hexlify (firstHandle (handles e)),
              lastAddAmountProof := Some (proof_toString (inputProof e)),
              isSubmittingRef := False, isSubmitting := False,
              message := ''Ignore transaction submission''\<rparr>)
   \<and> (snd (addTransaction cl amt income cat key senv s) \<noteq> []
      \<and> su_userAddr senv = Resolved u \<and> su_createThrows senv = None
      \<and> su_add32Throws senv = None \<and> su_encrypted senv = Resolved e
      \<and> \<not> staleAt cl (su_ctx1 senv)
      \<and> su_sent senv = Resolved tx \<and> su_receipt senv = Resolved r
      \<and> staleAt cl (su_ctx2 senv)
     \<longrightarrow> fst (addTransaction cl amt income cat key senv s) =
           s\<lparr>debugEncryptionContractAddress := address (cl_ledger cl),
              debugEncryptionUserAddress := Some u,
              debugEncryptionChainId := cl_chainId cl,
              lastAddAmount := Some amt, lastAddIsIncome := Some income,
              lastAddCategory := Some cat, lastAddCategoryKey := Some key,
              lastAddAmountHandle := map_option hexlify (firstHandle (handles e)),
              lastAddAmountProof := Some (proof_toString (inputProof e)),
              lastAddMonth := Some (su_getMonth senv + 1),
              lastAddTimestamp := Some (su_now senv div 1000),
              lastAddTxHash := Some (hash tx),
              lastAddReceiptStatus := receiptStatus r,
              isSubmittingRef := False, isSubmitting := False,
              message := ''Ignore transaction submission''\<rparr>)"
proof (intro conjI impI ballI)
  assume "cl_balanceHandle cl \<noteq> Some ZeroHash
      \<and> (clearBalance (fst (decryptBalance cl denv s)) \<noteq> clearBalance s
          \<or> clearBalanceRef (fst (decryptBalance cl denv s)) \<noteq> clearBalanceRef s)"
  then have "\<not> staleAt cl (de_ctx1 denv) \<and> \<not> staleAt cl (de_ctx2 denv)"
    using decryptBalance_commit by blast
  then show "\<not> staleAt cl (de_ctx1 denv)" "\<not> staleAt cl (de_ctx2 denv)"
    by simp_all
next
  assume "snd (decryptBalance cl denv s) \<noteq> [] \<and> de_sig denv = Resolved (Some sig)
      \<and> (staleAt cl (de_ctx1 denv) \<or> (de_res denv = Resolved res \<and> staleAt cl (de_ctx2 denv)))"
  then show "fst (decryptBalance cl denv s) =
           s\<lparr>isDecryptingRef := False, isDecrypting := False,
             message := ''Ignore FHEVM decryption''\<rparr>"
    using decryptBalance_stale by blast
next
  assume "clearMonthlyExpense (fst (decryptStats cl denv s)) \<noteq> clearMonthlyExpense s
        \<or> clearMonthlyBudget (fst (decryptStats cl denv s)) \<noteq> clearMonthlyBudget s"
  then have "\<not> staleAt cl (de_ctx1 denv) \<and> \<not> staleAt cl (de_ctx2 denv)"
    by (rule decryptStats_commit)
  then show "\<not> staleAt cl (de_ctx1 denv)" "\<not> staleAt cl (de_ctx2 denv)"
    by simp_all
next
  assume "snd (decryptStats cl denv s) \<noteq> [] \<and> de_sig denv = Resolved (Some sig)
      \<and> (staleAt cl (de_ctx1 denv)
          \<or> ((\<exists>c \<in> set (snd (decryptStats cl denv s)). isUserDecrypt c)
              \<and> de_res denv = Resolved res \<and> staleAt cl (de_ctx2 denv)))"
  then show "fst (decryptStats cl denv s) =
           s\<lparr>isDecryptingRef := False, isDecrypting := False,
             message := ''Ignore FHEVM decryption''\<rparr>"
    using decryptStats_stale by blast
next
  fix c
  assume c: "c \<in> set (snd (setBudget cl budget senv s))"
  {
    assume "isContractWrite c"
    with setBudget_guarded [OF c] show "\<not> staleAt cl (su_ctx1 senv)" by simp
  }
  {
    assume "isContractRead c"
    with setBudget_guarded [OF c] show "\<not> staleAt cl (su_ctx1 senv)" "\<not> staleAt cl (su_ctx2 senv)"
      by simp_all
  }
next
  assume "snd (setBudget cl budget senv s) \<noteq> []
      \<and> su_userAddr senv = Resolved u \<and> su_createThrows senv = None
      \<and> su_add32Throws senv = None \<and> su_encrypted senv = Resolved e
      \<and> (staleAt cl (su_ctx1 senv)
          \<or> (su_sent senv = Resolved tx \<and> su_receipt senv = Resolved r
              \<and> staleAt cl (su_ctx2 senv)))"
  then show "fst (setBudget cl budget senv s) =
           s\<lparr>isSubmittingRef := False, isSubmitting := False,
             message := ''Ignore budget submission''\<rparr>"
    using setBudget_stale by blast
next
  fix c
  assume c: "c \<in> set (snd (addTransaction cl amt income cat key senv s))"
  {
    assume "isContractWrite c"
    with addTransaction_guarded [OF c] show "\<not> staleAt cl (su_ctx1 senv)" by simp
  }
  {
    assume "isContractRead c"
    with addTransaction_guarded [OF c]
    show "\<not> staleAt cl (su_ctx1 senv)" "\<not> staleAt cl (su_ctx2 senv)"
      by simp_all
  }
next
  assume "snd (addTransaction cl amt income cat key senv s) \<noteq> []
      \<and> su_userAddr senv = Resolved u \<and> su_createThrows senv = None
      \<and> su_add32Throws senv = None \<and> su_encrypted senv = Resolved e
      \<and> staleAt cl (su_ctx1 senv)"
  then have "snd (addTransaction cl amt income cat key senv s) \<noteq> []"
    "su_userAddr senv = Resolved u" "su_createThrows senv = None"
    "su_add32Throws senv = None" "su_encrypted senv = Resolved e"
    "staleAt cl (su_ctx1 senv)"
    by simp_all
  from addTransaction_stale1 [OF this]
  show "fst (addTransaction cl amt income cat key senv s) =
           s\<lparr>debugEncryptionContractAddress := address (cl_ledger cl),
              debugEncryptionUserAddress := Some u,
              debugEncryptionChainId := cl_chainId cl,
              lastAddAmount := Some amt, lastAddIsIncome := Some income,
              lastAddCategory := Some cat, lastAddCategoryKey := Some key,
              lastAddAmountHandle := map_option hexlify (firstHandle (handles e)),
              lastAddAmountProof := Some (proof_toString (inputProof e)),
              isSubmittingRef := False, isSubmitting := False,
              message := ''Ignore transaction submission''\<rparr>"
    by (simp add: prod_eq_iff)
next
  assume "snd (addTransaction cl amt income cat key senv s) \<noteq> []
      \<and> su_userAddr senv = Resolved u \<and> su_createThrows senv = None
      \<and> su_add32Throws senv = None \<and> su_encrypted senv = Resolved e
      \<and> \<not> staleAt cl (su_ctx1 senv)
      \<and> su_sent senv = Resolved tx \<and> su_receipt senv = Resolved r
      \<and> staleAt cl (su_ctx2 senv)"
  then have "snd (addTransaction cl amt income cat key senv s) \<noteq> []"
    "su_userAddr senv = Resolved u" "su_createThrows senv = None"
    "su_add32Throws senv = None" "su_encrypted senv = Resolved e"
    "\<not> staleAt cl (su_ctx1 senv)"
    "su_sent senv = Resolved tx" "su_receipt senv = Resolved r"
    "staleAt cl (su_ctx2 senv)"
    by simp_all
  from addTransaction_stale2 [OF this]
  show "fst (addTransaction cl amt income cat key senv s) =
           s\<lparr>debugEncryptionContractAddress := address (cl_ledger cl),
              debugEncryptionUserAddress := Some u,
              debugEncryptionChainId := cl_chainId cl,
              lastAddAmount := Some amt, lastAddIsIncome := Some income,
              lastAddCategory := Some cat, lastAddCategoryKey := Some key,
              lastAddAmountHandle := map_option hexlify (firstHandle (handles e)),
              lastAddAmountProof := Some (proof_toString (inputProof e)),
              lastAddMonth := Some (su_getMonth senv + 1),
              lastAddTimestamp := Some (su_now senv div 1000),
              lastAddTxHash := Some (hash tx),
              lastAddReceiptStatus := receiptStatus r,
              isSubmittingRef := False, isSubmitting := False,
              message := ''Ignore transaction submission''\<rparr>"
    by (simp add: prod_eq_iff)
qed

lemma example_stale: "staleAt exampleClosure switchedCtx" "\<not> staleAt exampleClosure exampleCtx"
  by (simp_all add: staleAt_def exampleClosure_def exampleLedger_def switchedCtx_def
      exampleCtx_def stale_defs)

lemma example_hex:
  "hexlify exampleHandleBytes =
     ''0x5a1c930e77b24df108c63ea91264d08bf52a419c6eff0000000000007a690400''"
  "hexlify exampleProofBytes = ''0x01015a1c930e77b2d43f8810''"
  by (simp_all add: hexlify_def hexByte_def exampleHandleBytes_def exampleProofBytes_def)

lemma example_addTransaction_stale:
  "addTransaction exampleClosure 5 False 2 2 (exampleSubmitEnv\<lparr>su_ctx1 := switchedCtx\<rparr>)
       initialHookState =
     (initialHookState
        \<lparr>debugEncryptionContractAddress := Some (Hex0x ''5FbDB2315678afecb367f032d93F642f64180aa3''),
         debugEncryptionUserAddress := Some exampleUser,
         debugEncryptionChainId := Some 31337,
         lastAddAmount := Some 5, lastAddIsIncome := Some False,
         lastAddCategory := Some 2, lastAddCategoryKey := Some 2,
         lastAddAmountHandle := Some ''0x5a1c930e77b24df108c63ea91264d08bf52a419c6eff0000000000007a690400'',
         lastAddAmountProof := Some ''0x01015a1c930e77b2d43f8810'',
         message := ''Ignore transaction submission''\<rparr>,
      [GetAddress 1,
       CreateEncryptedInput 0 (Hex0x ''5FbDB2315678afecb367f032d93F642f64180aa3'')
         exampleUser,
       Add32 5, Encrypt])"
  by (simp add: addTransaction_def addTransaction_try_def Let_def example_defs stale_defs
      example_hex)

text \<open>
  C1 as stated fails. The wallet switches chains while \<^verbatim>\<open>addTransaction\<close> awaits the
  encryption: the staleness check that follows finds the context stale and the handler
  ends with the message \<^verbatim>\<open>Ignore transaction submission\<close>, yet the hook state holds what
  the awaits produced, the signer's address and the handle and proof of the encrypted
  amount. And when \<^verbatim>\<open>decryptBalance\<close> gets no signature in a stale context, the message
  it sets is not an \<^verbatim>\<open>Ignore ...\<close> message.
\<close>

theorem stale_commit_counterexample:
  "staleAt exampleClosure switchedCtx
   \<and> message (fst (addTransaction exampleClosure 5 False 2 2
         (exampleSubmitEnv\<lparr>su_ctx1 := switchedCtx\<rparr>) initialHookState)) =
       ''Ignore transaction submission''
   \<and> lastAddAmountHandle initialHookState = None
   \<and> lastAddAmountHandle (fst (addTransaction exampleClosure 5 False 2 2
         (exampleSubmitEnv\<lparr>su_ctx1 := switchedCtx\<rparr>) initialHookState)) =
       Some ''0x5a1c930e77b24df108c63ea91264d08bf52a419c6eff0000000000007a690400''
   \<and> lastAddAmountProof (fst (addTransaction exampleClosure 5 False 2 2
         (exampleSubmitEnv\<lparr>su_ctx1 := switchedCtx\<rparr>) initialHookState)) =
       Some ''0x01015a1c930e77b2d43f8810''
   \<and> debugEncryptionUserAddress (fst (addTransaction exampleClosure 5 False 2 2
         (exampleSubmitEnv\<lparr>su_ctx1 := switchedCtx\<rparr>) initialHookState)) =
       Some exampleUser
   \<and> message (fst (decryptBalance exampleClosure
         (exampleDecryptEnv\<lparr>de_sig := Resolved None, de_ctx1 := switchedCtx,
            de_ctx2 := switchedCtx\<rparr>) initialHookState)) =
       ''Unable to build FHEVM decryption signature''"
proof -
  have d: "message (fst (decryptBalance exampleClosure
         (exampleDecryptEnv\<lparr>de_sig := Resolved None, de_ctx1 := switchedCtx,
            de_ctx2 := switchedCtx\<rparr>) initialHookState)) =
       ''Unable to build FHEVM decryption signature''"
    by (simp add: decryptBalance_def decryptBalance_try_def Let_def exampleClosure_def
        exampleLedger_def exampleDecryptEnv_def initialHookState_def exampleHandle_neq)
  show ?thesis
    by (simp add: example_addTransaction_stale example_stale d) (simp add: initialHookState_def)
qed

lemma example_decryptBalance_stale2:
  "decryptBalance exampleClosure (exampleDecryptEnv\<lparr>de_ctx2 := switchedCtx\<rparr>) initialHookState =
     (initialHookState\<lparr>message := ''Ignore FHEVM decryption''\<rparr>,
      [LoadOrSign 0 [Hex0x ''5FbDB2315678afecb367f032d93F642f64180aa3''] 1,
       UserDecrypt 0 [(exampleHandle, Hex0x ''5FbDB2315678afecb367f032d93F642f64180aa3'')]
         exampleSignature])"
  by (simp add: decryptBalance_def decryptBalance_try_def Let_def exampleClosure_def
        exampleLedger_def exampleCtx_def switchedCtx_def exampleDecryptEnv_def
        initialHookState_def stale_defs exampleHandle_neq)

lemma example_decryptStats_stale1:
  "decryptStats exampleClosure (exampleDecryptEnv\<lparr>de_ctx1 := switchedCtx\<rparr>) initialHookState =
     (initialHookState\<lparr>message := ''Ignore FHEVM decryption''\<rparr>,
      [LoadOrSign 0 [Hex0x ''5FbDB2315678afecb367f032d93F642f64180aa3''] 1])"
  by (simp add: decryptStats_def decryptStats_try_def Let_def exampleClosure_def
        exampleLedger_def exampleCtx_def switchedCtx_def exampleDecryptEnv_def
        initialHookState_def stale_defs exampleHandle_neq)

lemma example_setBudget_stale2:
  "setBudget exampleClosure 300 (exampleSubmitEnv\<lparr>su_ctx2 := switchedCtx\<rparr>) initialHookState =
     (initialHookState\<lparr>message := ''Ignore budget submission''\<rparr>,
      [GetAddress 1,
       CreateEncryptedInput 0 (Hex0x ''5FbDB2315678afecb367f032d93F642f64180aa3'')
         exampleUser,
       Add32 300, Encrypt,
       ContractSetMonthlyBudget (Hex0x ''5FbDB2315678afecb367f032d93F642f64180aa3'') 1
         (Some exampleHandleBytes) (ProofBytes exampleProofBytes),
       TxWait exampleTxHash])"
  by (simp add: setBudget_def setBudget_try_def Let_def example_defs stale_defs)

lemma example_addTransaction_stale2_calls:
  "snd (addTransaction exampleClosure 5 False 2 2 (exampleSubmitEnv\<lparr>su_ctx2 := switchedCtx\<rparr>)
          initialHookState) =
      [GetAddress 1,
       CreateEncryptedInput 0 (Hex0x ''5FbDB2315678afecb367f032d93F642f64180aa3'')
         exampleUser,
       Add32 5, Encrypt,
       ContractAddTransaction (Hex0x ''5FbDB2315678afecb367f032d93F642f64180aa3'') 1
         (Some exampleHandleBytes) 1700000000 2 False 2 11 (ProofBytes exampleProofBytes),
       TxWait exampleTxHash]"
  by (simp add: addTransaction_def addTransaction_try_def Let_def example_defs stale_defs)

theorem stale_results_discarded_witness:
  "staleAt exampleClosure switchedCtx \<and> \<not> staleAt exampleClosure exampleCtx
   \<and> fst (decryptBalance exampleClosure (exampleDecryptEnv\<lparr>de_ctx2 := switchedCtx\<rparr>)
          initialHookState) =
       initialHookState\<lparr>isDecryptingRef := False, isDecrypting := False,
         message := ''Ignore FHEVM decryption''\<rparr>
   \<and> fst (decryptStats exampleClosure (exampleDecryptEnv\<lparr>de_ctx1 := switchedCtx\<rparr>)
          initialHookState) =
       initialHookState\<lparr>isDecryptingRef := False, isDecrypting := False,
         message := ''Ignore FHEVM decryption''\<rparr>
   \<and> fst (setBudget exampleClosure 300 (exampleSubmitEnv\<lparr>su_ctx2 := switchedCtx\<rparr>)
          initialHookState) =
       initialHookState\<lparr>isSubmittingRef := False, isSubmitting := False,
         message := ''Ignore budget submission''\<rparr>
   \<and> lastAddTxHash (fst (addTransaction exampleClosure 5 False 2 2
          (exampleSubmitEnv\<lparr>su_ctx2 := switchedCtx\<rparr>) initialHookState)) = Some exampleTxHash
   \<and> message (fst (addTransaction exampleClosure 5 False 2 2
          (exampleSubmitEnv\<lparr>su_ctx2 := switchedCtx\<rparr>) initialHookState)) =
       ''Ignore transaction submission''
   \<and> balanceHandle (fst (addTransaction exampleClosure 5 False 2 2
          (exampleSubmitEnv\<lparr>su_ctx2 := switchedCtx\<rparr>) initialHookState)) = None
   \<and> clearBalance (fst (decryptBalance exampleClosure exampleDecryptEnv initialHookState)) \<noteq>
       clearBalance initialHookState
   \<and> \<not> staleAt exampleClosure (de_ctx1 exampleDecryptEnv)
   \<and> \<not> staleAt exampleClosure (de_ctx2 exampleDecryptEnv)
   \<and> GetBalance (Hex0x ''5FbDB2315678afecb367f032d93F642f64180aa3'') 1
       \<in> set (snd (addTransaction exampleClosure 5 False 2 2 exampleSubmitEnv initialHookState))
   \<and> \<not> staleAt exampleClosure (su_ctx1 exampleSubmitEnv)
   \<and> \<not> staleAt exampleClosure (su_ctx2 exampleSubmitEnv)"
proof -
  note S = stale_results_discarded [where cl = exampleClosure and s = initialHookState
      and denv = "exampleDecryptEnv\<lparr>de_ctx2 := switchedCtx\<rparr>"
      and sig = exampleSignature and res = "[exampleHandle \<mapsto> ClearBigint 42]"
      and senv = "exampleSubmitEnv\<lparr>su_ctx2 := switchedCtx\<rparr>"
      and budget = 300 and amt = 5 and income = False and cat = 2 and key = 2
      and u = "exampleUser" and e = exampleEncrypted
      and tx = "\<lparr>hash = exampleTxHash\<rparr>" and r = "Some \<lparr>status = Some 1\<rparr>"]
  note D = stale_results_discarded [where cl = exampleClosure and s = initialHookState
      and denv = "exampleDecryptEnv\<lparr>de_ctx1 := switchedCtx\<rparr>"
      and sig = exampleSignature and res = "[exampleHandle \<mapsto> ClearBigint 42]"
      and senv = exampleSubmitEnv
      and budget = 300 and amt = 5 and income = False and cat = 2 and key = 2
      and u = "exampleUser" and e = exampleEncrypted
      and tx = "\<lparr>hash = exampleTxHash\<rparr>" and r = "Some \<lparr>status = Some 1\<rparr>"]
  note F = stale_results_discarded [where cl = exampleClosure and s = initialHookState
      and denv = exampleDecryptEnv
      and sig = exampleSignature and res = "[exampleHandle \<mapsto> ClearBigint 42]"
      and senv = exampleSubmitEnv
      and budget = 300 and amt = 5 and income = False and cat = 2 and key = 2
      and u = "exampleUser" and e = exampleEncrypted
      and tx = "\<lparr>hash = exampleTxHash\<rparr>" and r = "Some \<lparr>status = Some 1\<rparr>"]
  have envs: "de_sig (exampleDecryptEnv\<lparr>de_ctx2 := switchedCtx\<rparr>) = Resolved (Some exampleSignature)"
    "de_res (exampleDecryptEnv\<lparr>de_ctx2 := switchedCtx\<rparr>) = Resolved [exampleHandle \<mapsto> ClearBigint 42]"
    "de_ctx1 (exampleDecryptEnv\<lparr>de_ctx2 := switchedCtx\<rparr>) = exampleCtx"
    "de_ctx2 (exampleDecryptEnv\<lparr>de_ctx2 := switchedCtx\<rparr>) = switchedCtx"
    "de_sig (exampleDecryptEnv\<lparr>de_ctx1 := switchedCtx\<rparr>) = Resolved (Some exampleSignature)"
    "de_ctx1 (exampleDecryptEnv\<lparr>de_ctx1 := switchedCtx\<rparr>) = switchedCtx"
    "de_ctx1 exampleDecryptEnv = exampleCtx" "de_ctx2 exampleDecryptEnv = exampleCtx"
    "su_userAddr (exampleSubmitEnv\<lparr>su_ctx2 := switchedCtx\<rparr>) =
       Resolved exampleUser"
    "su_createThrows (exampleSubmitEnv\<lparr>su_ctx2 := switchedCtx\<rparr>) = None"
    "su_add32Throws (exampleSubmitEnv\<lparr>su_ctx2 := switchedCtx\<rparr>) = None"
    "su_encrypted (exampleSubmitEnv\<lparr>su_ctx2 := switchedCtx\<rparr>) = Resolved exampleEncrypted"
    "su_sent (exampleSubmitEnv\<lparr>su_ctx2 := switchedCtx\<rparr>) = Resolved \<lparr>hash = exampleTxHash\<rparr>"
    "su_receipt (exampleSubmitEnv\<lparr>su_ctx2 := switchedCtx\<rparr>) = Resolved (Some \<lparr>status = Some 1\<rparr>)"
    "su_ctx1 (exampleSubmitEnv\<lparr>su_ctx2 := switchedCtx\<rparr>) = exampleCtx"
    "su_ctx2 (exampleSubmitEnv\<lparr>su_ctx2 := switchedCtx\<rparr>) = switchedCtx"
    by (simp_all add: exampleDecryptEnv_def exampleSubmitEnv_def)
  have b: "fst (decryptBalance exampleClosure (exampleDecryptEnv\<lparr>de_ctx2 := switchedCtx\<rparr>)
          initialHookState) =
       initialHookState\<lparr>isDecryptingRef := False, isDecrypting := False,
         message := ''Ignore FHEVM decryption''\<rparr>"
    by (rule mp [OF S [THEN conjunct2, THEN conjunct1]])
      (simp add: example_decryptBalance_stale2 example_stale envs)
  have t: "fst (decryptStats exampleClosure (exampleDecryptEnv\<lparr>de_ctx1 := switchedCtx\<rparr>)
          initialHookState) =
       initialHookState\<lparr>isDecryptingRef := False, isDecrypting := False,
         message := ''Ignore FHEVM decryption''\<rparr>"
    by (rule mp [OF D [THEN conjunct2, THEN conjunct2, THEN conjunct2, THEN conjunct1]])
      (simp add: example_decryptStats_stale1 example_stale envs)
  have g: "fst (setBudget exampleClosure 300 (exampleSubmitEnv\<lparr>su_ctx2 := switchedCtx\<rparr>)
          initialHookState) =
       initialHookState\<lparr>isSubmittingRef := False, isSubmitting := False,
         message := ''Ignore budget submission''\<rparr>"
    by (rule mp [OF S [THEN conjunct2, THEN conjunct2, THEN conjunct2, THEN conjunct2,
            THEN conjunct2, THEN conjunct1]])
      (simp add: example_setBudget_stale2 example_stale envs)
  have a: "fst (addTransaction exampleClosure 5 False 2 2
          (exampleSubmitEnv\<lparr>su_ctx2 := switchedCtx\<rparr>) initialHookState) =
        initialHookState\<lparr>debugEncryptionContractAddress := address (cl_ledger exampleClosure),
              debugEncryptionUserAddress := Some exampleUser,
              debugEncryptionChainId := cl_chainId exampleClosure,
              lastAddAmount := Some 5, lastAddIsIncome := Some False,
              lastAddCategory := Some 2, lastAddCategoryKey := Some 2,
              lastAddAmountHandle := map_option hexlify (firstHandle (handles exampleEncrypted)),
              lastAddAmountProof := Some (proof_toString (inputProof exampleEncrypted)),
              lastAddMonth := Some (su_getMonth (exampleSubmitEnv\<lparr>su_ctx2 := switchedCtx\<rparr>) + 1),
              lastAddTimestamp := Some (su_now (exampleSubmitEnv\<lparr>su_ctx2 := switchedCtx\<rparr>) div 1000),
              lastAddTxHash := Some (hash \<lparr>hash = exampleTxHash\<rparr>),
              lastAddReceiptStatus := receiptStatus (Some \<lparr>status = Some 1\<rparr>),
              isSubmittingRef := False, isSubmitting := False,
              message := ''Ignore transaction submission''\<rparr>"
    by (rule mp [OF S [THEN conjunct2, THEN conjunct2, THEN conjunct2, THEN conjunct2,
            THEN conjunct2, THEN conjunct2, THEN conjunct2, THEN conjunct2]])
      (simp add: example_addTransaction_stale2_calls example_stale envs)
  have c: "clearBalance (fst (decryptBalance exampleClosure exampleDecryptEnv initialHookState)) \<noteq>
       clearBalance initialHookState"
    by (simp add: example_decryptBalance) (simp add: initialHookState_def)
  have z: "cl_balanceHandle exampleClosure \<noteq> Some ZeroHash"
    by (simp add: exampleClosure_def exampleHandle_neq)
  have nd: "\<not> staleAt exampleClosure (de_ctx1 exampleDecryptEnv)
      \<and> \<not> staleAt exampleClosure (de_ctx2 exampleDecryptEnv)"
    by (rule mp [OF F [THEN conjunct1]]) (simp add: c z)
  from a have a': "lastAddTxHash (fst (addTransaction exampleClosure 5 False 2 2
          (exampleSubmitEnv\<lparr>su_ctx2 := switchedCtx\<rparr>) initialHookState)) = Some exampleTxHash"
    "message (fst (addTransaction exampleClosure 5 False 2 2
          (exampleSubmitEnv\<lparr>su_ctx2 := switchedCtx\<rparr>) initialHookState)) =
       ''Ignore transaction submission''"
    "balanceHandle (fst (addTransaction exampleClosure 5 False 2 2
          (exampleSubmitEnv\<lparr>su_ctx2 := switchedCtx\<rparr>) initialHookState)) = None"
    by (simp_all add: initialHookState_def)
  have rd: "GetBalance (Hex0x ''5FbDB2315678afecb367f032d93F642f64180aa3'') 1
       \<in> set (snd (addTransaction exampleClosure 5 False 2 2 exampleSubmitEnv initialHookState))"
    by (simp add: example_addTransaction_calls)
  have ns: "\<not> staleAt exampleClosure (su_ctx1 exampleSubmitEnv)
      \<and> \<not> staleAt exampleClosure (su_ctx2 exampleSubmitEnv)"
    using bspec [OF F [THEN conjunct2, THEN conjunct2, THEN conjunct2, THEN conjunct2,
          THEN conjunct2, THEN conjunct2, THEN conjunct1] rd]
    by simp
  from example_stale b t g a' c nd rd ns show ?thesis
    by (intro conjI) simp_all
qed

end
